theory Spec2Isabelle
  imports Complex_Main
begin

section \<open>JavaScript values\<close>

text \<open>
  A JavaScript \<^verbatim>\<open>number\<close>, as far as this development needs it: the not-a-number value,
  the two infinities, and the finite numbers, taken as exact rationals (the rounding of
  IEEE doubles is not modelled).
\<close>

datatype jsnum = NaN | Num rat | PosInfinity | NegInfinity

text \<open>
  The loosely typed trees (\<^verbatim>\<open>any\<close>) that the XML library hands to the parser and
  takes from the builder.  An object is its list of own properties in insertion order.
\<close>

datatype jsval =
    JUndefined
  | JString string
  | JBool bool
  | JNumber jsnum
  | JObject "(string \<times> jsval) list"
  | JArray "jsval list"

section \<open>The canonical object model (refi-qda-interfaces.ts)\<close>

text \<open>
  Optional properties are options; arrays are lists.  The string-literal unions
  (\<^verbatim>\<open>DirectionType\<close>, \<^verbatim>\<open>ShapeType\<close>, ...) are strings at run time and are kept as
  strings.  The five reference interfaces have the same single property and are one
  record.  Numbers of the typed model are finite.
\<close>

type_synonym GUIDType = string
type_synonym RGBType = string
type_synonym DirectionType = string
type_synonym TypeOfVariableType = string
type_synonym ShapeType = string
type_synonym LineStyleType = string
type_synonym number = rat

record NoteRefType =
  targetGUID :: GUIDType

type_synonym CodeRefType = NoteRefType
type_synonym SourceRefType = NoteRefType
type_synonym SelectionRefType = NoteRefType
type_synonym VariableRefType = NoteRefType

record UserType =
  guid :: GUIDType
  name :: "string option"
  user_id :: "string option"

record UsersType =
  User :: "UserType list"

datatype CodeType = CodeType
  (Description: "string option")
  (NoteRef: "NoteRefType list option")
  (Code: "CodeType list option")
  (guid: GUIDType)
  (name: string)
  (isCodable: bool)
  (color: "RGBType option")

record CodesType =
  Code :: "CodeType list"

record CodeBookType =
  Codes :: CodesType

record VariableType =
  Description :: "string option"
  guid :: GUIDType
  name :: string
  typeOfVariable :: TypeOfVariableType

record VariablesType =
  Variable :: "VariableType list"

record VariableValueType =
  VariableRef :: VariableRefType
  TextValue :: "string option"
  BooleanValue :: "bool option"
  IntegerValue :: "number option"
  FloatValue :: "number option"
  DateValue :: "string option"
  DateTimeValue :: "string option"

record CaseType =
  Description :: "string option"
  CodeRef :: "CodeRefType list option"
  VariableValue :: "VariableValueType list option"
  SourceRef :: "SourceRefType list option"
  SelectionRef :: "SelectionRefType list option"
  guid :: GUIDType
  name :: "string option"

record CasesType =
  Case :: "CaseType list"

record SetType =
  Description :: "string option"
  MemberCode :: "CodeRefType list option"
  MemberSource :: "SourceRefType list option"
  MemberNote :: "NoteRefType list option"
  guid :: GUIDType
  name :: string

record SetsType =
  Set :: "SetType list"

record CodingType =
  CodeRef :: CodeRefType
  NoteRef :: "NoteRefType list option"
  guid :: GUIDType
  creatingUser :: "GUIDType option"
  creationDateTime :: "string option"

record PlainTextSelectionType =
  Description :: "string option"
  Coding :: "CodingType list option"
  NoteRef :: "NoteRefType list option"
  guid :: GUIDType
  name :: "string option"
  startPosition :: number
  endPosition :: number
  creatingUser :: "GUIDType option"
  creationDateTime :: "string option"
  modifyingUser :: "GUIDType option"
  modifiedDateTime :: "string option"

text \<open>
  \<^verbatim>\<open>TextSourceType\<close> declares no \<^verbatim>\<open>path\<close> and no \<^verbatim>\<open>currentPath\<close>; the export code
  reads and writes both on text sources through \<^verbatim>\<open>any\<close>, so the record carries them as
  the two extra properties an object may hold at run time.
\<close>

record TextSourceType =
  Description :: "string option"
  PlainTextContent :: "string option"
  PlainTextSelection :: "PlainTextSelectionType list option"
  Coding :: "CodingType list option"
  NoteRef :: "NoteRefType list option"
  VariableValue :: "VariableValueType list option"
  guid :: GUIDType
  name :: "string option"
  richTextPath :: "string option"
  plainTextPath :: "string option"
  creatingUser :: "GUIDType option"
  creationDateTime :: "string option"
  modifyingUser :: "GUIDType option"
  modifiedDateTime :: "string option"
  path :: "string option"
  currentPath :: "string option"

record PictureSelectionType =
  Description :: "string option"
  Coding :: "CodingType list option"
  NoteRef :: "NoteRefType list option"
  guid :: GUIDType
  name :: "string option"
  firstX :: number
  firstY :: number
  secondX :: number
  secondY :: number
  creatingUser :: "GUIDType option"
  creationDateTime :: "string option"
  modifyingUser :: "GUIDType option"
  modifiedDateTime :: "string option"

record PictureSourceType =
  Description :: "string option"
  TextDescription :: "TextSourceType option"
  PictureSelection :: "PictureSelectionType list option"
  Coding :: "CodingType list option"
  NoteRef :: "NoteRefType list option"
  VariableValue :: "VariableValueType list option"
  guid :: GUIDType
  name :: "string option"
  path :: "string option"
  currentPath :: "string option"
  creatingUser :: "GUIDType option"
  creationDateTime :: "string option"
  modifyingUser :: "GUIDType option"
  modifiedDateTime :: "string option"

record PDFSelectionType =
  Description :: "string option"
  Representation :: "TextSourceType option"
  Coding :: "CodingType list option"
  NoteRef :: "NoteRefType list option"
  guid :: GUIDType
  name :: "string option"
  page :: number
  firstX :: number
  firstY :: number
  secondX :: number
  secondY :: number
  creatingUser :: "GUIDType option"
  creationDateTime :: "string option"
  modifyingUser :: "GUIDType option"
  modifiedDateTime :: "string option"

record PDFSourceType =
  Description :: "string option"
  PDFSelection :: "PDFSelectionType list option"
  Representation :: "TextSourceType option"
  Coding :: "CodingType list option"
  NoteRef :: "NoteRefType list option"
  VariableValue :: "VariableValueType list option"
  guid :: GUIDType
  name :: "string option"
  path :: "string option"
  currentPath :: "string option"
  creatingUser :: "GUIDType option"
  creationDateTime :: "string option"
  modifyingUser :: "GUIDType option"
  modifiedDateTime :: "string option"

record SyncPointType =
  guid :: GUIDType
  timeStamp :: "number option"
  position :: "number option"

record TranscriptSelectionType =
  Description :: "string option"
  Coding :: "CodingType list option"
  NoteRef :: "NoteRefType list option"
  guid :: GUIDType
  name :: "string option"
  fromSyncPoint :: "GUIDType option"
  toSyncPoint :: "GUIDType option"
  creatingUser :: "GUIDType option"
  creationDateTime :: "string option"
  modifyingUser :: "GUIDType option"
  modifiedDateTime :: "string option"

record TranscriptType =
  Description :: "string option"
  PlainTextContent :: "string option"
  SyncPoint :: "SyncPointType list option"
  TranscriptSelection :: "TranscriptSelectionType list option"
  NoteRef :: "NoteRefType list option"
  guid :: GUIDType
  name :: "string option"
  richTextPath :: "string option"
  plainTextPath :: "string option"
  creatingUser :: "GUIDType option"
  creationDateTime :: "string option"
  modifyingUser :: "GUIDType option"
  modifiedDateTime :: "string option"

record AudioSelectionType =
  Description :: "string option"
  Coding :: "CodingType list option"
  NoteRef :: "NoteRefType list option"
  guid :: GUIDType
  name :: "string option"
  "begin" :: number
  "end" :: number
  creatingUser :: "GUIDType option"
  creationDateTime :: "string option"
  modifyingUser :: "GUIDType option"
  modifiedDateTime :: "string option"

record AudioSourceType =
  Description :: "string option"
  Transcript :: "TranscriptType list option"
  AudioSelection :: "AudioSelectionType list option"
  Coding :: "CodingType list option"
  NoteRef :: "NoteRefType list option"
  VariableValue :: "VariableValueType list option"
  guid :: GUIDType
  name :: "string option"
  path :: "string option"
  currentPath :: "string option"
  creatingUser :: "GUIDType option"
  creationDateTime :: "string option"
  modifyingUser :: "GUIDType option"
  modifiedDateTime :: "string option"

record VideoSelectionType =
  Description :: "string option"
  Coding :: "CodingType list option"
  NoteRef :: "NoteRefType list option"
  guid :: GUIDType
  name :: "string option"
  "begin" :: number
  "end" :: number
  creatingUser :: "GUIDType option"
  creationDateTime :: "string option"
  modifyingUser :: "GUIDType option"
  modifiedDateTime :: "string option"

record VideoSourceType =
  Description :: "string option"
  Transcript :: "TranscriptType list option"
  VideoSelection :: "VideoSelectionType list option"
  Coding :: "CodingType list option"
  NoteRef :: "NoteRefType list option"
  VariableValue :: "VariableValueType list option"
  guid :: GUIDType
  name :: "string option"
  path :: "string option"
  currentPath :: "string option"
  creatingUser :: "GUIDType option"
  creationDateTime :: "string option"
  modifyingUser :: "GUIDType option"
  modifiedDateTime :: "string option"

record VertexType =
  guid :: GUIDType
  representedGUID :: "GUIDType option"
  name :: "string option"
  firstX :: number
  firstY :: number
  secondX :: "number option"
  secondY :: "number option"
  shape :: "ShapeType option"
  color :: "RGBType option"

record EdgeType =
  guid :: GUIDType
  representedGUID :: "GUIDType option"
  name :: "string option"
  sourceVertex :: GUIDType
  targetVertex :: GUIDType
  color :: "RGBType option"
  direction :: "DirectionType option"
  lineStyle :: "LineStyleType option"

record GraphType =
  Vertex :: "VertexType list option"
  Edge :: "EdgeType list option"
  guid :: GUIDType
  name :: "string option"

record GraphsType =
  Graph :: "GraphType list"

record NotesType =
  Note :: "TextSourceType list"

record LinkType =
  NoteRef :: "NoteRefType list option"
  guid :: GUIDType
  name :: "string option"
  direction :: "DirectionType option"
  color :: "RGBType option"
  originGUID :: "GUIDType option"
  targetGUID :: "GUIDType option"

record LinksType =
  Link :: "LinkType list"

text \<open>
  The five source arrays.  The element types are parameters: a project in memory holds
  its source objects by reference (an address each), a snapshot of it holds them by value.
\<close>

record ('t, 'p, 'd, 'a, 'v) SourcesOf =
  TextSource :: "'t list option"
  PictureSource :: "'p list option"
  PDFSource :: "'d list option"
  AudioSource :: "'a list option"
  VideoSource :: "'v list option"

type_synonym SourcesType =
  "(TextSourceType, PictureSourceType, PDFSourceType, AudioSourceType, VideoSourceType) SourcesOf"

record 's ProjectOf =
  Users :: "UsersType option"
  CodeBook :: "CodeBookType option"
  Variables :: "VariablesType option"
  Cases :: "CasesType option"
  Sources :: "'s option"
  Notes :: "NotesType option"
  Links :: "LinksType option"
  Sets :: "SetsType option"
  Graphs :: "GraphsType option"
  Description :: "string option"
  NoteRef :: "NoteRefType list option"
  name :: string
  origin :: "string option"
  creatingUserGUID :: "GUIDType option"
  creationDateTime :: "string option"
  modifyingUserGUID :: "GUIDType option"
  modifiedDateTime :: "string option"
  basePath :: "string option"

type_synonym Project = "SourcesType ProjectOf"


section \<open>JavaScript helpers\<close>

text \<open>\<^verbatim>\<open>String.prototype.startsWith\<close> and \<^verbatim>\<open>substring(n)\<close>.\<close>

definition startsWith :: "string \<Rightarrow> string \<Rightarrow> bool" where
  "startsWith s p = (take (length p) s = p)"

definition substring :: "string \<Rightarrow> nat \<Rightarrow> string" where
  "substring s n = drop n s"

text \<open>A template literal renders an array index in decimal.\<close>

definition digit :: "nat \<Rightarrow> char" where
  "digit n = ''0123456789'' ! (n mod 10)"

function decimal :: "nat \<Rightarrow> string" where
  "decimal n = (if n < 10 then [digit n] else decimal (n div 10) @ [digit n])"
  by pat_completeness auto
termination
  by (relation "measure id") auto

text \<open>
  Truthiness of an optional string property: \<^verbatim>\<open>undefined\<close> and the empty string are
  falsy.  An array, even an empty one, is truthy.
\<close>

fun truthy :: "string option \<Rightarrow> bool" where
  "truthy None = False"
| "truthy (Some s) = (s \<noteq> [])"

text \<open>\<^verbatim>\<open>forEach((item, index) => ...)\<close> over an array, threading the state the callback mutates.\<close>

definition forEachI :: "('a \<Rightarrow> nat \<Rightarrow> 's \<Rightarrow> 's) \<Rightarrow> 'a list \<Rightarrow> 's \<Rightarrow> 's" where
  "forEachI f xs = fold (\<lambda>(i, x). f x i) (enumerate 0 xs)"

text \<open>\<^verbatim>\<open>if (x) { ... }\<close> on an optional object or array property.\<close>

definition whenSome :: "'a option \<Rightarrow> ('a \<Rightarrow> 's \<Rightarrow> 's) \<Rightarrow> 's \<Rightarrow> 's" where
  "whenSome x f s = (case x of None \<Rightarrow> s | Some v \<Rightarrow> f v s)"


section \<open>Source addressing (import/source-resolver.ts)\<close>

text \<open>
  A source address is a string with one of three scheme prefixes.  \<^verbatim>\<open>getSourceType\<close>
  tests the prefixes in the order internal, relative, absolute, and falls back to
  relative.
\<close>

datatype SourceKind = internal | relative | absolute

definition getSourceType :: "string \<Rightarrow> SourceKind" where
  "getSourceType pathString =
     (if startsWith pathString ''internal://'' then internal
      else if startsWith pathString ''relative://'' then relative
      else if startsWith pathString ''absolute://'' then absolute
      else relative)"


section \<open>The XML builder (export/xml-builder.ts)\<close>

text \<open>
  The builder turns a project into the tree that the XML library serialises: attributes
  under the key \<^verbatim>\<open>$\<close>, child elements under their names.  An optional attribute is set
  only when its value is truthy; a list is emitted only when it is present and non-empty.
\<close>

fun optJ :: "string option \<Rightarrow> jsval" where
  "optJ None = JUndefined"
| "optJ (Some s) = JString s"

definition jnum :: "number \<Rightarrow> jsval" where
  "jnum r = JNumber (Num r)"

text \<open>One step of \<^verbatim>\<open>optionalAttributes.forEach\<close>: \<^verbatim>\<open>if (rec[attr]) xml.$[attr] = rec[attr]\<close>.\<close>

definition optAttr :: "string \<Rightarrow> string option \<Rightarrow> (string \<times> jsval) list" where
  "optAttr attr v = (if truthy v then [(attr, optJ v)] else [])"

text \<open>\<^verbatim>\<open>if (x.Description) xml.Description = x.Description\<close>, and the same for text content.\<close>

definition optChild :: "string \<Rightarrow> string option \<Rightarrow> (string \<times> jsval) list" where
  "optChild key v = (if truthy v then [(key, optJ v)] else [])"

text \<open>\<^verbatim>\<open>if (x.F && x.F.length > 0) xml.F = prepare(x.F)\<close>.\<close>

definition optList :: "string \<Rightarrow> 'a list option \<Rightarrow> ('a list \<Rightarrow> jsval list) \<Rightarrow> (string \<times> jsval) list" where
  "optList key xs prepare =
     (case xs of None \<Rightarrow> [] | Some l \<Rightarrow> if length l > 0 then [(key, JArray (prepare l))] else [])"

definition prepareRefsForXml :: "NoteRefType list \<Rightarrow> jsval list" where
  "prepareRefsForXml refs =
     map (\<lambda>r. JObject [(''$'', JObject [(''targetGUID'', JString (NoteRefType.targetGUID r))])]) refs"

fun prepareCodeForXml :: "CodeType \<Rightarrow> jsval" where
  "prepareCodeForXml (CodeType desc noteRef sub g nm codable col) =
     JObject (
       [(''$'', JObject ([(''guid'', JString g), (''name'', JString nm), (''isCodable'', JBool codable)]
                        @ optAttr ''color'' col))]
       @ optChild ''Description'' desc
       @ optList ''NoteRef'' noteRef prepareRefsForXml
       @ (case sub of None \<Rightarrow> []
          | Some cs \<Rightarrow> if length cs > 0 then [(''Code'', JArray (map prepareCodeForXml cs))] else []))"

definition prepareCodesForXml :: "CodeType list \<Rightarrow> jsval list" where
  "prepareCodesForXml codes = map prepareCodeForXml codes"

definition prepareVariablesForXml :: "VariableType list \<Rightarrow> jsval list" where
  "prepareVariablesForXml variables =
     map (\<lambda>v. JObject (
            [(''$'', JObject [(''guid'', JString (VariableType.guid v)),
                             (''name'', JString (VariableType.name v)),
                             (''typeOfVariable'', JString (typeOfVariable v))])]
            @ optChild ''Description'' (VariableType.Description v))) variables"

text \<open>The value of a variable: the first of the six properties that is not \<^verbatim>\<open>undefined\<close>.\<close>

definition prepareVariableValuesForXml :: "VariableValueType list \<Rightarrow> jsval list" where
  "prepareVariableValuesForXml variableValues =
     map (\<lambda>v. JObject (
            [(''VariableRef'', JObject [(''$'', JObject [(''targetGUID'', JString (NoteRefType.targetGUID (VariableRef v)))])])]
            @ (case TextValue v of Some t \<Rightarrow> [(''TextValue'', JString t)] | None \<Rightarrow>
               case BooleanValue v of Some b \<Rightarrow> [(''BooleanValue'', JBool b)] | None \<Rightarrow>
               case IntegerValue v of Some i \<Rightarrow> [(''IntegerValue'', jnum i)] | None \<Rightarrow>
               case FloatValue v of Some f \<Rightarrow> [(''FloatValue'', jnum f)] | None \<Rightarrow>
               case DateValue v of Some d \<Rightarrow> [(''DateValue'', JString d)] | None \<Rightarrow>
               case DateTimeValue v of Some d \<Rightarrow> [(''DateTimeValue'', JString d)] | None \<Rightarrow> [])))
       variableValues"

definition prepareCasesForXml :: "CaseType list \<Rightarrow> jsval list" where
  "prepareCasesForXml cases =
     map (\<lambda>c. JObject (
            [(''$'', JObject [(''guid'', JString (CaseType.guid c)), (''name'', optJ (CaseType.name c))])]
            @ optChild ''Description'' (CaseType.Description c)
            @ optList ''CodeRef'' (CaseType.CodeRef c) prepareRefsForXml
            @ optList ''VariableValue'' (CaseType.VariableValue c) prepareVariableValuesForXml
            @ optList ''SourceRef'' (SourceRef c) prepareRefsForXml
            @ optList ''SelectionRef'' (SelectionRef c) prepareRefsForXml)) cases"

definition prepareCodingsForXml :: "CodingType list \<Rightarrow> jsval list" where
  "prepareCodingsForXml codings =
     map (\<lambda>c. JObject (
            [(''$'', JObject ([(''guid'', JString (CodingType.guid c))]
                             @ optAttr ''creatingUser'' (CodingType.creatingUser c)
                             @ optAttr ''creationDateTime'' (CodingType.creationDateTime c))),
             (''CodeRef'', JObject [(''$'', JObject [(''targetGUID'', JString (NoteRefType.targetGUID (CodingType.CodeRef c)))])])]
            @ optList ''NoteRef'' (CodingType.NoteRef c) prepareRefsForXml)) codings"

definition preparePlainTextSelectionsForXml :: "PlainTextSelectionType list \<Rightarrow> jsval list" where
  "preparePlainTextSelectionsForXml selections =
     map (\<lambda>s. JObject (
            [(''$'', JObject ([(''guid'', JString (PlainTextSelectionType.guid s)),
                              (''startPosition'', jnum (startPosition s)),
                              (''endPosition'', jnum (endPosition s))]
                             @ optAttr ''name'' (PlainTextSelectionType.name s)
                             @ optAttr ''creatingUser'' (PlainTextSelectionType.creatingUser s)
                             @ optAttr ''creationDateTime'' (PlainTextSelectionType.creationDateTime s)
                             @ optAttr ''modifyingUser'' (PlainTextSelectionType.modifyingUser s)
                             @ optAttr ''modifiedDateTime'' (PlainTextSelectionType.modifiedDateTime s)))]
            @ optChild ''Description'' (PlainTextSelectionType.Description s)
            @ optList ''Coding'' (PlainTextSelectionType.Coding s) prepareCodingsForXml
            @ optList ''NoteRef'' (PlainTextSelectionType.NoteRef s) prepareRefsForXml)) selections"

text \<open>The builder never reads a text source's \<^verbatim>\<open>path\<close> or \<^verbatim>\<open>currentPath\<close>.\<close>

definition prepareTextSourcesForXml :: "TextSourceType list \<Rightarrow> jsval list" where
  "prepareTextSourcesForXml sources =
     map (\<lambda>s. JObject (
            [(''$'', JObject ([(''guid'', JString (TextSourceType.guid s))]
                             @ optAttr ''name'' (TextSourceType.name s)
                             @ optAttr ''richTextPath'' (TextSourceType.richTextPath s)
                             @ optAttr ''plainTextPath'' (TextSourceType.plainTextPath s)
                             @ optAttr ''creatingUser'' (TextSourceType.creatingUser s)
                             @ optAttr ''creationDateTime'' (TextSourceType.creationDateTime s)
                             @ optAttr ''modifyingUser'' (TextSourceType.modifyingUser s)
                             @ optAttr ''modifiedDateTime'' (TextSourceType.modifiedDateTime s)))]
            @ optChild ''Description'' (TextSourceType.Description s)
            @ optChild ''PlainTextContent'' (TextSourceType.PlainTextContent s)
            @ optList ''PlainTextSelection'' (PlainTextSelection s) preparePlainTextSelectionsForXml
            @ optList ''Coding'' (TextSourceType.Coding s) prepareCodingsForXml
            @ optList ''NoteRef'' (TextSourceType.NoteRef s) prepareRefsForXml
            @ optList ''VariableValue'' (TextSourceType.VariableValue s) prepareVariableValuesForXml)) sources"

text \<open>
  \<^verbatim>\<open>prepareTextSourcesForXml([x])[0]\<close>, for a text source nested as \<^verbatim>\<open>TextDescription\<close>
  or \<^verbatim>\<open>Representation\<close>.
\<close>

definition optTextSource :: "string \<Rightarrow> TextSourceType option \<Rightarrow> (string \<times> jsval) list" where
  "optTextSource key x =
     (case x of None \<Rightarrow> [] | Some t \<Rightarrow> [(key, hd (prepareTextSourcesForXml [t]))])"

definition preparePictureSelectionsForXml :: "PictureSelectionType list \<Rightarrow> jsval list" where
  "preparePictureSelectionsForXml selections =
     map (\<lambda>s. JObject (
            [(''$'', JObject ([(''guid'', JString (PictureSelectionType.guid s)),
                              (''firstX'', jnum (PictureSelectionType.firstX s)),
                              (''firstY'', jnum (PictureSelectionType.firstY s)),
                              (''secondX'', jnum (PictureSelectionType.secondX s)),
                              (''secondY'', jnum (PictureSelectionType.secondY s))]
                             @ optAttr ''name'' (PictureSelectionType.name s)
                             @ optAttr ''creatingUser'' (PictureSelectionType.creatingUser s)
                             @ optAttr ''creationDateTime'' (PictureSelectionType.creationDateTime s)
                             @ optAttr ''modifyingUser'' (PictureSelectionType.modifyingUser s)
                             @ optAttr ''modifiedDateTime'' (PictureSelectionType.modifiedDateTime s)))]
            @ optChild ''Description'' (PictureSelectionType.Description s)
            @ optList ''Coding'' (PictureSelectionType.Coding s) prepareCodingsForXml
            @ optList ''NoteRef'' (PictureSelectionType.NoteRef s) prepareRefsForXml)) selections"

definition preparePictureSourcesForXml :: "PictureSourceType list \<Rightarrow> jsval list" where
  "preparePictureSourcesForXml sources =
     map (\<lambda>s. JObject (
            [(''$'', JObject ([(''guid'', JString (PictureSourceType.guid s))]
                             @ optAttr ''name'' (PictureSourceType.name s)
                             @ optAttr ''path'' (PictureSourceType.path s)
                             @ optAttr ''currentPath'' (PictureSourceType.currentPath s)
                             @ optAttr ''creatingUser'' (PictureSourceType.creatingUser s)
                             @ optAttr ''creationDateTime'' (PictureSourceType.creationDateTime s)
                             @ optAttr ''modifyingUser'' (PictureSourceType.modifyingUser s)
                             @ optAttr ''modifiedDateTime'' (PictureSourceType.modifiedDateTime s)))]
            @ optChild ''Description'' (PictureSourceType.Description s)
            @ optTextSource ''TextDescription'' (TextDescription s)
            @ optList ''PictureSelection'' (PictureSelection s) preparePictureSelectionsForXml
            @ optList ''Coding'' (PictureSourceType.Coding s) prepareCodingsForXml
            @ optList ''NoteRef'' (PictureSourceType.NoteRef s) prepareRefsForXml
            @ optList ''VariableValue'' (PictureSourceType.VariableValue s) prepareVariableValuesForXml)) sources"

definition preparePDFSelectionsForXml :: "PDFSelectionType list \<Rightarrow> jsval list" where
  "preparePDFSelectionsForXml selections =
     map (\<lambda>s. JObject (
            [(''$'', JObject ([(''guid'', JString (PDFSelectionType.guid s)),
                              (''page'', jnum (page s)),
                              (''firstX'', jnum (PDFSelectionType.firstX s)),
                              (''firstY'', jnum (PDFSelectionType.firstY s)),
                              (''secondX'', jnum (PDFSelectionType.secondX s)),
                              (''secondY'', jnum (PDFSelectionType.secondY s))]
                             @ optAttr ''name'' (PDFSelectionType.name s)
                             @ optAttr ''creatingUser'' (PDFSelectionType.creatingUser s)
                             @ optAttr ''creationDateTime'' (PDFSelectionType.creationDateTime s)
                             @ optAttr ''modifyingUser'' (PDFSelectionType.modifyingUser s)
                             @ optAttr ''modifiedDateTime'' (PDFSelectionType.modifiedDateTime s)))]
            @ optChild ''Description'' (PDFSelectionType.Description s)
            @ optTextSource ''Representation'' (PDFSelectionType.Representation s)
            @ optList ''Coding'' (PDFSelectionType.Coding s) prepareCodingsForXml
            @ optList ''NoteRef'' (PDFSelectionType.NoteRef s) prepareRefsForXml)) selections"

definition preparePDFSourcesForXml :: "PDFSourceType list \<Rightarrow> jsval list" where
  "preparePDFSourcesForXml sources =
     map (\<lambda>s. JObject (
            [(''$'', JObject ([(''guid'', JString (PDFSourceType.guid s))]
                             @ optAttr ''name'' (PDFSourceType.name s)
                             @ optAttr ''path'' (PDFSourceType.path s)
                             @ optAttr ''currentPath'' (PDFSourceType.currentPath s)
                             @ optAttr ''creatingUser'' (PDFSourceType.creatingUser s)
                             @ optAttr ''creationDateTime'' (PDFSourceType.creationDateTime s)
                             @ optAttr ''modifyingUser'' (PDFSourceType.modifyingUser s)
                             @ optAttr ''modifiedDateTime'' (PDFSourceType.modifiedDateTime s)))]
            @ optChild ''Description'' (PDFSourceType.Description s)
            @ optList ''PDFSelection'' (PDFSelection s) preparePDFSelectionsForXml
            @ optTextSource ''Representation'' (PDFSourceType.Representation s)
            @ optList ''Coding'' (PDFSourceType.Coding s) prepareCodingsForXml
            @ optList ''NoteRef'' (PDFSourceType.NoteRef s) prepareRefsForXml
            @ optList ''VariableValue'' (PDFSourceType.VariableValue s) prepareVariableValuesForXml)) sources"

text \<open>A sync point's optional numbers are emitted when they are not \<^verbatim>\<open>undefined\<close>.\<close>

definition optNum :: "string \<Rightarrow> number option \<Rightarrow> (string \<times> jsval) list" where
  "optNum attr v = (case v of None \<Rightarrow> [] | Some r \<Rightarrow> [(attr, jnum r)])"

definition prepareSyncPointsForXml :: "SyncPointType list \<Rightarrow> jsval list" where
  "prepareSyncPointsForXml syncPoints =
     map (\<lambda>s. JObject
            [(''$'', JObject ([(''guid'', JString (SyncPointType.guid s))]
                             @ optNum ''timeStamp'' (timeStamp s)
                             @ optNum ''position'' (position s)))]) syncPoints"

definition prepareTranscriptSelectionsForXml :: "TranscriptSelectionType list \<Rightarrow> jsval list" where
  "prepareTranscriptSelectionsForXml selections =
     map (\<lambda>s. JObject (
            [(''$'', JObject ([(''guid'', JString (TranscriptSelectionType.guid s))]
                             @ optAttr ''name'' (TranscriptSelectionType.name s)
                             @ optAttr ''fromSyncPoint'' (fromSyncPoint s)
                             @ optAttr ''toSyncPoint'' (toSyncPoint s)
                             @ optAttr ''creatingUser'' (TranscriptSelectionType.creatingUser s)
                             @ optAttr ''creationDateTime'' (TranscriptSelectionType.creationDateTime s)
                             @ optAttr ''modifyingUser'' (TranscriptSelectionType.modifyingUser s)
                             @ optAttr ''modifiedDateTime'' (TranscriptSelectionType.modifiedDateTime s)))]
            @ optChild ''Description'' (TranscriptSelectionType.Description s)
            @ optList ''Coding'' (TranscriptSelectionType.Coding s) prepareCodingsForXml
            @ optList ''NoteRef'' (TranscriptSelectionType.NoteRef s) prepareRefsForXml)) selections"

definition prepareTranscriptsForXml :: "TranscriptType list \<Rightarrow> jsval list" where
  "prepareTranscriptsForXml transcripts =
     map (\<lambda>t. JObject (
            [(''$'', JObject ([(''guid'', JString (TranscriptType.guid t))]
                             @ optAttr ''name'' (TranscriptType.name t)
                             @ optAttr ''richTextPath'' (TranscriptType.richTextPath t)
                             @ optAttr ''plainTextPath'' (TranscriptType.plainTextPath t)
                             @ optAttr ''creatingUser'' (TranscriptType.creatingUser t)
                             @ optAttr ''creationDateTime'' (TranscriptType.creationDateTime t)
                             @ optAttr ''modifyingUser'' (TranscriptType.modifyingUser t)
                             @ optAttr ''modifiedDateTime'' (TranscriptType.modifiedDateTime t)))]
            @ optChild ''Description'' (TranscriptType.Description t)
            @ optChild ''PlainTextContent'' (TranscriptType.PlainTextContent t)
            @ optList ''SyncPoint'' (SyncPoint t) prepareSyncPointsForXml
            @ optList ''TranscriptSelection'' (TranscriptSelection t) prepareTranscriptSelectionsForXml
            @ optList ''NoteRef'' (TranscriptType.NoteRef t) prepareRefsForXml)) transcripts"

definition prepareAudioSelectionsForXml :: "AudioSelectionType list \<Rightarrow> jsval list" where
  "prepareAudioSelectionsForXml selections =
     map (\<lambda>s. JObject (
            [(''$'', JObject ([(''guid'', JString (AudioSelectionType.guid s)),
                              (''begin'', jnum (AudioSelectionType.begin s)),
                              (''end'', jnum (AudioSelectionType.end s))]
                             @ optAttr ''name'' (AudioSelectionType.name s)
                             @ optAttr ''creatingUser'' (AudioSelectionType.creatingUser s)
                             @ optAttr ''creationDateTime'' (AudioSelectionType.creationDateTime s)
                             @ optAttr ''modifyingUser'' (AudioSelectionType.modifyingUser s)
                             @ optAttr ''modifiedDateTime'' (AudioSelectionType.modifiedDateTime s)))]
            @ optChild ''Description'' (AudioSelectionType.Description s)
            @ optList ''Coding'' (AudioSelectionType.Coding s) prepareCodingsForXml
            @ optList ''NoteRef'' (AudioSelectionType.NoteRef s) prepareRefsForXml)) selections"

definition prepareAudioSourcesForXml :: "AudioSourceType list \<Rightarrow> jsval list" where
  "prepareAudioSourcesForXml sources =
     map (\<lambda>s. JObject (
            [(''$'', JObject ([(''guid'', JString (AudioSourceType.guid s))]
                             @ optAttr ''name'' (AudioSourceType.name s)
                             @ optAttr ''path'' (AudioSourceType.path s)
                             @ optAttr ''currentPath'' (AudioSourceType.currentPath s)
                             @ optAttr ''creatingUser'' (AudioSourceType.creatingUser s)
                             @ optAttr ''creationDateTime'' (AudioSourceType.creationDateTime s)
                             @ optAttr ''modifyingUser'' (AudioSourceType.modifyingUser s)
                             @ optAttr ''modifiedDateTime'' (AudioSourceType.modifiedDateTime s)))]
            @ optChild ''Description'' (AudioSourceType.Description s)
            @ optList ''Transcript'' (AudioSourceType.Transcript s) prepareTranscriptsForXml
            @ optList ''AudioSelection'' (AudioSelection s) prepareAudioSelectionsForXml
            @ optList ''Coding'' (AudioSourceType.Coding s) prepareCodingsForXml
            @ optList ''NoteRef'' (AudioSourceType.NoteRef s) prepareRefsForXml
            @ optList ''VariableValue'' (AudioSourceType.VariableValue s) prepareVariableValuesForXml)) sources"

definition prepareVideoSelectionsForXml :: "VideoSelectionType list \<Rightarrow> jsval list" where
  "prepareVideoSelectionsForXml selections =
     map (\<lambda>s. JObject (
            [(''$'', JObject ([(''guid'', JString (VideoSelectionType.guid s)),
                              (''begin'', jnum (VideoSelectionType.begin s)),
                              (''end'', jnum (VideoSelectionType.end s))]
                             @ optAttr ''name'' (VideoSelectionType.name s)
                             @ optAttr ''creatingUser'' (VideoSelectionType.creatingUser s)
                             @ optAttr ''creationDateTime'' (VideoSelectionType.creationDateTime s)
                             @ optAttr ''modifyingUser'' (VideoSelectionType.modifyingUser s)
                             @ optAttr ''modifiedDateTime'' (VideoSelectionType.modifiedDateTime s)))]
            @ optChild ''Description'' (VideoSelectionType.Description s)
            @ optList ''Coding'' (VideoSelectionType.Coding s) prepareCodingsForXml
            @ optList ''NoteRef'' (VideoSelectionType.NoteRef s) prepareRefsForXml)) selections"

definition prepareVideoSourcesForXml :: "VideoSourceType list \<Rightarrow> jsval list" where
  "prepareVideoSourcesForXml sources =
     map (\<lambda>s. JObject (
            [(''$'', JObject ([(''guid'', JString (VideoSourceType.guid s))]
                             @ optAttr ''name'' (VideoSourceType.name s)
                             @ optAttr ''path'' (VideoSourceType.path s)
                             @ optAttr ''currentPath'' (VideoSourceType.currentPath s)
                             @ optAttr ''creatingUser'' (VideoSourceType.creatingUser s)
                             @ optAttr ''creationDateTime'' (VideoSourceType.creationDateTime s)
                             @ optAttr ''modifyingUser'' (VideoSourceType.modifyingUser s)
                             @ optAttr ''modifiedDateTime'' (VideoSourceType.modifiedDateTime s)))]
            @ optChild ''Description'' (VideoSourceType.Description s)
            @ optList ''Transcript'' (VideoSourceType.Transcript s) prepareTranscriptsForXml
            @ optList ''VideoSelection'' (VideoSelection s) prepareVideoSelectionsForXml
            @ optList ''Coding'' (VideoSourceType.Coding s) prepareCodingsForXml
            @ optList ''NoteRef'' (VideoSourceType.NoteRef s) prepareRefsForXml
            @ optList ''VariableValue'' (VideoSourceType.VariableValue s) prepareVariableValuesForXml)) sources"

definition prepareSourcesForXml :: "SourcesType \<Rightarrow> jsval" where
  "prepareSourcesForXml sources =
     JObject (
       optList ''TextSource'' (TextSource sources) prepareTextSourcesForXml
       @ optList ''PictureSource'' (PictureSource sources) preparePictureSourcesForXml
       @ optList ''PDFSource'' (PDFSource sources) preparePDFSourcesForXml
       @ optList ''AudioSource'' (AudioSource sources) prepareAudioSourcesForXml
       @ optList ''VideoSource'' (VideoSource sources) prepareVideoSourcesForXml)"

definition prepareLinksForXml :: "LinkType list \<Rightarrow> jsval list" where
  "prepareLinksForXml links =
     map (\<lambda>l. JObject (
            [(''$'', JObject ([(''guid'', JString (LinkType.guid l)), (''name'', optJ (LinkType.name l))]
                             @ optAttr ''direction'' (LinkType.direction l)
                             @ optAttr ''color'' (LinkType.color l)
                             @ optAttr ''originGUID'' (originGUID l)
                             @ optAttr ''targetGUID'' (LinkType.targetGUID l)))]
            @ optList ''NoteRef'' (LinkType.NoteRef l) prepareRefsForXml)) links"

definition prepareVerticesForXml :: "VertexType list \<Rightarrow> jsval list" where
  "prepareVerticesForXml vertices =
     map (\<lambda>v. JObject
            [(''$'', JObject ([(''guid'', JString (VertexType.guid v)),
                              (''firstX'', jnum (VertexType.firstX v)),
                              (''firstY'', jnum (VertexType.firstY v))]
                             @ optAttr ''representedGUID'' (VertexType.representedGUID v)
                             @ optAttr ''name'' (VertexType.name v)
                             @ optNum ''secondX'' (VertexType.secondX v)
                             @ optNum ''secondY'' (VertexType.secondY v)
                             @ optAttr ''shape'' (shape v)
                             @ optAttr ''color'' (VertexType.color v)))]) vertices"

definition prepareEdgesForXml :: "EdgeType list \<Rightarrow> jsval list" where
  "prepareEdgesForXml edges =
     map (\<lambda>e. JObject
            [(''$'', JObject ([(''guid'', JString (EdgeType.guid e)),
                              (''sourceVertex'', JString (sourceVertex e)),
                              (''targetVertex'', JString (targetVertex e))]
                             @ optAttr ''representedGUID'' (EdgeType.representedGUID e)
                             @ optAttr ''name'' (EdgeType.name e)
                             @ optAttr ''color'' (EdgeType.color e)
                             @ optAttr ''direction'' (EdgeType.direction e)
                             @ optAttr ''lineStyle'' (lineStyle e)))]) edges"

definition prepareGraphsForXml :: "GraphType list \<Rightarrow> jsval list" where
  "prepareGraphsForXml graphs =
     map (\<lambda>g. JObject (
            [(''$'', JObject [(''guid'', JString (GraphType.guid g)), (''name'', optJ (GraphType.name g))])]
            @ optList ''Vertex'' (Vertex g) prepareVerticesForXml
            @ optList ''Edge'' (Edge g) prepareEdgesForXml)) graphs"

definition prepareSetsForXml :: "SetType list \<Rightarrow> jsval list" where
  "prepareSetsForXml sets =
     map (\<lambda>s. JObject (
            [(''$'', JObject [(''guid'', JString (SetType.guid s)), (''name'', JString (SetType.name s))])]
            @ optChild ''Description'' (SetType.Description s)
            @ optList ''MemberCode'' (MemberCode s) prepareRefsForXml
            @ optList ''MemberSource'' (MemberSource s) prepareRefsForXml
            @ optList ''MemberNote'' (MemberNote s) prepareRefsForXml)) sets"

text \<open>\<^verbatim>\<open>if (project.X) xmlProject.X = { Y: prepare(project.X.Y) }\<close> for the wrapped lists.\<close>

definition wrapped :: "string \<Rightarrow> string \<Rightarrow> 'w option \<Rightarrow> ('w \<Rightarrow> jsval list) \<Rightarrow> (string \<times> jsval) list" where
  "wrapped outer inner w prepare =
     (case w of None \<Rightarrow> [] | Some x \<Rightarrow> [(outer, JObject [(inner, JArray (prepare x))])])"

definition prepareProjectForXml :: "Project \<Rightarrow> jsval" where
  "prepareProjectForXml project =
     JObject (
       [(''$'', JObject ([(''name'', JString (name project))]
                        @ optAttr ''origin'' (origin project)
                        @ optAttr ''creatingUserGUID'' (creatingUserGUID project)
                        @ optAttr ''creationDateTime'' (creationDateTime project)
                        @ optAttr ''modifyingUserGUID'' (modifyingUserGUID project)
                        @ optAttr ''modifiedDateTime'' (modifiedDateTime project)
                        @ optAttr ''basePath'' (basePath project)))]
       @ optChild ''Description'' (Description project)
       @ optList ''NoteRef'' (NoteRef project) prepareRefsForXml
       @ wrapped ''Users'' ''User'' (Users project)
           (\<lambda>us. map (\<lambda>user. JObject [(''$'', JObject [(''guid'', JString (UserType.guid user)),
                                                       (''name'', optJ (UserType.name user)),
                                                       (''id'', optJ (user_id user))])]) (User us))
       @ (case CodeBook project of None \<Rightarrow> []
          | Some cb \<Rightarrow> [(''CodeBook'', JObject [(''Codes'', JObject [(''Code'', JArray (prepareCodesForXml (CodesType.Code (Codes cb))))])])])
       @ wrapped ''Variables'' ''Variable'' (Variables project) (\<lambda>v. prepareVariablesForXml (Variable v))
       @ wrapped ''Cases'' ''Case'' (Cases project) (\<lambda>c. prepareCasesForXml (Case c))
       @ (case Sources project of None \<Rightarrow> [] | Some s \<Rightarrow> [(''Sources'', prepareSourcesForXml s)])
       @ wrapped ''Notes'' ''Note'' (Notes project) (\<lambda>n. prepareTextSourcesForXml (Note n))
       @ wrapped ''Links'' ''Link'' (Links project) (\<lambda>l. prepareLinksForXml (Link l))
       @ wrapped ''Sets'' ''Set'' (Sets project) (\<lambda>s. prepareSetsForXml (SetsType.Set s))
       @ wrapped ''Graphs'' ''Graph'' (Graphs project) (\<lambda>g. prepareGraphsForXml (Graph g)))"

text \<open>
  \<^verbatim>\<open>Builder.buildObject\<close> belongs to the XML library and is a parameter: it returns
  the document text, or fails with a message.  \<^verbatim>\<open>buildQDEFile\<close> hands it the namespace
  attributes and the prepared project, and turns a failure into an export error.
\<close>

datatype ExportError = ExportError string "string list"

definition buildQDEFile :: "(jsval \<Rightarrow> string + string) \<Rightarrow> Project \<Rightarrow> ExportError + string" where
  "buildQDEFile buildObject project =
     (case buildObject (JObject
             [(''$'', JObject [(''xmlns'', JString ''urn:QDA-XML:project:1.0''),
                              (''xmlns:xsi'', JString ''http://www.w3.org/2001/XMLSchema-instance''),
                              (''xsi:schemaLocation'', JString ''urn:QDA-XML:project:1.0 Project.xsd'')]),
              (''Project'', prepareProjectForXml project)]) of
        Inl msg \<Rightarrow> Inl (ExportError ''Failed to build QDE file'' [msg])
      | Inr xml \<Rightarrow> Inr xml)"


section \<open>Validation before export (export/validators.ts)\<close>

subsection \<open>Identifiers\<close>

text \<open>
  The pattern \<^verbatim>\<open>/^[0-9a-fA-F]{8}-[0-9a-fA-F]{4}-[0-9a-fA-F]{4}-[0-9a-fA-F]{4}-[0-9a-fA-F]{12}$/\<close>:
  five runs of hexadecimal digits of lengths 8, 4, 4, 4 and 12 with a hyphen between
  them, and nothing before or after.
\<close>

definition isHexDigit :: "char \<Rightarrow> bool" where
  "isHexDigit c = (c \<in> set ''0123456789abcdefABCDEF'')"

fun hexRun :: "nat \<Rightarrow> string \<Rightarrow> string option" where
  "hexRun 0 s = Some s"
| "hexRun (Suc n) [] = None"
| "hexRun (Suc n) (c # cs) = (if isHexDigit c then hexRun n cs else None)"

fun hyphen :: "string \<Rightarrow> string option" where
  "hyphen [] = None"
| "hyphen (c # cs) = (if c = CHR ''-'' then Some cs else None)"

definition guidPattern_test :: "string \<Rightarrow> bool" where
  "guidPattern_test s =
     (Option.bind (Option.bind (Option.bind (Option.bind (Option.bind (Option.bind (Option.bind (Option.bind
        (hexRun 8 s) hyphen) (hexRun 4)) hyphen) (hexRun 4)) hyphen) (hexRun 4)) hyphen) (hexRun 12)
      = Some [])"

text \<open>
  The state of \<^verbatim>\<open>validateProjectGUIDs\<close>: the error list and the map from each
  identifier seen so far to the path it was first seen at.
\<close>

type_synonym GuidState = "string list \<times> (string \<rightharpoonup> string)"

definition checkGuid :: "string \<Rightarrow> string \<Rightarrow> GuidState \<Rightarrow> GuidState" where
  "checkGuid gid context st =
     (case st of (errors, guidMap) \<Rightarrow>
        if gid = [] then (errors @ [''Missing GUID in '' @ context], guidMap)
        else if \<not> guidPattern_test gid then
          (errors @ [''Invalid GUID format in '' @ context @ '': '' @ gid], guidMap)
        else (case guidMap gid of
                Some first \<Rightarrow>
                  (errors @ [''Duplicate GUID '' @ gid @ '' in '' @ context @ '' and '' @ first], guidMap)
              | None \<Rightarrow> (errors, guidMap(gid \<mapsto> context))))"

text \<open>\<^verbatim>\<open>`${path}[${index}]`\<close>\<close>

definition idx :: "string \<Rightarrow> nat \<Rightarrow> string" where
  "idx p index = p @ ''['' @ decimal index @ '']''"

text \<open>
  \<^verbatim>\<open>checkCodes\<close>: every code of the list in order, each followed by its nested codes.
  The third argument is the index the \<^verbatim>\<open>forEach\<close> has reached.
\<close>

fun checkCodes :: "CodeType list \<Rightarrow> string \<Rightarrow> nat \<Rightarrow> GuidState \<Rightarrow> GuidState" where
  "checkCodes [] p index st = st"
| "checkCodes (CodeType desc noteRef sub g nm codable col # codes) p index st =
     checkCodes codes p (Suc index)
       (case sub of
          None \<Rightarrow> checkGuid g (idx p index) st
        | Some cs \<Rightarrow> checkCodes cs (idx p index @ ''.Code'') 0 (checkGuid g (idx p index) st))"

definition checkCodings :: "CodingType list option \<Rightarrow> string \<Rightarrow> GuidState \<Rightarrow> GuidState" where
  "checkCodings codings p =
     whenSome codings (forEachI (\<lambda>coding codingIndex.
        checkGuid (CodingType.guid coding) (idx (p @ ''.Coding'') codingIndex)))"

text \<open>
  \<^verbatim>\<open>checkSourceSelections(source, type, index, selectionType)\<close> reads the selection list
  as \<^verbatim>\<open>source[selectionType]\<close>; here the list, its two accessors and the source's own
  codings are passed in.
\<close>

definition checkSourceSelections ::
  "'sel list option \<Rightarrow> ('sel \<Rightarrow> GUIDType) \<Rightarrow> ('sel \<Rightarrow> CodingType list option) \<Rightarrow> CodingType list option
   \<Rightarrow> string \<Rightarrow> nat \<Rightarrow> string \<Rightarrow> GuidState \<Rightarrow> GuidState" where
  "checkSourceSelections selections selGuid selCoding sourceCoding type index selectionType st =
     checkCodings sourceCoding (idx (''Sources.'' @ type) index)
       (whenSome selections (forEachI (\<lambda>selection selIndex st'.
            checkCodings (selCoding selection) (idx (idx (''Sources.'' @ type) index @ ''.'' @ selectionType) selIndex)
              (checkGuid (selGuid selection) (idx (idx (''Sources.'' @ type) index @ ''.'' @ selectionType) selIndex) st')))
          st)"

definition checkTranscripts :: "TranscriptType list option \<Rightarrow> string \<Rightarrow> nat \<Rightarrow> GuidState \<Rightarrow> GuidState" where
  "checkTranscripts transcripts type index =
     whenSome transcripts (forEachI (\<lambda>transcript transIndex st.
        whenSome (TranscriptSelection transcript) (forEachI (\<lambda>selection selIndex.
            checkGuid (TranscriptSelectionType.guid selection)
              (idx (idx (idx (''Sources.'' @ type) index @ ''.Transcript'') transIndex @ ''.TranscriptSelection'') selIndex)))
          (whenSome (SyncPoint transcript) (forEachI (\<lambda>syncPoint syncIndex.
              checkGuid (SyncPointType.guid syncPoint)
                (idx (idx (idx (''Sources.'' @ type) index @ ''.Transcript'') transIndex @ ''.SyncPoint'') syncIndex)))
            (checkGuid (TranscriptType.guid transcript)
               (idx (idx (''Sources.'' @ type) index @ ''.Transcript'') transIndex) st))))"

definition checkSourcesGuids :: "SourcesType \<Rightarrow> GuidState \<Rightarrow> GuidState" where
  "checkSourcesGuids sources st =
     (let
        s1 = whenSome (TextSource sources) (forEachI (\<lambda>source index st'.
               checkSourceSelections (PlainTextSelection source) PlainTextSelectionType.guid
                   PlainTextSelectionType.Coding (TextSourceType.Coding source)
                   ''TextSource'' index ''PlainTextSelection''
                 (checkGuid (TextSourceType.guid source) (idx ''Sources.TextSource'' index) st'))) st;
        s2 = whenSome (PictureSource sources) (forEachI (\<lambda>source index st'.
               checkSourceSelections (PictureSelection source) PictureSelectionType.guid
                   PictureSelectionType.Coding (PictureSourceType.Coding source)
                   ''PictureSource'' index ''PictureSelection''
                 (checkGuid (PictureSourceType.guid source) (idx ''Sources.PictureSource'' index) st'))) s1;
        s3 = whenSome (PDFSource sources) (forEachI (\<lambda>source index st'.
               checkSourceSelections (PDFSelection source) PDFSelectionType.guid
                   PDFSelectionType.Coding (PDFSourceType.Coding source)
                   ''PDFSource'' index ''PDFSelection''
                 (checkGuid (PDFSourceType.guid source) (idx ''Sources.PDFSource'' index) st'))) s2;
        s4 = whenSome (AudioSource sources) (forEachI (\<lambda>source index st'.
               checkTranscripts (AudioSourceType.Transcript source) ''AudioSource'' index
                 (checkSourceSelections (AudioSelection source) AudioSelectionType.guid
                     AudioSelectionType.Coding (AudioSourceType.Coding source)
                     ''AudioSource'' index ''AudioSelection''
                   (checkGuid (AudioSourceType.guid source) (idx ''Sources.AudioSource'' index) st')))) s3;
        s5 = whenSome (VideoSource sources) (forEachI (\<lambda>source index st'.
               checkTranscripts (VideoSourceType.Transcript source) ''VideoSource'' index
                 (checkSourceSelections (VideoSelection source) VideoSelectionType.guid
                     VideoSelectionType.Coding (VideoSourceType.Coding source)
                     ''VideoSource'' index ''VideoSelection''
                   (checkGuid (VideoSourceType.guid source) (idx ''Sources.VideoSource'' index) st')))) s4
      in s5)"

definition checkGraphsGuids :: "GraphType list \<Rightarrow> GuidState \<Rightarrow> GuidState" where
  "checkGraphsGuids graphs =
     forEachI (\<lambda>graph index st.
        whenSome (Edge graph) (forEachI (\<lambda>edge edgeIndex.
            checkGuid (EdgeType.guid edge) (idx (idx ''Graphs.Graph'' index @ ''.Edge'') edgeIndex)))
          (whenSome (Vertex graph) (forEachI (\<lambda>vertex vertexIndex.
              checkGuid (VertexType.guid vertex) (idx (idx ''Graphs.Graph'' index @ ''.Vertex'') vertexIndex)))
            (checkGuid (GraphType.guid graph) (idx ''Graphs.Graph'' index) st))) graphs"

text \<open>
  \<^verbatim>\<open>validateProjectGUIDs\<close>: users, codes, variables, cases, the five source lists, sets,
  graphs and links, in this order.  Notes are not visited.
\<close>

definition validateProjectGUIDs :: "Project \<Rightarrow> string list" where
  "validateProjectGUIDs project =
     (let
        s0 = ([], Map.empty);
        s1 = whenSome (Users project) (\<lambda>us. forEachI (\<lambda>user index.
               checkGuid (UserType.guid user) (idx ''Users.User'' index)) (User us)) s0;
        s2 = whenSome (CodeBook project) (\<lambda>cb.
               checkCodes (CodesType.Code (Codes cb)) ''CodeBook.Codes.Code'' 0) s1;
        s3 = whenSome (Variables project) (\<lambda>vs. forEachI (\<lambda>variable index.
               checkGuid (VariableType.guid variable) (idx ''Variables.Variable'' index)) (Variable vs)) s2;
        s4 = whenSome (Cases project) (\<lambda>cs. forEachI (\<lambda>caseItem index.
               checkGuid (CaseType.guid caseItem) (idx ''Cases.Case'' index)) (Case cs)) s3;
        s5 = whenSome (Sources project) checkSourcesGuids s4;
        s6 = whenSome (Sets project) (\<lambda>ss. forEachI (\<lambda>set index.
               checkGuid (SetType.guid set) (idx ''Sets.Set'' index)) (SetsType.Set ss)) s5;
        s7 = whenSome (Graphs project) (\<lambda>gs. checkGraphsGuids (Graph gs)) s6;
        s8 = whenSome (Links project) (\<lambda>ls. forEachI (\<lambda>link index.
               checkGuid (LinkType.guid link) (idx ''Links.Link'' index)) (Link ls)) s7
      in fst s8)"

subsection \<open>Sources\<close>

text \<open>
  \<^verbatim>\<open>"PlainTextContent" in x || "plainTextPath" in x\<close>.  The project that
  \<^verbatim>\<open>exportQDPX\<close> validates comes out of a JSON copy, where a property is present exactly
  when it is defined.
\<close>

definition hasTextProperties :: "string option \<Rightarrow> string option \<Rightarrow> bool" where
  "hasTextProperties content textPath = (content \<noteq> None \<or> textPath \<noteq> None)"

definition textContentErrors :: "string \<Rightarrow> string option \<Rightarrow> string option \<Rightarrow> string list" where
  "textContentErrors context content textPath =
     (if hasTextProperties content textPath then
        (if truthy content \<and> truthy textPath
         then [context @ '' has both PlainTextContent and plainTextPath''] else [])
        @ (if \<not> truthy content \<and> \<not> truthy textPath
           then [context @ '' must have either PlainTextContent or plainTextPath''] else [])
      else [])"

definition validateTextSource :: "TextSourceType \<Rightarrow> nat \<Rightarrow> string list" where
  "validateTextSource source index =
     (if \<not> truthy (TextSourceType.path source)
      then [''Missing path in '' @ idx ''Sources.TextSource'' index] else [])
     @ textContentErrors (idx ''Sources.TextSource'' index)
         (TextSourceType.PlainTextContent source) (TextSourceType.plainTextPath source)"

definition validateNonTextSource :: "string option \<Rightarrow> string \<Rightarrow> nat \<Rightarrow> string list" where
  "validateNonTextSource sourcePath type index =
     (if \<not> truthy sourcePath then [''Missing path in '' @ idx (''Sources.'' @ type) index] else [])"

definition validateTranscript :: "TranscriptType list option \<Rightarrow> string \<Rightarrow> nat \<Rightarrow> string list" where
  "validateTranscript transcripts type index =
     (case transcripts of None \<Rightarrow> []
      | Some ts \<Rightarrow> concat (map (\<lambda>(transIndex, transcript).
            textContentErrors (idx (idx (''Sources.'' @ type) index @ ''.Transcript'') transIndex)
              (TranscriptType.PlainTextContent transcript) (TranscriptType.plainTextPath transcript))
          (enumerate 0 ts)))"

definition eachI :: "('a \<Rightarrow> nat \<Rightarrow> string list) \<Rightarrow> 'a list option \<Rightarrow> string list" where
  "eachI f xs = (case xs of None \<Rightarrow> [] | Some l \<Rightarrow> concat (map (\<lambda>(i, x). f x i) (enumerate 0 l)))"

definition validateProjectSources :: "Project \<Rightarrow> string list" where
  "validateProjectSources project =
     (case Sources project of None \<Rightarrow> []
      | Some sources \<Rightarrow>
          eachI validateTextSource (TextSource sources)
          @ eachI (\<lambda>source. validateNonTextSource (PictureSourceType.path source) ''PictureSource'') (PictureSource sources)
          @ eachI (\<lambda>source. validateNonTextSource (PDFSourceType.path source) ''PDFSource'') (PDFSource sources)
          @ eachI (\<lambda>source index. validateNonTextSource (AudioSourceType.path source) ''AudioSource'' index
                                   @ validateTranscript (AudioSourceType.Transcript source) ''AudioSource'' index)
              (AudioSource sources)
          @ eachI (\<lambda>source index. validateNonTextSource (VideoSourceType.path source) ''VideoSource'' index
                                   @ validateTranscript (VideoSourceType.Transcript source) ''VideoSource'' index)
              (VideoSource sources))"


subsection \<open>References\<close>

text \<open>
  \<^verbatim>\<open>addGuids\<close> walks every object and array reachable from the project and collects
  each truthy \<^verbatim>\<open>guid\<close> property.  In the typed model the objects that own a
  \<^verbatim>\<open>guid\<close> are listed kind by kind; the result is a set, so the order is immaterial.
\<close>

definition guidsOfCodings :: "CodingType list option \<Rightarrow> string list" where
  "guidsOfCodings codings = (case codings of None \<Rightarrow> [] | Some cs \<Rightarrow> map CodingType.guid cs)"

definition guidsOfSelections ::
  "'sel list option \<Rightarrow> ('sel \<Rightarrow> string list) \<Rightarrow> string list" where
  "guidsOfSelections selections f = (case selections of None \<Rightarrow> [] | Some ss \<Rightarrow> concat (map f ss))"

definition guidsOfTextSource :: "TextSourceType \<Rightarrow> string list" where
  "guidsOfTextSource t =
     TextSourceType.guid t
     # guidsOfSelections (PlainTextSelection t)
         (\<lambda>s. PlainTextSelectionType.guid s # guidsOfCodings (PlainTextSelectionType.Coding s))
     @ guidsOfCodings (TextSourceType.Coding t)"

definition guidsOfNested :: "TextSourceType option \<Rightarrow> string list" where
  "guidsOfNested t = (case t of None \<Rightarrow> [] | Some x \<Rightarrow> guidsOfTextSource x)"

definition guidsOfTranscripts :: "TranscriptType list option \<Rightarrow> string list" where
  "guidsOfTranscripts transcripts =
     guidsOfSelections transcripts (\<lambda>t.
       TranscriptType.guid t
       # guidsOfSelections (SyncPoint t) (\<lambda>s. [SyncPointType.guid s])
       @ guidsOfSelections (TranscriptSelection t)
           (\<lambda>s. TranscriptSelectionType.guid s # guidsOfCodings (TranscriptSelectionType.Coding s)))"

definition guidsOfPictureSource :: "PictureSourceType \<Rightarrow> string list" where
  "guidsOfPictureSource p =
     PictureSourceType.guid p
     # guidsOfNested (TextDescription p)
     @ guidsOfSelections (PictureSelection p)
         (\<lambda>s. PictureSelectionType.guid s # guidsOfCodings (PictureSelectionType.Coding s))
     @ guidsOfCodings (PictureSourceType.Coding p)"

definition guidsOfPDFSource :: "PDFSourceType \<Rightarrow> string list" where
  "guidsOfPDFSource p =
     PDFSourceType.guid p
     # guidsOfSelections (PDFSelection p)
         (\<lambda>s. PDFSelectionType.guid s # guidsOfNested (PDFSelectionType.Representation s)
               @ guidsOfCodings (PDFSelectionType.Coding s))
     @ guidsOfNested (PDFSourceType.Representation p)
     @ guidsOfCodings (PDFSourceType.Coding p)"

definition guidsOfAudioSource :: "AudioSourceType \<Rightarrow> string list" where
  "guidsOfAudioSource a =
     AudioSourceType.guid a
     # guidsOfTranscripts (AudioSourceType.Transcript a)
     @ guidsOfSelections (AudioSelection a)
         (\<lambda>s. AudioSelectionType.guid s # guidsOfCodings (AudioSelectionType.Coding s))
     @ guidsOfCodings (AudioSourceType.Coding a)"

definition guidsOfVideoSource :: "VideoSourceType \<Rightarrow> string list" where
  "guidsOfVideoSource v =
     VideoSourceType.guid v
     # guidsOfTranscripts (VideoSourceType.Transcript v)
     @ guidsOfSelections (VideoSelection v)
         (\<lambda>s. VideoSelectionType.guid s # guidsOfCodings (VideoSelectionType.Coding s))
     @ guidsOfCodings (VideoSourceType.Coding v)"

fun guidsOfCode :: "CodeType \<Rightarrow> string list" where
  "guidsOfCode (CodeType desc noteRef sub g nm codable col) =
     g # (case sub of None \<Rightarrow> [] | Some cs \<Rightarrow> concat (map guidsOfCode cs))"

definition guidsOfSources :: "SourcesType \<Rightarrow> string list" where
  "guidsOfSources s =
     guidsOfSelections (TextSource s) guidsOfTextSource
     @ guidsOfSelections (PictureSource s) guidsOfPictureSource
     @ guidsOfSelections (PDFSource s) guidsOfPDFSource
     @ guidsOfSelections (AudioSource s) guidsOfAudioSource
     @ guidsOfSelections (VideoSource s) guidsOfVideoSource"

definition guidProperties :: "Project \<Rightarrow> string list" where
  "guidProperties project =
     (case Users project of None \<Rightarrow> [] | Some us \<Rightarrow> map UserType.guid (User us))
     @ (case CodeBook project of None \<Rightarrow> [] | Some cb \<Rightarrow> concat (map guidsOfCode (CodesType.Code (Codes cb))))
     @ (case Variables project of None \<Rightarrow> [] | Some vs \<Rightarrow> map VariableType.guid (Variable vs))
     @ (case Cases project of None \<Rightarrow> [] | Some cs \<Rightarrow> map CaseType.guid (Case cs))
     @ (case Sources project of None \<Rightarrow> [] | Some s \<Rightarrow> guidsOfSources s)
     @ (case Notes project of None \<Rightarrow> [] | Some ns \<Rightarrow> concat (map guidsOfTextSource (Note ns)))
     @ (case Links project of None \<Rightarrow> [] | Some ls \<Rightarrow> map LinkType.guid (Link ls))
     @ (case Sets project of None \<Rightarrow> [] | Some ss \<Rightarrow> map SetType.guid (SetsType.Set ss))
     @ (case Graphs project of None \<Rightarrow> []
        | Some gs \<Rightarrow> concat (map (\<lambda>g. GraphType.guid g
                                      # guidsOfSelections (Vertex g) (\<lambda>v. [VertexType.guid v])
                                      @ guidsOfSelections (Edge g) (\<lambda>e. [EdgeType.guid e])) (Graph gs)))"

definition addGuids :: "Project \<Rightarrow> string set" where
  "addGuids project = set (filter (\<lambda>g. g \<noteq> []) (guidProperties project))"

definition checkReference :: "string set \<Rightarrow> string \<Rightarrow> string \<Rightarrow> string list \<Rightarrow> string list" where
  "checkReference guids gid context errors =
     (if gid = [] then errors @ [''Missing reference GUID in '' @ context]
      else if gid \<notin> guids then
        errors @ [''Invalid reference in '' @ context @ '': GUID '' @ gid @ '' not found in project'']
      else errors)"

definition checkNoteRefs :: "string set \<Rightarrow> NoteRefType list option \<Rightarrow> string \<Rightarrow> string list \<Rightarrow> string list" where
  "checkNoteRefs guids noteRefs context =
     whenSome noteRefs (forEachI (\<lambda>noteRef index.
        checkReference guids (NoteRefType.targetGUID noteRef) (idx context index @ ''.targetGUID'')))"

definition checkCodeRefs :: "string set \<Rightarrow> CodeRefType list option \<Rightarrow> string \<Rightarrow> string list \<Rightarrow> string list" where
  "checkCodeRefs guids codeRefs context =
     whenSome codeRefs (forEachI (\<lambda>codeRef index.
        checkReference guids (NoteRefType.targetGUID codeRef) (idx context index @ ''.targetGUID'')))"

definition checkSourceRefs :: "string set \<Rightarrow> SourceRefType list option \<Rightarrow> string \<Rightarrow> string list \<Rightarrow> string list" where
  "checkSourceRefs guids sourceRefs context =
     whenSome sourceRefs (forEachI (\<lambda>sourceRef index.
        checkReference guids (NoteRefType.targetGUID sourceRef) (idx context index @ ''.targetGUID'')))"

definition checkSelectionRefs :: "string set \<Rightarrow> SelectionRefType list option \<Rightarrow> string \<Rightarrow> string list \<Rightarrow> string list" where
  "checkSelectionRefs guids selectionRefs context =
     whenSome selectionRefs (forEachI (\<lambda>selectionRef index.
        checkReference guids (NoteRefType.targetGUID selectionRef) (idx context index @ ''.targetGUID'')))"

definition checkVariableRefs :: "string set \<Rightarrow> VariableRefType \<Rightarrow> string \<Rightarrow> string list \<Rightarrow> string list" where
  "checkVariableRefs guids variableRef context =
     checkReference guids (NoteRefType.targetGUID variableRef) (context @ ''.targetGUID'')"

text \<open>An optional identifier property is checked only when it is truthy.\<close>

definition checkOptionalReference :: "string set \<Rightarrow> string option \<Rightarrow> string \<Rightarrow> string list \<Rightarrow> string list" where
  "checkOptionalReference guids gid context errors =
     (case gid of None \<Rightarrow> errors
      | Some g \<Rightarrow> if g \<noteq> [] then checkReference guids g context errors else errors)"

fun checkCodeNoteRefs :: "string set \<Rightarrow> CodeType list \<Rightarrow> string \<Rightarrow> nat \<Rightarrow> string list \<Rightarrow> string list" where
  "checkCodeNoteRefs guids [] p index errors = errors"
| "checkCodeNoteRefs guids (CodeType desc noteRef sub g nm codable col # codes) p index errors =
     checkCodeNoteRefs guids codes p (Suc index)
       (case sub of
          None \<Rightarrow> checkNoteRefs guids noteRef (idx p index @ ''.NoteRef'') errors
        | Some cs \<Rightarrow> checkCodeNoteRefs guids cs (idx p index @ ''.Code'') 0
                      (checkNoteRefs guids noteRef (idx p index @ ''.NoteRef'') errors))"

definition checkCodingReferences :: "string set \<Rightarrow> CodingType list option \<Rightarrow> string \<Rightarrow> string list \<Rightarrow> string list" where
  "checkCodingReferences guids codings p =
     whenSome codings (forEachI (\<lambda>coding codingIndex errors.
        checkNoteRefs guids (CodingType.NoteRef coding) (idx (p @ ''.Coding'') codingIndex @ ''.NoteRef'')
          (checkCodeRefs guids (Some [CodingType.CodeRef coding]) (idx (p @ ''.Coding'') codingIndex @ ''.CodeRef'')
             errors)))"

definition checkVariableValueReferences ::
  "string set \<Rightarrow> VariableValueType list option \<Rightarrow> string \<Rightarrow> string list \<Rightarrow> string list" where
  "checkVariableValueReferences guids vals p =
     whenSome vals (forEachI (\<lambda>v valueIndex.
        checkVariableRefs guids (VariableRef v) (idx (p @ ''.VariableValue'') valueIndex @ ''.VariableRef'')))"

text \<open>\<^verbatim>\<open>checkSourceReferences(source, sourcePath)\<close>: note references, codings, variable values.\<close>

definition checkSourceReferences ::
  "string set \<Rightarrow> NoteRefType list option \<Rightarrow> CodingType list option \<Rightarrow> VariableValueType list option
   \<Rightarrow> string \<Rightarrow> string list \<Rightarrow> string list" where
  "checkSourceReferences guids noteRef coding variableValue sourcePath errors =
     checkVariableValueReferences guids variableValue sourcePath
       (checkCodingReferences guids coding sourcePath
          (checkNoteRefs guids noteRef (sourcePath @ ''.NoteRef'') errors))"

definition checkSelectionReferences ::
  "string set \<Rightarrow> 'sel list option \<Rightarrow> ('sel \<Rightarrow> NoteRefType list option) \<Rightarrow> ('sel \<Rightarrow> CodingType list option)
   \<Rightarrow> string \<Rightarrow> string \<Rightarrow> string list \<Rightarrow> string list" where
  "checkSelectionReferences guids selections selNoteRef selCoding sourcePath selectionType =
     whenSome selections (forEachI (\<lambda>selection selIndex errors.
        checkCodingReferences guids (selCoding selection) (idx (sourcePath @ ''.'' @ selectionType) selIndex)
          (checkNoteRefs guids (selNoteRef selection)
             (idx (sourcePath @ ''.'' @ selectionType) selIndex @ ''.NoteRef'') errors)))"

definition checkTranscriptReferences ::
  "string set \<Rightarrow> TranscriptType list option \<Rightarrow> string \<Rightarrow> string list \<Rightarrow> string list" where
  "checkTranscriptReferences guids transcripts sourcePath =
     whenSome transcripts (forEachI (\<lambda>transcript transIndex errors.
        whenSome (TranscriptSelection transcript) (forEachI (\<lambda>selection selIndex errors'.
            checkCodingReferences guids (TranscriptSelectionType.Coding selection)
                (idx (idx (sourcePath @ ''.Transcript'') transIndex @ ''.TranscriptSelection'') selIndex)
              (checkNoteRefs guids (TranscriptSelectionType.NoteRef selection)
                 (idx (idx (sourcePath @ ''.Transcript'') transIndex @ ''.TranscriptSelection'') selIndex @ ''.NoteRef'')
                 (checkOptionalReference guids (toSyncPoint selection)
                    (idx (idx (sourcePath @ ''.Transcript'') transIndex @ ''.TranscriptSelection'') selIndex @ ''.toSyncPoint'')
                    (checkOptionalReference guids (fromSyncPoint selection)
                       (idx (idx (sourcePath @ ''.Transcript'') transIndex @ ''.TranscriptSelection'') selIndex @ ''.fromSyncPoint'')
                       errors')))))
          (checkNoteRefs guids (TranscriptType.NoteRef transcript)
             (idx (sourcePath @ ''.Transcript'') transIndex @ ''.NoteRef'') errors)))"

definition checkSourcesReferences :: "string set \<Rightarrow> SourcesType \<Rightarrow> string list \<Rightarrow> string list" where
  "checkSourcesReferences guids sources errors =
     (let
        e1 = whenSome (TextSource sources) (forEachI (\<lambda>source index errs.
               checkSelectionReferences guids (PlainTextSelection source) PlainTextSelectionType.NoteRef
                   PlainTextSelectionType.Coding (idx ''project.Sources.TextSource'' index) ''PlainTextSelection''
                 (checkSourceReferences guids (TextSourceType.NoteRef source) (TextSourceType.Coding source)
                    (TextSourceType.VariableValue source) (idx ''project.Sources.TextSource'' index) errs))) errors;
        e2 = whenSome (PictureSource sources) (forEachI (\<lambda>source index errs.
               checkSelectionReferences guids (PictureSelection source) PictureSelectionType.NoteRef
                   PictureSelectionType.Coding (idx ''project.Sources.PictureSource'' index) ''PictureSelection''
                 (checkSourceReferences guids (PictureSourceType.NoteRef source) (PictureSourceType.Coding source)
                    (PictureSourceType.VariableValue source) (idx ''project.Sources.PictureSource'' index) errs))) e1;
        e3 = whenSome (PDFSource sources) (forEachI (\<lambda>source index errs.
               checkSelectionReferences guids (PDFSelection source) PDFSelectionType.NoteRef
                   PDFSelectionType.Coding (idx ''project.Sources.PDFSource'' index) ''PDFSelection''
                 (checkSourceReferences guids (PDFSourceType.NoteRef source) (PDFSourceType.Coding source)
                    (PDFSourceType.VariableValue source) (idx ''project.Sources.PDFSource'' index) errs))) e2;
        e4 = whenSome (AudioSource sources) (forEachI (\<lambda>source index errs.
               checkTranscriptReferences guids (AudioSourceType.Transcript source) (idx ''project.Sources.AudioSource'' index)
                 (checkSelectionReferences guids (AudioSelection source) AudioSelectionType.NoteRef
                     AudioSelectionType.Coding (idx ''project.Sources.AudioSource'' index) ''AudioSelection''
                   (checkSourceReferences guids (AudioSourceType.NoteRef source) (AudioSourceType.Coding source)
                      (AudioSourceType.VariableValue source) (idx ''project.Sources.AudioSource'' index) errs)))) e3;
        e5 = whenSome (VideoSource sources) (forEachI (\<lambda>source index errs.
               checkTranscriptReferences guids (VideoSourceType.Transcript source) (idx ''project.Sources.VideoSource'' index)
                 (checkSelectionReferences guids (VideoSelection source) VideoSelectionType.NoteRef
                     VideoSelectionType.Coding (idx ''project.Sources.VideoSource'' index) ''VideoSelection''
                   (checkSourceReferences guids (VideoSourceType.NoteRef source) (VideoSourceType.Coding source)
                      (VideoSourceType.VariableValue source) (idx ''project.Sources.VideoSource'' index) errs)))) e4
      in e5)"

definition checkCasesReferences :: "string set \<Rightarrow> CaseType list \<Rightarrow> string list \<Rightarrow> string list" where
  "checkCasesReferences guids cases =
     forEachI (\<lambda>caseItem index errors.
        checkSelectionRefs guids (SelectionRef caseItem) (idx ''project.Cases.Case'' index @ ''.SelectionRef'')
          (checkSourceRefs guids (SourceRef caseItem) (idx ''project.Cases.Case'' index @ ''.SourceRef'')
             (checkVariableValueReferences guids (CaseType.VariableValue caseItem) (idx ''project.Cases.Case'' index)
                (checkCodeRefs guids (CaseType.CodeRef caseItem) (idx ''project.Cases.Case'' index @ ''.CodeRef'')
                   errors)))) cases"

definition checkSetsReferences :: "string set \<Rightarrow> SetType list \<Rightarrow> string list \<Rightarrow> string list" where
  "checkSetsReferences guids sets =
     forEachI (\<lambda>s index errors.
        checkNoteRefs guids (MemberNote s) (idx ''project.Sets.Set'' index @ ''.MemberNote'')
          (checkSourceRefs guids (MemberSource s) (idx ''project.Sets.Set'' index @ ''.MemberSource'')
             (checkCodeRefs guids (MemberCode s) (idx ''project.Sets.Set'' index @ ''.MemberCode'') errors))) sets"

definition checkLinksReferences :: "string set \<Rightarrow> LinkType list \<Rightarrow> string list \<Rightarrow> string list" where
  "checkLinksReferences guids links =
     forEachI (\<lambda>link index errors.
        checkNoteRefs guids (LinkType.NoteRef link) (idx ''project.Links.Link'' index @ ''.NoteRef'')
          (checkOptionalReference guids (LinkType.targetGUID link) (idx ''project.Links.Link'' index @ ''.targetGUID'')
             (checkOptionalReference guids (originGUID link) (idx ''project.Links.Link'' index @ ''.originGUID'')
                errors))) links"

text \<open>
  \<^verbatim>\<open>sourceVertex\<close> and \<^verbatim>\<open>targetVertex\<close> are required strings, checked when truthy like
  the optional ones.
\<close>

definition checkGraphsReferences :: "string set \<Rightarrow> GraphType list \<Rightarrow> string list \<Rightarrow> string list" where
  "checkGraphsReferences guids graphs =
     forEachI (\<lambda>graph index errors.
        whenSome (Edge graph) (forEachI (\<lambda>edge edgeIndex errors'.
            checkOptionalReference guids (Some (targetVertex edge))
                (idx (idx ''project.Graphs.Graph'' index @ ''.Edge'') edgeIndex @ ''.targetVertex'')
              (checkOptionalReference guids (Some (sourceVertex edge))
                 (idx (idx ''project.Graphs.Graph'' index @ ''.Edge'') edgeIndex @ ''.sourceVertex'')
                 (checkOptionalReference guids (EdgeType.representedGUID edge)
                    (idx (idx ''project.Graphs.Graph'' index @ ''.Edge'') edgeIndex @ ''.representedGUID'')
                    errors'))))
          (whenSome (Vertex graph) (forEachI (\<lambda>vertex vertexIndex.
              checkOptionalReference guids (VertexType.representedGUID vertex)
                (idx (idx ''project.Graphs.Graph'' index @ ''.Vertex'') vertexIndex @ ''.representedGUID'')))
             errors)) graphs"

text \<open>
  \<^verbatim>\<open>validateProjectReferences\<close>: the project's note references, the code book, cases,
  sources, sets, links and graphs, in this order.  Notes, and the text sources nested in
  picture and PDF sources, are not visited.
\<close>

definition validateProjectReferences :: "Project \<Rightarrow> string list" where
  "validateProjectReferences project =
     (let
        guids = addGuids project;
        e0 = [];
        e1 = checkNoteRefs guids (NoteRef project) ''project.NoteRef'' e0;
        e2 = whenSome (CodeBook project) (\<lambda>cb.
               checkCodeNoteRefs guids (CodesType.Code (Codes cb)) ''project.CodeBook.Codes.Code'' 0) e1;
        e3 = whenSome (Cases project) (\<lambda>cs. checkCasesReferences guids (Case cs)) e2;
        e4 = whenSome (Sources project) (checkSourcesReferences guids) e3;
        e5 = whenSome (Sets project) (\<lambda>ss. checkSetsReferences guids (SetsType.Set ss)) e4;
        e6 = whenSome (Links project) (\<lambda>ls. checkLinksReferences guids (Link ls)) e5;
        e7 = whenSome (Graphs project) (\<lambda>gs. checkGraphsReferences guids (Graph gs)) e6
      in e7)"

subsection \<open>The validation run by the export\<close>

definition validateProjectForExport :: "(jsval \<Rightarrow> string + string) \<Rightarrow> Project \<Rightarrow> string list" where
  "validateProjectForExport buildObject project =
     (if name project = [] then [''Project name is required''] else [])
     @ validateProjectGUIDs project
     @ validateProjectSources project
     @ validateProjectReferences project
     @ (case buildQDEFile buildObject project of
          Inl e \<Rightarrow> [''XML generation error: ExportError: Failed to build QDE file'']
        | Inr xml \<Rightarrow> [])"


section \<open>The host\<close>

text \<open>
  What the export takes from its surroundings and this development does not define:
  Node's \<^verbatim>\<open>path\<close> functions, the file system (\<^verbatim>\<open>stat\<close> gives a size or fails,
  \<^verbatim>\<open>readFile\<close> gives the bytes or fails, writing the output container succeeds or
  fails), the identifiers \<^verbatim>\<open>uuidv4\<close> produces one after another, and the XML library's
  \<^verbatim>\<open>Builder.buildObject\<close>.
\<close>

record Host =
  path_dirname :: "string \<Rightarrow> string"
  path_resolve :: "string \<Rightarrow> string \<Rightarrow> string"
  path_basename :: "string \<Rightarrow> string"
  path_extname :: "string \<Rightarrow> string"
  path_relative :: "string \<Rightarrow> string \<Rightarrow> string"
  path_sep :: char
  fs_existsSync :: "string \<Rightarrow> bool"
  fs_stat :: "string \<Rightarrow> nat option"
  fs_readFile :: "string \<Rightarrow> string option"
  fs_writable :: "string \<Rightarrow> bool"
  uuidv4 :: "nat \<Rightarrow> string"
  buildObject :: "jsval \<Rightarrow> string + string"

section \<open>Export options (export/options.ts)\<close>

record ExportOptions =
  includeExternalSources :: "bool option"
  exportBasePath :: "string option"
  maxInternalFileSize :: "jsnum option"
  validateBeforeExport :: "bool option"
  overwrite :: "bool option"
  onMissingSource :: "(string \<Rightarrow> string \<Rightarrow> string \<Rightarrow> bool) option"

record ExportResult =
  success :: bool
  qdpxPath :: string
  externalSources :: "string list"
  warnings :: "string list"

text \<open>Truthiness of an optional number, and \<^verbatim>\<open><=\<close> on numbers.\<close>

fun numTruthy :: "jsnum option \<Rightarrow> bool" where
  "numTruthy None = False"
| "numTruthy (Some NaN) = False"
| "numTruthy (Some (Num r)) = (r \<noteq> 0)"
| "numTruthy (Some PosInfinity) = True"
| "numTruthy (Some NegInfinity) = True"

fun js_le :: "jsnum \<Rightarrow> jsnum \<Rightarrow> bool" where
  "js_le NaN y = False"
| "js_le x NaN = False"
| "js_le (Num a) (Num b) = (a \<le> b)"
| "js_le NegInfinity y = True"
| "js_le x PosInfinity = True"
| "js_le PosInfinity y = False"
| "js_le x NegInfinity = False"

section \<open>Source processing for export (export/source-processor.ts)\<close>

record SourceInfo =
  guid :: string
  originalPath :: string
  sourceType :: SourceKind
  filename :: string
  extension :: string

text \<open>
  What \<^verbatim>\<open>processSourcesForExport\<close> mutates while it runs: the map of files to embed,
  the list of source infos, the caller's two arrays, and the number of identifiers drawn.
\<close>

record Packaging =
  sourceFiles :: "(string \<times> string) list"
  sourceInfoList :: "SourceInfo list"
  pk_warnings :: "string list"
  pk_externalSources :: "string list"
  uuidsDrawn :: nat

text \<open>\<^verbatim>\<open>Map.prototype.set\<close>: an existing key keeps its place, a new one goes last.\<close>

definition mapSet :: "string \<Rightarrow> string \<Rightarrow> (string \<times> string) list \<Rightarrow> (string \<times> string) list" where
  "mapSet k v m =
     (if k \<in> fst ` set m then map (\<lambda>(k', v'). if k' = k then (k', v) else (k', v')) m
      else m @ [(k, v)])"

text \<open>\<^verbatim>\<open>s.replace(/\//g, path.sep)\<close> and \<^verbatim>\<open>s.replace(/\\/g, "/")\<close>.\<close>

definition replaceAll :: "char \<Rightarrow> char \<Rightarrow> string \<Rightarrow> string" where
  "replaceAll a b s = map (\<lambda>c. if c = a then b else c) s"

definition resolveSourcePath :: "Host \<Rightarrow> string \<Rightarrow> string option \<Rightarrow> ExportError + string" where
  "resolveSourcePath host pathString base =
     (if startsWith pathString ''internal://'' then
        Inr (case base of
               Some b \<Rightarrow> if b \<noteq> [] then path_resolve host b (substring pathString 11) else substring pathString 11
             | None \<Rightarrow> substring pathString 11)
      else if startsWith pathString ''relative://'' then
        (if \<not> truthy base then
           Inl (ExportError (''Base path required for relative path: '' @ pathString) [])
         else Inr (path_resolve host (case base of Some b \<Rightarrow> b | None \<Rightarrow> [])
                     (if startsWith (substring pathString 11) ''/''
                      then substring (substring pathString 11) 1 else substring pathString 11)))
      else if startsWith pathString ''absolute://'' then
        Inr (replaceAll (CHR ''/'') (path_sep host) (substring pathString 11))
      else
        Inr (case base of
               Some b \<Rightarrow> if b \<noteq> [] then path_resolve host b pathString else pathString
             | None \<Rightarrow> pathString))"

definition readSourceFile :: "Host \<Rightarrow> string \<Rightarrow> ExportError + string" where
  "readSourceFile host filePath =
     (case fs_readFile host filePath of
        Some bytes \<Rightarrow> Inr bytes
      | None \<Rightarrow> Inl (ExportError (''Failed to read source file: '' @ filePath @ '': '') []))"

text \<open>
  The view of a source that \<^verbatim>\<open>hasPathProperties\<close> narrows to.
\<close>

record PathProperties =
  pp_guid :: string
  pp_path :: "string option"
  pp_currentPath :: "string option"

text \<open>\<^verbatim>\<open>source.path.startsWith("absolute://") ? "absolute" : "relative"\<close>\<close>

definition externalKind :: "string \<Rightarrow> SourceKind" where
  "externalKind p = (if startsWith p ''absolute://'' then absolute else relative)"

text \<open>
  The inner \<^verbatim>\<open>try\<close> block of an external source: stat the file and either embed it or
  keep it external.  The first component says whether the block completed; when it is
  \<^verbatim>\<open>False\<close> an exception was thrown (by \<^verbatim>\<open>stat\<close> or by reading the file) and the inner
  \<^verbatim>\<open>catch\<close> runs on the state reached so far.
\<close>

definition packageExternal ::
  "Host \<Rightarrow> ExportOptions \<Rightarrow> PathProperties \<Rightarrow> string \<Rightarrow> string \<Rightarrow> string \<Rightarrow> string \<Rightarrow> Packaging
   \<Rightarrow> bool \<times> Packaging" where
  "packageExternal host options source sourcePathString sourcePath fname ext st =
     (case fs_stat host sourcePath of
        None \<Rightarrow> (False, st)
      | Some sz \<Rightarrow>
          let maxSize = (case maxInternalFileSize options of Some m \<Rightarrow> m | None \<Rightarrow> Num 2147483646) in
          if js_le (Num (of_nat sz)) maxSize \<and> includeExternalSources options = Some True then
            (let newFilename = uuidv4 host (uuidsDrawn st) @ ext;
                 st1 = st\<lparr>uuidsDrawn := Suc (uuidsDrawn st)\<rparr>
             in case readSourceFile host sourcePath of
                  Inl e \<Rightarrow> (False, st1)
                | Inr fileData \<Rightarrow>
                    (True, st1\<lparr>sourceFiles := mapSet (''sources/'' @ newFilename) fileData (sourceFiles st1),
                                sourceInfoList := sourceInfoList st1 @
                                  [\<lparr>SourceInfo.guid = pp_guid source, originalPath = sourcePath,
                                    sourceType = internal, filename = newFilename, extension = ext\<rparr>]\<rparr>))
          else
            (True, st\<lparr>pk_externalSources := pk_externalSources st @ [sourcePath],
                       sourceInfoList := sourceInfoList st @
                         [\<lparr>SourceInfo.guid = pp_guid source, originalPath = sourcePath,
                           sourceType = externalKind sourcePathString, filename = fname, extension = ext\<rparr>]\<rparr>))"

text \<open>
  The inner \<^verbatim>\<open>catch\<close>: ask the callback (continue when there is none); a refusal throws
  the export-aborted error, otherwise a warning is recorded and the source stays external.
\<close>

definition handleMissingSource ::
  "ExportOptions \<Rightarrow> PathProperties \<Rightarrow> string \<Rightarrow> string \<Rightarrow> string \<Rightarrow> string \<Rightarrow> string \<Rightarrow> Packaging
   \<Rightarrow> ExportError option \<times> Packaging" where
  "handleMissingSource options source sourcePathString sourcePath fname ext kindLabel st =
     (let handleMissing = (case onMissingSource options of
                             Some callback \<Rightarrow> callback sourcePath kindLabel (pp_guid source)
                           | None \<Rightarrow> True)
      in if \<not> handleMissing then
           (Some (ExportError (''Export aborted due to missing source: '' @ sourcePath) []), st)
         else
           (None, st\<lparr>pk_warnings := pk_warnings st @ [''Could not process source: '' @ sourcePath],
                      sourceInfoList := sourceInfoList st @
                        [\<lparr>SourceInfo.guid = pp_guid source, originalPath = sourcePath,
                          sourceType = externalKind sourcePathString, filename = fname, extension = ext\<rparr>]\<rparr>))"

text \<open>
  The outer \<^verbatim>\<open>try\<close> block of an external source.  It returns the exception that left it,
  if any: a failed resolution, or the export-aborted error thrown by the inner \<^verbatim>\<open>catch\<close>.
\<close>

definition processExternalSource ::
  "Host \<Rightarrow> ExportOptions \<Rightarrow> PathProperties \<Rightarrow> string \<Rightarrow> string \<Rightarrow> Packaging
   \<Rightarrow> ExportError option \<times> Packaging" where
  "processExternalSource host options source sourcePathString kindLabel st =
     (case resolveSourcePath host sourcePathString (exportBasePath options) of
        Inl e \<Rightarrow> (Some e, st)
      | Inr sourcePath \<Rightarrow>
          let fname = path_basename host sourcePath;
              ext = path_extname host fname
          in case packageExternal host options source sourcePathString sourcePath fname ext st of
               (True, st') \<Rightarrow> (None, st')
             | (False, st') \<Rightarrow>
                 handleMissingSource options source sourcePathString sourcePath fname ext kindLabel st')"

definition processInternalSource :: "Host \<Rightarrow> PathProperties \<Rightarrow> string \<Rightarrow> Packaging \<Rightarrow> Packaging" where
  "processInternalSource host source sourcePathString st =
     (let fname = substring sourcePathString 11;
          st1 = st\<lparr>sourceInfoList := sourceInfoList st @
                     [\<lparr>SourceInfo.guid = pp_guid source,
                       originalPath = (case pp_currentPath source of Some c \<Rightarrow> c | None \<Rightarrow> []),
                       sourceType = internal, filename = fname, extension = path_extname host fname\<rparr>]\<rparr>
      in case pp_currentPath source of
           None \<Rightarrow> st1
         | Some current \<Rightarrow>
             if current = [] then st1
             else (case resolveSourcePath host current None of
                     Inl e \<Rightarrow> st1\<lparr>pk_warnings := pk_warnings st1 @ [''Could not include internal source: '' @ current]\<rparr>
                   | Inr original \<Rightarrow>
                       (case readSourceFile host original of
                          Inl e \<Rightarrow> st1\<lparr>pk_warnings := pk_warnings st1 @ [''Could not include internal source: '' @ current]\<rparr>
                        | Inr fileData \<Rightarrow> st1\<lparr>sourceFiles := mapSet (''sources/'' @ fname) fileData (sourceFiles st1)\<rparr>)))"

text \<open>
  \<^verbatim>\<open>processSource\<close>.  The outer \<^verbatim>\<open>catch\<close> takes every exception of the external
  branch, the export-aborted error included, and records a warning.
\<close>

definition processSource :: "Host \<Rightarrow> ExportOptions \<Rightarrow> PathProperties \<Rightarrow> string \<Rightarrow> Packaging \<Rightarrow> Packaging" where
  "processSource host options source kindLabel st =
     (case pp_path source of
        None \<Rightarrow> st
      | Some p \<Rightarrow>
          if p = [] then st
          else if startsWith p ''internal://'' then processInternalSource host source p st
          else (case processExternalSource host options source p kindLabel st of
                  (None, st') \<Rightarrow> st'
                | (Some e, st') \<Rightarrow> st'\<lparr>pk_warnings := pk_warnings st' @ [''Invalid source path: '' @ p]\<rparr>))"

definition processEach ::
  "Host \<Rightarrow> ExportOptions \<Rightarrow> ('src \<Rightarrow> PathProperties) \<Rightarrow> string \<Rightarrow> 'src list option \<Rightarrow> Packaging \<Rightarrow> Packaging" where
  "processEach host options view kindLabel sources st =
     (case sources of None \<Rightarrow> st
      | Some l \<Rightarrow> fold (\<lambda>source. processSource host options (view source) kindLabel) l st)"

definition textView :: "TextSourceType \<Rightarrow> PathProperties" where
  "textView s = \<lparr>pp_guid = TextSourceType.guid s, pp_path = TextSourceType.path s,
                 pp_currentPath = TextSourceType.currentPath s\<rparr>"

definition pictureView :: "PictureSourceType \<Rightarrow> PathProperties" where
  "pictureView s = \<lparr>pp_guid = PictureSourceType.guid s, pp_path = PictureSourceType.path s,
                    pp_currentPath = PictureSourceType.currentPath s\<rparr>"

definition pdfView :: "PDFSourceType \<Rightarrow> PathProperties" where
  "pdfView s = \<lparr>pp_guid = PDFSourceType.guid s, pp_path = PDFSourceType.path s,
                pp_currentPath = PDFSourceType.currentPath s\<rparr>"

definition audioView :: "AudioSourceType \<Rightarrow> PathProperties" where
  "audioView s = \<lparr>pp_guid = AudioSourceType.guid s, pp_path = AudioSourceType.path s,
                  pp_currentPath = AudioSourceType.currentPath s\<rparr>"

definition videoView :: "VideoSourceType \<Rightarrow> PathProperties" where
  "videoView s = \<lparr>pp_guid = VideoSourceType.guid s, pp_path = VideoSourceType.path s,
                  pp_currentPath = VideoSourceType.currentPath s\<rparr>"

definition processSourcesForExport ::
  "Host \<Rightarrow> Project \<Rightarrow> ExportOptions \<Rightarrow> string list \<Rightarrow> string list \<Rightarrow> Packaging" where
  "processSourcesForExport host project options warnings0 externalSources0 =
     (let st0 = \<lparr>sourceFiles = [], sourceInfoList = [], pk_warnings = warnings0,
                 pk_externalSources = externalSources0, uuidsDrawn = 0\<rparr>
      in case Sources project of
           None \<Rightarrow> st0
         | Some sources \<Rightarrow>
             processEach host options videoView ''VideoSource'' (VideoSource sources)
               (processEach host options audioView ''AudioSource'' (AudioSource sources)
                  (processEach host options pdfView ''PDFSource'' (PDFSource sources)
                     (processEach host options pictureView ''PictureSource'' (PictureSource sources)
                        (processEach host options textView ''TextSource'' (TextSource sources) st0)))))"


section \<open>Projects in memory\<close>

text \<open>
  The export mutates objects, and whether the caller sees that depends on which objects
  they are.  The objects that the export code writes to are the project object (its
  \<^verbatim>\<open>basePath\<close>) and the source objects (their \<^verbatim>\<open>path\<close> and \<^verbatim>\<open>currentPath\<close>); each of
  these is a cell of a heap, and a project cell holds its sources by address.  Everything
  else of a project is only read and is held by value.  An address is an index into the
  heap; allocation appends a cell.
\<close>

type_synonym addr = nat

datatype SourceObject =
    TextObject TextSourceType
  | PictureObject PictureSourceType
  | PDFObject PDFSourceType
  | AudioObject AudioSourceType
  | VideoObject VideoSourceType

type_synonym SourceRefs = "(addr, addr, addr, addr, addr) SourcesOf"

datatype Object = SourceCell SourceObject | ProjectCell "SourceRefs ProjectOf"

type_synonym Heap = "Object list"

definition withSources :: "'a ProjectOf \<Rightarrow> 'b option \<Rightarrow> 'b ProjectOf" where
  "withSources p s =
     \<lparr>Users = Users p, CodeBook = CodeBook p, Variables = Variables p, Cases = Cases p,
      Sources = s, Notes = Notes p, Links = Links p, Sets = Sets p, Graphs = Graphs p,
      Description = Description p, NoteRef = NoteRef p, name = name p, origin = origin p,
      creatingUserGUID = creatingUserGUID p, creationDateTime = creationDateTime p,
      modifyingUserGUID = modifyingUserGUID p, modifiedDateTime = modifiedDateTime p,
      basePath = basePath p\<rparr>"

subsection \<open>Reading a project out of the heap\<close>

definition sourceAt :: "Heap \<Rightarrow> addr \<Rightarrow> SourceObject option" where
  "sourceAt h a =
     (if a < length h then (case h ! a of SourceCell obj \<Rightarrow> Some obj | ProjectCell p \<Rightarrow> None) else None)"

definition textAt :: "Heap \<Rightarrow> addr \<Rightarrow> TextSourceType option" where
  "textAt h a = (case sourceAt h a of Some (TextObject s) \<Rightarrow> Some s | _ \<Rightarrow> None)"

definition pictureAt :: "Heap \<Rightarrow> addr \<Rightarrow> PictureSourceType option" where
  "pictureAt h a = (case sourceAt h a of Some (PictureObject s) \<Rightarrow> Some s | _ \<Rightarrow> None)"

definition pdfAt :: "Heap \<Rightarrow> addr \<Rightarrow> PDFSourceType option" where
  "pdfAt h a = (case sourceAt h a of Some (PDFObject s) \<Rightarrow> Some s | _ \<Rightarrow> None)"

definition audioAt :: "Heap \<Rightarrow> addr \<Rightarrow> AudioSourceType option" where
  "audioAt h a = (case sourceAt h a of Some (AudioObject s) \<Rightarrow> Some s | _ \<Rightarrow> None)"

definition videoAt :: "Heap \<Rightarrow> addr \<Rightarrow> VideoSourceType option" where
  "videoAt h a = (case sourceAt h a of Some (VideoObject s) \<Rightarrow> Some s | _ \<Rightarrow> None)"

definition readList :: "(addr \<Rightarrow> 'a option) \<Rightarrow> addr list option \<Rightarrow> 'a list option option" where
  "readList f refs = (case refs of None \<Rightarrow> Some None | Some l \<Rightarrow> map_option Some (those (map f l)))"

definition snapshotSources :: "Heap \<Rightarrow> SourceRefs \<Rightarrow> SourcesType option" where
  "snapshotSources h refs =
     Option.bind (readList (textAt h) (TextSource refs)) (\<lambda>ts.
     Option.bind (readList (pictureAt h) (PictureSource refs)) (\<lambda>ps.
     Option.bind (readList (pdfAt h) (PDFSource refs)) (\<lambda>ds.
     Option.bind (readList (audioAt h) (AudioSource refs)) (\<lambda>as.
     Option.bind (readList (videoAt h) (VideoSource refs)) (\<lambda>vs.
       Some \<lparr>TextSource = ts, PictureSource = ps, PDFSource = ds, AudioSource = as, VideoSource = vs\<rparr>)))))"

text \<open>
  The project at an address as a value: what \<^verbatim>\<open>JSON.stringify\<close> sees, and what the
  read-only code (validation, source processing, the builder) works on.  \<^verbatim>\<open>None\<close> when
  the address holds no project or a source list points at a cell of the wrong kind.
\<close>

definition snapshot :: "Heap \<Rightarrow> addr \<Rightarrow> Project option" where
  "snapshot h a =
     (if a < length h then
        (case h ! a of
           SourceCell obj \<Rightarrow> None
         | ProjectCell p \<Rightarrow>
             (case Sources p of
                None \<Rightarrow> Some (withSources p None)
              | Some refs \<Rightarrow> map_option (\<lambda>s. withSources p (Some s)) (snapshotSources h refs)))
      else None)"

subsection \<open>Building a project in the heap\<close>

definition storeList :: "Heap \<Rightarrow> 'a list option \<Rightarrow> ('a \<Rightarrow> SourceObject) \<Rightarrow> Heap \<times> addr list option" where
  "storeList h xs wrap =
     (case xs of
        None \<Rightarrow> (h, None)
      | Some l \<Rightarrow> (h @ map (\<lambda>x. SourceCell (wrap x)) l, Some [length h ..< length h + length l]))"

definition storeSources :: "Heap \<Rightarrow> SourcesType \<Rightarrow> Heap \<times> SourceRefs" where
  "storeSources h s =
     (case storeList h (TextSource s) TextObject of (h1, ts) \<Rightarrow>
      case storeList h1 (PictureSource s) PictureObject of (h2, ps) \<Rightarrow>
      case storeList h2 (PDFSource s) PDFObject of (h3, ds) \<Rightarrow>
      case storeList h3 (AudioSource s) AudioObject of (h4, as) \<Rightarrow>
      case storeList h4 (VideoSource s) VideoObject of (h5, vs) \<Rightarrow>
        (h5, \<lparr>TextSource = ts, PictureSource = ps, PDFSource = ds, AudioSource = as, VideoSource = vs\<rparr>))"

text \<open>New objects for a project value: its sources first, the project object last.\<close>

definition storeProject :: "Heap \<Rightarrow> Project \<Rightarrow> Heap \<times> addr" where
  "storeProject h p =
     (case Sources p of
        None \<Rightarrow> (h @ [ProjectCell (withSources p None)], length h)
      | Some s \<Rightarrow>
          (case storeSources h s of (h', refs) \<Rightarrow>
             (h' @ [ProjectCell (withSources p (Some refs))], length h')))"

text \<open>
  \<^verbatim>\<open>JSON.parse(JSON.stringify(project))\<close>: the project is read as a value and built
  again from new objects.
\<close>

definition deepCopy :: "Heap \<Rightarrow> addr \<Rightarrow> (Heap \<times> addr) option" where
  "deepCopy h a = map_option (storeProject h) (snapshot h a)"

subsection \<open>Writing source paths (updateProjectSourcePaths)\<close>

fun objGuid :: "SourceObject \<Rightarrow> string" where
  "objGuid (TextObject s) = TextSourceType.guid s"
| "objGuid (PictureObject s) = PictureSourceType.guid s"
| "objGuid (PDFObject s) = PDFSourceType.guid s"
| "objGuid (AudioObject s) = AudioSourceType.guid s"
| "objGuid (VideoObject s) = VideoSourceType.guid s"

fun objCurrentPath :: "SourceObject \<Rightarrow> string option" where
  "objCurrentPath (TextObject s) = TextSourceType.currentPath s"
| "objCurrentPath (PictureObject s) = PictureSourceType.currentPath s"
| "objCurrentPath (PDFObject s) = PDFSourceType.currentPath s"
| "objCurrentPath (AudioObject s) = AudioSourceType.currentPath s"
| "objCurrentPath (VideoObject s) = VideoSourceType.currentPath s"

fun setObjPath :: "string \<Rightarrow> SourceObject \<Rightarrow> SourceObject" where
  "setObjPath v (TextObject s) = TextObject (s\<lparr>TextSourceType.path := Some v\<rparr>)"
| "setObjPath v (PictureObject s) = PictureObject (s\<lparr>PictureSourceType.path := Some v\<rparr>)"
| "setObjPath v (PDFObject s) = PDFObject (s\<lparr>PDFSourceType.path := Some v\<rparr>)"
| "setObjPath v (AudioObject s) = AudioObject (s\<lparr>AudioSourceType.path := Some v\<rparr>)"
| "setObjPath v (VideoObject s) = VideoObject (s\<lparr>VideoSourceType.path := Some v\<rparr>)"

fun setObjCurrentPath :: "string \<Rightarrow> SourceObject \<Rightarrow> SourceObject" where
  "setObjCurrentPath v (TextObject s) = TextObject (s\<lparr>TextSourceType.currentPath := Some v\<rparr>)"
| "setObjCurrentPath v (PictureObject s) = PictureObject (s\<lparr>PictureSourceType.currentPath := Some v\<rparr>)"
| "setObjCurrentPath v (PDFObject s) = PDFObject (s\<lparr>PDFSourceType.currentPath := Some v\<rparr>)"
| "setObjCurrentPath v (AudioObject s) = AudioObject (s\<lparr>AudioSourceType.currentPath := Some v\<rparr>)"
| "setObjCurrentPath v (VideoObject s) = VideoObject (s\<lparr>VideoSourceType.currentPath := Some v\<rparr>)"

text \<open>
  \<^verbatim>\<open>"currentPath" in source\<close>: in the JSON copy a property is present exactly when it
  is defined.
\<close>

definition setCurrentPathIfPresent :: "string \<Rightarrow> SourceObject \<Rightarrow> SourceObject" where
  "setCurrentPathIfPresent v obj = (if objCurrentPath obj \<noteq> None then setObjCurrentPath v obj else obj)"

definition updateSourcePath :: "Host \<Rightarrow> string option \<Rightarrow> SourceInfo \<Rightarrow> SourceObject \<Rightarrow> SourceObject" where
  "updateSourcePath host projectBasePath info obj =
     (case sourceType info of
        internal \<Rightarrow>
          setCurrentPathIfPresent (''absolute:///'' @ replaceAll (CHR 0x5C) (CHR ''/'') (originalPath info))
            (setObjPath (''internal://'' @ filename info) obj)
      | relative \<Rightarrow>
          setCurrentPathIfPresent (''absolute:///'' @ replaceAll (CHR 0x5C) (CHR ''/'') (originalPath info))
            (setObjPath (''relative:///'' @ replaceAll (CHR 0x5C) (CHR ''/'')
                           (path_relative host (case projectBasePath of Some b \<Rightarrow> b | None \<Rightarrow> [])
                              (originalPath info))) obj)
      | absolute \<Rightarrow>
          setObjPath (''absolute:///'' @ replaceAll (CHR 0x5C) (CHR ''/'') (originalPath info)) obj)"

text \<open>\<^verbatim>\<open>sourceMap.get(guid)\<close>: the last info pushed for the identifier.\<close>

definition sourceMapGet :: "SourceInfo list \<Rightarrow> string \<Rightarrow> SourceInfo option" where
  "sourceMapGet infos g =
     (case filter (\<lambda>i. SourceInfo.guid i = g) infos of [] \<Rightarrow> None | i # is \<Rightarrow> Some (last (i # is)))"

definition updateAt :: "Host \<Rightarrow> string option \<Rightarrow> SourceInfo list \<Rightarrow> addr \<Rightarrow> Heap \<Rightarrow> Heap" where
  "updateAt host projectBasePath infos a h =
     (case sourceAt h a of
        None \<Rightarrow> h
      | Some obj \<Rightarrow>
          (case sourceMapGet infos (objGuid obj) of
             None \<Rightarrow> h
           | Some info \<Rightarrow> h[a := SourceCell (updateSourcePath host projectBasePath info obj)]))"

definition updateEach :: "Host \<Rightarrow> string option \<Rightarrow> SourceInfo list \<Rightarrow> addr list option \<Rightarrow> Heap \<Rightarrow> Heap" where
  "updateEach host projectBasePath infos refs h =
     (case refs of None \<Rightarrow> h | Some l \<Rightarrow> fold (updateAt host projectBasePath infos) l h)"

definition updateProjectSourcePaths :: "Host \<Rightarrow> Heap \<Rightarrow> addr \<Rightarrow> SourceInfo list \<Rightarrow> Heap" where
  "updateProjectSourcePaths host h project infos =
     (if project < length h then
        (case h ! project of
           SourceCell obj \<Rightarrow> h
         | ProjectCell p \<Rightarrow>
             (case Sources p of
                None \<Rightarrow> h
              | Some refs \<Rightarrow>
                  updateEach host (basePath p) infos (VideoSource refs)
                    (updateEach host (basePath p) infos (AudioSource refs)
                       (updateEach host (basePath p) infos (PDFSource refs)
                          (updateEach host (basePath p) infos (PictureSource refs)
                             (updateEach host (basePath p) infos (TextSource refs) h))))))
      else h)"

section \<open>The export (export/index.ts)\<close>

text \<open>
  The options object that \<^verbatim>\<open>exportQDPX\<close> builds.  It has five properties; the caller's
  \<^verbatim>\<open>onMissingSource\<close> is not among them.
\<close>

definition exportDefaults :: "Host \<Rightarrow> string \<Rightarrow> ExportOptions \<Rightarrow> ExportOptions" where
  "exportDefaults host outputPath options =
     \<lparr>includeExternalSources = Some (case includeExternalSources options of Some b \<Rightarrow> b | None \<Rightarrow> False),
      exportBasePath = Some (if truthy (exportBasePath options)
                             then (case exportBasePath options of Some b \<Rightarrow> b | None \<Rightarrow> [])
                             else path_dirname host outputPath),
      maxInternalFileSize = Some (if numTruthy (maxInternalFileSize options)
                                  then (case maxInternalFileSize options of Some m \<Rightarrow> m | None \<Rightarrow> NaN)
                                  else Num 2147483647),
      validateBeforeExport = Some (case validateBeforeExport options of Some b \<Rightarrow> b | None \<Rightarrow> True),
      overwrite = Some (case overwrite options of Some b \<Rightarrow> b | None \<Rightarrow> False),
      onMissingSource = None\<rparr>"

text \<open>
  The output container: the manifest and the entries under \<^verbatim>\<open>sources/\<close>
  (\<^verbatim>\<open>createQDPXFile\<close> strips that prefix from a file's key and adds the file to the
  \<^verbatim>\<open>sources\<close> folder).
\<close>

record Container =
  manifest :: string
  entries :: "(string \<times> string) list"

definition createQDPXFile :: "Host \<Rightarrow> string \<Rightarrow> string \<Rightarrow> (string \<times> string) list \<Rightarrow> ExportError + Container" where
  "createQDPXFile host outputPath qdeContent files =
     (if fs_writable host outputPath then
        Inr \<lparr>manifest = qdeContent,
             entries = map (\<lambda>(fname, content).
                         (if startsWith fname ''sources/'' then substring fname 8 else fname, content)) files\<rparr>
      else Inl (ExportError ''Failed to create QDPX file: '' []))"

text \<open>
  What an export leaves behind: the heap, the container written at the output path (if
  one was written), and the result or the error thrown.
\<close>

record Outcome =
  heap :: Heap
  written :: "(string \<times> Container) option"
  returned :: "ExportError + ExportResult"

definition failed :: "Heap \<Rightarrow> ExportError \<Rightarrow> Outcome" where
  "failed h e = \<lparr>heap = h, written = None, returned = Inl e\<rparr>"

text \<open>The steps of \<^verbatim>\<open>exportQDPX\<close> after validation: package, rewrite, build, write.\<close>

definition packageAndWrite :: "Host \<Rightarrow> Heap \<Rightarrow> addr \<Rightarrow> Project \<Rightarrow> string \<Rightarrow> ExportOptions \<Rightarrow> Outcome" where
  "packageAndWrite host h2 projectCopy copy2 outputPath exportOptions =
     (let st = processSourcesForExport host copy2 exportOptions [] [];
          h3 = updateProjectSourcePaths host h2 projectCopy (sourceInfoList st)
      in (case snapshot h3 projectCopy of
            None \<Rightarrow> failed h3 (ExportError ''Failed to export QDPX file:'' [])
          | Some copy3 \<Rightarrow>
              (case buildQDEFile (buildObject host) copy3 of
                 Inl e \<Rightarrow> failed h3 e
               | Inr qdeContent \<Rightarrow>
                   (case createQDPXFile host outputPath qdeContent (sourceFiles st) of
                      Inl e \<Rightarrow> failed h3 e
                    | Inr container \<Rightarrow>
                        \<lparr>heap = h3, written = Some (outputPath, container),
                         returned = Inr \<lparr>success = True, qdpxPath = outputPath,
                                         externalSources = pk_externalSources st,
                                         warnings = pk_warnings st\<rparr>\<rparr>))))"

text \<open>\<^verbatim>\<open>if (!projectCopy.basePath && exportOptions.exportBasePath) projectCopy.basePath = ...\<close>\<close>

definition defaultBasePath :: "Heap \<Rightarrow> addr \<Rightarrow> ExportOptions \<Rightarrow> Heap" where
  "defaultBasePath h1 projectCopy exportOptions =
     (if projectCopy < length h1 then
        (case h1 ! projectCopy of
           ProjectCell p \<Rightarrow>
             if \<not> truthy (basePath p) \<and> truthy (exportBasePath exportOptions)
             then h1[projectCopy := ProjectCell (p\<lparr>basePath := exportBasePath exportOptions\<rparr>)]
             else h1
         | SourceCell obj \<Rightarrow> h1)
      else h1)"

definition exportQDPX :: "Host \<Rightarrow> Heap \<Rightarrow> addr \<Rightarrow> string \<Rightarrow> ExportOptions \<Rightarrow> Outcome" where
  "exportQDPX host h project outputPath options =
     (case deepCopy h project of
        None \<Rightarrow> failed h (ExportError ''Failed to export QDPX file:'' [])
      | Some (h1, projectCopy) \<Rightarrow>
          (let exportOptions = exportDefaults host outputPath options in
           if fs_existsSync host outputPath \<and> overwrite exportOptions \<noteq> Some True then
             failed h1 (ExportError (''Output file already exists: '' @ outputPath
                                      @ ''. Use overwrite option to replace it.'') [])
           else
             (let h2 = defaultBasePath h1 projectCopy exportOptions in
              (case snapshot h2 projectCopy of
                 None \<Rightarrow> failed h2 (ExportError ''Failed to export QDPX file:'' [])
               | Some copy2 \<Rightarrow>
                   (let validationErrors =
                          (if validateBeforeExport exportOptions = Some True
                           then validateProjectForExport (buildObject host) copy2 else [])
                    in if length validationErrors > 0 then
                         failed h2 (ExportError ''Project validation failed before export'' validationErrors)
                       else packageAndWrite host h2 projectCopy copy2 outputPath exportOptions)))))"


section \<open>The XML parser's trees\<close>

text \<open>
  What the XML library's \<^verbatim>\<open>parseStringPromise\<close> returns for an element under the options
  the importer sets (\<^verbatim>\<open>explicitArray: false\<close>, \<^verbatim>\<open>mergeAttrs: true\<close>): a string for an
  element that holds only text (the empty string for an empty element), an object for an
  element with attributes or child elements (both as its properties), and an array for a
  child element that occurs more than once.  Such a tree holds no numbers and no
  booleans.  A property that is missing reads as \<^verbatim>\<open>undefined\<close>, which is \<^verbatim>\<open>None\<close> here.
\<close>

datatype xml = XText string | XElement "(string \<times> xml) list" | XList "xml list"






subsection \<open>parseInt and parseFloat\<close>















section \<open>The XML parser (import/xml-parser.ts)\<close>








































































section \<open>Example data\<close>

text \<open>
  A host for the examples.  Its path functions are the POSIX ones on paths without
  \<^verbatim>\<open>.\<close> and \<^verbatim>\<open>..\<close> segments; its file system is a list of files and their bytes, and
  every output path is writable; the n-th generated identifier is \<^verbatim>\<open>id\<close> followed by n;
  the XML library renders every tree as the same text.
\<close>

definition posixBasename :: "string \<Rightarrow> string" where
  "posixBasename p = rev (takeWhile (\<lambda>c. c \<noteq> CHR ''/'') (rev p))"

definition posixDirname :: "string \<Rightarrow> string" where
  "posixDirname p =
     (if CHR ''/'' \<notin> set p then ''.''
      else if rev (drop 1 (dropWhile (\<lambda>c. c \<noteq> CHR ''/'') (rev p))) = [] then ''/''
      else rev (drop 1 (dropWhile (\<lambda>c. c \<noteq> CHR ''/'') (rev p))))"

definition posixExtname :: "string \<Rightarrow> string" where
  "posixExtname p =
     (if CHR ''.'' \<notin> set (drop 1 (posixBasename p)) then []
      else CHR ''.'' # rev (takeWhile (\<lambda>c. c \<noteq> CHR ''.'') (rev (posixBasename p))))"

definition posixResolve :: "string \<Rightarrow> string \<Rightarrow> string" where
  "posixResolve base p = (if startsWith p ''/'' then p else base @ ''/'' @ p)"

definition posixRelative :: "string \<Rightarrow> string \<Rightarrow> string" where
  "posixRelative from to = (if startsWith to (from @ ''/'') then drop (length from + 1) to else to)"

definition exampleHost :: "(string \<times> string) list \<Rightarrow> Host" where
  "exampleHost files =
     \<lparr>path_dirname = posixDirname, path_resolve = posixResolve, path_basename = posixBasename,
      path_extname = posixExtname, path_relative = posixRelative, path_sep = CHR ''/'',
      fs_existsSync = (\<lambda>p. map_of files p \<noteq> None),
      fs_stat = (\<lambda>p. map_option length (map_of files p)),
      fs_readFile = map_of files,
      fs_writable = (\<lambda>p. True),
      uuidv4 = (\<lambda>n. ''id'' @ decimal n),
      buildObject = (\<lambda>tree. Inr ''<Project/>'')\<rparr>"

definition emptySources :: "('t, 'p, 'd, 'a, 'v) SourcesOf" where
  "emptySources = \<lparr>TextSource = None, PictureSource = None, PDFSource = None,
                   AudioSource = None, VideoSource = None\<rparr>"

text \<open>A project with a name and nothing else.\<close>

definition projectNamed :: "string \<Rightarrow> 's ProjectOf" where
  "projectNamed n =
     \<lparr>Users = None, CodeBook = None, Variables = None, Cases = None, Sources = None, Notes = None,
      Links = None, Sets = None, Graphs = None, Description = None, NoteRef = None, name = n,
      origin = None, creatingUserGUID = None, creationDateTime = None, modifyingUserGUID = None,
      modifiedDateTime = None, basePath = None\<rparr>"

text \<open>A picture source with an identifier and an address, and nothing else.\<close>

definition pictureAt' :: "string \<Rightarrow> string \<Rightarrow> PictureSourceType" where
  "pictureAt' g p =
     \<lparr>PictureSourceType.Description = None, TextDescription = None, PictureSelection = None,
      PictureSourceType.Coding = None, PictureSourceType.NoteRef = None,
      PictureSourceType.VariableValue = None, PictureSourceType.guid = g,
      PictureSourceType.name = None, PictureSourceType.path = Some p,
      PictureSourceType.currentPath = None, PictureSourceType.creatingUser = None,
      PictureSourceType.creationDateTime = None, PictureSourceType.modifyingUser = None,
      PictureSourceType.modifiedDateTime = None\<rparr>"

text \<open>A text source with an identifier and (optionally) a text, and nothing else.\<close>

definition textSourceWith :: "string \<Rightarrow> string option \<Rightarrow> TextSourceType" where
  "textSourceWith g content =
     \<lparr>TextSourceType.Description = None, TextSourceType.PlainTextContent = content,
      PlainTextSelection = None, TextSourceType.Coding = None, TextSourceType.NoteRef = None,
      TextSourceType.VariableValue = None, TextSourceType.guid = g, TextSourceType.name = None,
      TextSourceType.richTextPath = None, TextSourceType.plainTextPath = None,
      TextSourceType.creatingUser = None, TextSourceType.creationDateTime = None,
      TextSourceType.modifyingUser = None, TextSourceType.modifiedDateTime = None,
      TextSourceType.path = None, TextSourceType.currentPath = None\<rparr>"

definition userWith :: "string \<Rightarrow> UserType" where
  "userWith g = \<lparr>UserType.guid = g, UserType.name = None, user_id = None\<rparr>"

text \<open>
  A heap that holds one project, named P1, whose only source is a picture with identifier
  \<^verbatim>\<open>g1\<close> at the given address: the picture at address 0, the project at address 1.
\<close>

definition pictureHeap :: "string \<Rightarrow> Heap" where
  "pictureHeap address =
     [SourceCell (PictureObject (pictureAt' ''g1'' address)),
      ProjectCell ((projectNamed ''P1'')\<lparr>Sources := Some (emptySources\<lparr>PictureSource := Some [0]\<rparr>)\<rparr>)]"

definition optionsWith :: "jsnum option \<Rightarrow> (string \<Rightarrow> string \<Rightarrow> string \<Rightarrow> bool) option \<Rightarrow> ExportOptions" where
  "optionsWith limit callback =
     \<lparr>includeExternalSources = Some True, exportBasePath = None, maxInternalFileSize = limit,
      validateBeforeExport = Some False, overwrite = None, onMissingSource = callback\<rparr>"





text \<open>A project named P1 with one text source, whose text is given.\<close>

definition projectWithText :: "string option \<Rightarrow> Project" where
  "projectWithText content =
     (projectNamed ''P1'')\<lparr>Sources := Some (emptySources\<lparr>TextSource :=
        Some [textSourceWith ''11111111-1111-1111-1111-111111111111'' content]\<rparr>)\<rparr>"


section \<open>Notions used in the proofs\<close>

text \<open>The addresses a project object holds: those of its five source lists.\<close>

definition optRefs :: "addr list option \<Rightarrow> addr list" where
  "optRefs r = (case r of None \<Rightarrow> [] | Some l \<Rightarrow> l)"

definition allRefs :: "SourceRefs \<Rightarrow> addr list" where
  "allRefs r = optRefs (TextSource r) @ optRefs (PictureSource r) @ optRefs (PDFSource r)
               @ optRefs (AudioSource r) @ optRefs (VideoSource r)"






section \<open>What the validators visit\<close>

text \<open>
  The identifiers that \<^verbatim>\<open>validateProjectGUIDs\<close> checks, each with the path it is
  checked under, in the order of the checks.
\<close>

definition eachEntry :: "('a \<Rightarrow> nat \<Rightarrow> (string \<times> string) list) \<Rightarrow> 'a list \<Rightarrow> (string \<times> string) list" where
  "eachEntry f xs = concat (map (\<lambda>(i, x). f x i) (enumerate 0 xs))"

definition optEntries :: "'a option \<Rightarrow> ('a \<Rightarrow> (string \<times> string) list) \<Rightarrow> (string \<times> string) list" where
  "optEntries x f = (case x of None \<Rightarrow> [] | Some v \<Rightarrow> f v)"

fun codeIdentifiers :: "CodeType list \<Rightarrow> string \<Rightarrow> nat \<Rightarrow> (string \<times> string) list" where
  "codeIdentifiers [] p index = []"
| "codeIdentifiers (CodeType desc noteRef sub g nm codable col # codes) p index =
     (g, idx p index)
     # (case sub of None \<Rightarrow> [] | Some cs \<Rightarrow> codeIdentifiers cs (idx p index @ ''.Code'') 0)
     @ codeIdentifiers codes p (Suc index)"

definition codingIdentifiers :: "CodingType list option \<Rightarrow> string \<Rightarrow> (string \<times> string) list" where
  "codingIdentifiers codings p =
     optEntries codings (eachEntry (\<lambda>coding codingIndex.
        [(CodingType.guid coding, idx (p @ ''.Coding'') codingIndex)]))"

definition selectionIdentifiers ::
  "'sel list option \<Rightarrow> ('sel \<Rightarrow> GUIDType) \<Rightarrow> ('sel \<Rightarrow> CodingType list option) \<Rightarrow> CodingType list option
   \<Rightarrow> string \<Rightarrow> nat \<Rightarrow> string \<Rightarrow> (string \<times> string) list" where
  "selectionIdentifiers selections selGuid selCoding sourceCoding type index selectionType =
     optEntries selections (eachEntry (\<lambda>selection selIndex.
        (selGuid selection, idx (idx (''Sources.'' @ type) index @ ''.'' @ selectionType) selIndex)
        # codingIdentifiers (selCoding selection)
            (idx (idx (''Sources.'' @ type) index @ ''.'' @ selectionType) selIndex)))
     @ codingIdentifiers sourceCoding (idx (''Sources.'' @ type) index)"

definition transcriptIdentifiers :: "TranscriptType list option \<Rightarrow> string \<Rightarrow> nat \<Rightarrow> (string \<times> string) list" where
  "transcriptIdentifiers transcripts type index =
     optEntries transcripts (eachEntry (\<lambda>transcript transIndex.
        (TranscriptType.guid transcript, idx (idx (''Sources.'' @ type) index @ ''.Transcript'') transIndex)
        # optEntries (SyncPoint transcript) (eachEntry (\<lambda>syncPoint syncIndex.
            [(SyncPointType.guid syncPoint,
              idx (idx (idx (''Sources.'' @ type) index @ ''.Transcript'') transIndex @ ''.SyncPoint'') syncIndex)]))
        @ optEntries (TranscriptSelection transcript) (eachEntry (\<lambda>selection selIndex.
            [(TranscriptSelectionType.guid selection,
              idx (idx (idx (''Sources.'' @ type) index @ ''.Transcript'') transIndex @ ''.TranscriptSelection'') selIndex)]))))"

definition sourceIdentifiers :: "SourcesType \<Rightarrow> (string \<times> string) list" where
  "sourceIdentifiers sources =
     optEntries (TextSource sources) (eachEntry (\<lambda>source index.
        (TextSourceType.guid source, idx ''Sources.TextSource'' index)
        # selectionIdentifiers (PlainTextSelection source) PlainTextSelectionType.guid
            PlainTextSelectionType.Coding (TextSourceType.Coding source)
            ''TextSource'' index ''PlainTextSelection''))
     @ optEntries (PictureSource sources) (eachEntry (\<lambda>source index.
        (PictureSourceType.guid source, idx ''Sources.PictureSource'' index)
        # selectionIdentifiers (PictureSelection source) PictureSelectionType.guid
            PictureSelectionType.Coding (PictureSourceType.Coding source)
            ''PictureSource'' index ''PictureSelection''))
     @ optEntries (PDFSource sources) (eachEntry (\<lambda>source index.
        (PDFSourceType.guid source, idx ''Sources.PDFSource'' index)
        # selectionIdentifiers (PDFSelection source) PDFSelectionType.guid
            PDFSelectionType.Coding (PDFSourceType.Coding source)
            ''PDFSource'' index ''PDFSelection''))
     @ optEntries (AudioSource sources) (eachEntry (\<lambda>source index.
        (AudioSourceType.guid source, idx ''Sources.AudioSource'' index)
        # selectionIdentifiers (AudioSelection source) AudioSelectionType.guid
            AudioSelectionType.Coding (AudioSourceType.Coding source)
            ''AudioSource'' index ''AudioSelection''
        @ transcriptIdentifiers (AudioSourceType.Transcript source) ''AudioSource'' index))
     @ optEntries (VideoSource sources) (eachEntry (\<lambda>source index.
        (VideoSourceType.guid source, idx ''Sources.VideoSource'' index)
        # selectionIdentifiers (VideoSelection source) VideoSelectionType.guid
            VideoSelectionType.Coding (VideoSourceType.Coding source)
            ''VideoSource'' index ''VideoSelection''
        @ transcriptIdentifiers (VideoSourceType.Transcript source) ''VideoSource'' index))"

definition graphIdentifiers :: "GraphType list \<Rightarrow> (string \<times> string) list" where
  "graphIdentifiers graphs =
     eachEntry (\<lambda>graph index.
        (GraphType.guid graph, idx ''Graphs.Graph'' index)
        # optEntries (Vertex graph) (eachEntry (\<lambda>vertex vertexIndex.
            [(VertexType.guid vertex, idx (idx ''Graphs.Graph'' index @ ''.Vertex'') vertexIndex)]))
        @ optEntries (Edge graph) (eachEntry (\<lambda>edge edgeIndex.
            [(EdgeType.guid edge, idx (idx ''Graphs.Graph'' index @ ''.Edge'') edgeIndex)]))) graphs"

definition visitedIdentifiers :: "Project \<Rightarrow> (string \<times> string) list" where
  "visitedIdentifiers project =
     optEntries (Users project) (\<lambda>us. eachEntry (\<lambda>user index.
        [(UserType.guid user, idx ''Users.User'' index)]) (User us))
     @ optEntries (CodeBook project) (\<lambda>cb. codeIdentifiers (CodesType.Code (Codes cb)) ''CodeBook.Codes.Code'' 0)
     @ optEntries (Variables project) (\<lambda>vs. eachEntry (\<lambda>variable index.
        [(VariableType.guid variable, idx ''Variables.Variable'' index)]) (Variable vs))
     @ optEntries (Cases project) (\<lambda>cs. eachEntry (\<lambda>caseItem index.
        [(CaseType.guid caseItem, idx ''Cases.Case'' index)]) (Case cs))
     @ optEntries (Sources project) sourceIdentifiers
     @ optEntries (Sets project) (\<lambda>ss. eachEntry (\<lambda>s index.
        [(SetType.guid s, idx ''Sets.Set'' index)]) (SetsType.Set ss))
     @ optEntries (Graphs project) (\<lambda>gs. graphIdentifiers (Graph gs))
     @ optEntries (Links project) (\<lambda>ls. eachEntry (\<lambda>link index.
        [(LinkType.guid link, idx ''Links.Link'' index)]) (Link ls))"

text \<open>The map after the identifiers of a list have been entered one by one.\<close>

definition entered :: "(string \<times> string) list \<Rightarrow> (string \<rightharpoonup> string) \<Rightarrow> (string \<rightharpoonup> string)" where
  "entered es m = fold (\<lambda>(g, c) m. m(g \<mapsto> c)) es m"


text \<open>One step of the identifier check, on a pair of an identifier and its path.\<close>

abbreviation (input) guidStep :: "string \<times> string \<Rightarrow> GuidState \<Rightarrow> GuidState" where
  "guidStep \<equiv> \<lambda>(g, c). checkGuid g c"


text \<open>A project named P1 whose only entities are users with the given identifiers.\<close>

definition projectWithUsers :: "string list \<Rightarrow> Project" where
  "projectWithUsers gs = (projectNamed ''P1'')\<lparr>Users := Some \<lparr>User = map userWith gs\<rparr>\<rparr>"

text \<open>A project named P1 whose only entities are notes with the given identifiers.\<close>

definition projectWithNotes :: "string list \<Rightarrow> Project" where
  "projectWithNotes gs =
     (projectNamed ''P1'')\<lparr>Notes := Some \<lparr>Note = map (\<lambda>g. textSourceWith g (Some ''memo'')) gs\<rparr>\<rparr>"


text \<open>
  The reference fields that \<^verbatim>\<open>validateProjectReferences\<close> hands to \<^verbatim>\<open>checkReference\<close>,
  each as the pair of its target identifier and its path, in the order of the calls.
\<close>

definition refEntries :: "NoteRefType list option \<Rightarrow> string \<Rightarrow> (string \<times> string) list" where
  "refEntries refs context =
     optEntries refs (eachEntry (\<lambda>r index.
        [(NoteRefType.targetGUID r, idx context index @ ''.targetGUID'')]))"

text \<open>An identifier property that is read only when it is truthy.\<close>

definition optionalEntry :: "string option \<Rightarrow> string \<Rightarrow> (string \<times> string) list" where
  "optionalEntry gid context =
     (case gid of None \<Rightarrow> [] | Some g \<Rightarrow> if g \<noteq> [] then [(g, context)] else [])"

fun codeReferences :: "CodeType list \<Rightarrow> string \<Rightarrow> nat \<Rightarrow> (string \<times> string) list" where
  "codeReferences [] p index = []"
| "codeReferences (CodeType desc noteRef sub g nm codable col # codes) p index =
     refEntries noteRef (idx p index @ ''.NoteRef'')
     @ (case sub of None \<Rightarrow> [] | Some cs \<Rightarrow> codeReferences cs (idx p index @ ''.Code'') 0)
     @ codeReferences codes p (Suc index)"

definition codingReferences :: "CodingType list option \<Rightarrow> string \<Rightarrow> (string \<times> string) list" where
  "codingReferences codings p =
     optEntries codings (eachEntry (\<lambda>coding codingIndex.
        refEntries (Some [CodingType.CodeRef coding]) (idx (p @ ''.Coding'') codingIndex @ ''.CodeRef'')
        @ refEntries (CodingType.NoteRef coding) (idx (p @ ''.Coding'') codingIndex @ ''.NoteRef'')))"

definition variableValueReferences :: "VariableValueType list option \<Rightarrow> string \<Rightarrow> (string \<times> string) list" where
  "variableValueReferences vals p =
     optEntries vals (eachEntry (\<lambda>v valueIndex.
        [(NoteRefType.targetGUID (VariableRef v),
          (idx (p @ ''.VariableValue'') valueIndex @ ''.VariableRef'') @ ''.targetGUID'')]))"

definition sourceReferences ::
  "NoteRefType list option \<Rightarrow> CodingType list option \<Rightarrow> VariableValueType list option
   \<Rightarrow> string \<Rightarrow> (string \<times> string) list" where
  "sourceReferences noteRef coding variableValue sourcePath =
     refEntries noteRef (sourcePath @ ''.NoteRef'')
     @ codingReferences coding sourcePath
     @ variableValueReferences variableValue sourcePath"

definition selectionReferences ::
  "'sel list option \<Rightarrow> ('sel \<Rightarrow> NoteRefType list option) \<Rightarrow> ('sel \<Rightarrow> CodingType list option)
   \<Rightarrow> string \<Rightarrow> string \<Rightarrow> (string \<times> string) list" where
  "selectionReferences selections selNoteRef selCoding sourcePath selectionType =
     optEntries selections (eachEntry (\<lambda>selection selIndex.
        refEntries (selNoteRef selection) (idx (sourcePath @ ''.'' @ selectionType) selIndex @ ''.NoteRef'')
        @ codingReferences (selCoding selection) (idx (sourcePath @ ''.'' @ selectionType) selIndex)))"

definition transcriptReferences :: "TranscriptType list option \<Rightarrow> string \<Rightarrow> (string \<times> string) list" where
  "transcriptReferences transcripts sourcePath =
     optEntries transcripts (eachEntry (\<lambda>transcript transIndex.
        refEntries (TranscriptType.NoteRef transcript) (idx (sourcePath @ ''.Transcript'') transIndex @ ''.NoteRef'')
        @ optEntries (TranscriptSelection transcript) (eachEntry (\<lambda>selection selIndex.
            optionalEntry (fromSyncPoint selection)
              (idx (idx (sourcePath @ ''.Transcript'') transIndex @ ''.TranscriptSelection'') selIndex @ ''.fromSyncPoint'')
            @ optionalEntry (toSyncPoint selection)
              (idx (idx (sourcePath @ ''.Transcript'') transIndex @ ''.TranscriptSelection'') selIndex @ ''.toSyncPoint'')
            @ refEntries (TranscriptSelectionType.NoteRef selection)
              (idx (idx (sourcePath @ ''.Transcript'') transIndex @ ''.TranscriptSelection'') selIndex @ ''.NoteRef'')
            @ codingReferences (TranscriptSelectionType.Coding selection)
              (idx (idx (sourcePath @ ''.Transcript'') transIndex @ ''.TranscriptSelection'') selIndex)))))"

definition sourcesReferences :: "SourcesType \<Rightarrow> (string \<times> string) list" where
  "sourcesReferences sources =
     optEntries (TextSource sources) (eachEntry (\<lambda>source index.
        sourceReferences (TextSourceType.NoteRef source) (TextSourceType.Coding source)
          (TextSourceType.VariableValue source) (idx ''project.Sources.TextSource'' index)
        @ selectionReferences (PlainTextSelection source) PlainTextSelectionType.NoteRef
            PlainTextSelectionType.Coding (idx ''project.Sources.TextSource'' index) ''PlainTextSelection''))
     @ optEntries (PictureSource sources) (eachEntry (\<lambda>source index.
        sourceReferences (PictureSourceType.NoteRef source) (PictureSourceType.Coding source)
          (PictureSourceType.VariableValue source) (idx ''project.Sources.PictureSource'' index)
        @ selectionReferences (PictureSelection source) PictureSelectionType.NoteRef
            PictureSelectionType.Coding (idx ''project.Sources.PictureSource'' index) ''PictureSelection''))
     @ optEntries (PDFSource sources) (eachEntry (\<lambda>source index.
        sourceReferences (PDFSourceType.NoteRef source) (PDFSourceType.Coding source)
          (PDFSourceType.VariableValue source) (idx ''project.Sources.PDFSource'' index)
        @ selectionReferences (PDFSelection source) PDFSelectionType.NoteRef
            PDFSelectionType.Coding (idx ''project.Sources.PDFSource'' index) ''PDFSelection''))
     @ optEntries (AudioSource sources) (eachEntry (\<lambda>source index.
        sourceReferences (AudioSourceType.NoteRef source) (AudioSourceType.Coding source)
          (AudioSourceType.VariableValue source) (idx ''project.Sources.AudioSource'' index)
        @ selectionReferences (AudioSelection source) AudioSelectionType.NoteRef
            AudioSelectionType.Coding (idx ''project.Sources.AudioSource'' index) ''AudioSelection''
        @ transcriptReferences (AudioSourceType.Transcript source) (idx ''project.Sources.AudioSource'' index)))
     @ optEntries (VideoSource sources) (eachEntry (\<lambda>source index.
        sourceReferences (VideoSourceType.NoteRef source) (VideoSourceType.Coding source)
          (VideoSourceType.VariableValue source) (idx ''project.Sources.VideoSource'' index)
        @ selectionReferences (VideoSelection source) VideoSelectionType.NoteRef
            VideoSelectionType.Coding (idx ''project.Sources.VideoSource'' index) ''VideoSelection''
        @ transcriptReferences (VideoSourceType.Transcript source) (idx ''project.Sources.VideoSource'' index)))"

definition casesReferences :: "CaseType list \<Rightarrow> (string \<times> string) list" where
  "casesReferences cases =
     eachEntry (\<lambda>caseItem index.
        refEntries (CaseType.CodeRef caseItem) (idx ''project.Cases.Case'' index @ ''.CodeRef'')
        @ variableValueReferences (CaseType.VariableValue caseItem) (idx ''project.Cases.Case'' index)
        @ refEntries (SourceRef caseItem) (idx ''project.Cases.Case'' index @ ''.SourceRef'')
        @ refEntries (SelectionRef caseItem) (idx ''project.Cases.Case'' index @ ''.SelectionRef'')) cases"

definition setsReferences :: "SetType list \<Rightarrow> (string \<times> string) list" where
  "setsReferences sets =
     eachEntry (\<lambda>s index.
        refEntries (MemberCode s) (idx ''project.Sets.Set'' index @ ''.MemberCode'')
        @ refEntries (MemberSource s) (idx ''project.Sets.Set'' index @ ''.MemberSource'')
        @ refEntries (MemberNote s) (idx ''project.Sets.Set'' index @ ''.MemberNote'')) sets"

definition linksReferences :: "LinkType list \<Rightarrow> (string \<times> string) list" where
  "linksReferences links =
     eachEntry (\<lambda>link index.
        optionalEntry (originGUID link) (idx ''project.Links.Link'' index @ ''.originGUID'')
        @ optionalEntry (LinkType.targetGUID link) (idx ''project.Links.Link'' index @ ''.targetGUID'')
        @ refEntries (LinkType.NoteRef link) (idx ''project.Links.Link'' index @ ''.NoteRef'')) links"

definition graphsReferences :: "GraphType list \<Rightarrow> (string \<times> string) list" where
  "graphsReferences graphs =
     eachEntry (\<lambda>graph index.
        optEntries (Vertex graph) (eachEntry (\<lambda>vertex vertexIndex.
            optionalEntry (VertexType.representedGUID vertex)
              (idx (idx ''project.Graphs.Graph'' index @ ''.Vertex'') vertexIndex @ ''.representedGUID'')))
        @ optEntries (Edge graph) (eachEntry (\<lambda>edge edgeIndex.
            optionalEntry (EdgeType.representedGUID edge)
              (idx (idx ''project.Graphs.Graph'' index @ ''.Edge'') edgeIndex @ ''.representedGUID'')
            @ optionalEntry (Some (sourceVertex edge))
              (idx (idx ''project.Graphs.Graph'' index @ ''.Edge'') edgeIndex @ ''.sourceVertex'')
            @ optionalEntry (Some (targetVertex edge))
              (idx (idx ''project.Graphs.Graph'' index @ ''.Edge'') edgeIndex @ ''.targetVertex'')))) graphs"

definition visitedReferences :: "Project \<Rightarrow> (string \<times> string) list" where
  "visitedReferences project =
     refEntries (NoteRef project) ''project.NoteRef''
     @ optEntries (CodeBook project) (\<lambda>cb.
         codeReferences (CodesType.Code (Codes cb)) ''project.CodeBook.Codes.Code'' 0)
     @ optEntries (Cases project) (\<lambda>cs. casesReferences (Case cs))
     @ optEntries (Sources project) sourcesReferences
     @ optEntries (Sets project) (\<lambda>ss. setsReferences (SetsType.Set ss))
     @ optEntries (Links project) (\<lambda>ls. linksReferences (Link ls))
     @ optEntries (Graphs project) (\<lambda>gs. graphsReferences (Graph gs))"

text \<open>
  What one reference field contributes to the result: the issue for an empty target, the
  issue for a target that is no entity's identifier, or nothing.
\<close>

definition referenceIssue :: "string set \<Rightarrow> string \<times> string \<Rightarrow> string list" where
  "referenceIssue guids e =
     (if fst e = [] then [''Missing reference GUID in '' @ snd e]
      else if fst e \<notin> guids then
        [''Invalid reference in '' @ snd e @ '': GUID '' @ fst e @ '' not found in project'']
      else [])"

text \<open>One step of the reference check, on a pair of a target identifier and its path.\<close>

abbreviation (input) refStep :: "string set \<Rightarrow> string \<times> string \<Rightarrow> string list \<Rightarrow> string list" where
  "refStep guids \<equiv> \<lambda>(g, c). checkReference guids g c"

text \<open>
  A project named P1 with one user, whose identifier is given, and one graph with one
  edge from and to the given vertices.
\<close>

definition projectWithEdge :: "string \<Rightarrow> string \<Rightarrow> string \<Rightarrow> Project" where
  "projectWithEdge userGuid fromVertex toVertex =
     (projectNamed ''P1'')\<lparr>
        Users := Some \<lparr>User = [userWith userGuid]\<rparr>,
        Graphs := Some \<lparr>Graph = [\<lparr>Vertex = None,
           Edge = Some [\<lparr>EdgeType.guid = ''33333333-3333-3333-3333-333333333333'',
                         EdgeType.representedGUID = None, EdgeType.name = None,
                         sourceVertex = fromVertex, targetVertex = toVertex,
                         EdgeType.color = None, EdgeType.direction = None, lineStyle = None\<rparr>],
           GraphType.guid = ''44444444-4444-4444-4444-444444444444'', GraphType.name = None\<rparr>]\<rparr>\<rparr>"

text \<open>
  A project named P1 whose only entity is a note with the given identifier that refers to
  the note with the second identifier.
\<close>

definition projectWithNoteRef :: "string \<Rightarrow> string \<Rightarrow> Project" where
  "projectWithNoteRef g target =
     (projectNamed ''P1'')\<lparr>Notes := Some \<lparr>Note =
        [(textSourceWith g (Some ''memo''))\<lparr>TextSourceType.NoteRef := Some [\<lparr>NoteRefType.targetGUID = target\<rparr>]\<rparr>]\<rparr>\<rparr>"

section \<open>Serialising and parsing back\<close>

text \<open>
  C1.  Two projects of the canonical model that differ only in their text source's
  content, the empty text in one and no text in the other.  The builder hands the XML
  library the same tree for both, so they serialise to the same document, and parsing
  that document cannot give back both.
\<close>

theorem buildQDEFile_conflates_empty_and_absent_text:
  "buildQDEFile render (projectWithText (Some [])) = buildQDEFile render (projectWithText None)
   \<and> prepareProjectForXml (projectWithText (Some [])) = prepareProjectForXml (projectWithText None)
   \<and> projectWithText (Some []) \<noteq> projectWithText None"
proof -
  have p: "prepareProjectForXml (projectWithText (Some [])) = prepareProjectForXml (projectWithText None)"
    by code_simp
  have "TextSource (case Sources (projectWithText (Some [])) of Some s \<Rightarrow> s)
        \<noteq> TextSource (case Sources (projectWithText None) of Some s \<Rightarrow> s)"
    by (simp add: projectWithText_def projectNamed_def emptySources_def textSourceWith_def)
  then have "projectWithText (Some []) \<noteq> projectWithText None" by auto
  with p show ?thesis by (simp add: buildQDEFile_def)
qed

section \<open>A missing source and the caller's callback\<close>

text \<open>
  C2.  A project whose only source is a picture at an absolute address, no file there,
  and a callback that refuses to continue.  The claim has the export throw the
  export-aborted error and write nothing.  \<^verbatim>\<open>exportQDPX\<close> does not pass the callback on:
  the export succeeds with a warning and writes the container.  Called directly with
  the callback, \<^verbatim>\<open>processSourcesForExport\<close> throws the error inside its outer
  \<^verbatim>\<open>try\<close>, whose \<^verbatim>\<open>catch\<close> turns it into the warning of an invalid path.
\<close>

theorem exportQDPX_does_not_abort_on_refusal:
  "returned (exportQDPX (exampleHost []) (pictureHeap ''absolute:///data/a.png'') 1 ''/out/p.qdpx''
               (optionsWith None (Some (\<lambda>p t g. False))))
     = Inr \<lparr>success = True, qdpxPath = ''/out/p.qdpx'', externalSources = [],
            warnings = [''Could not process source: /data/a.png'']\<rparr>
   \<and> written (exportQDPX (exampleHost []) (pictureHeap ''absolute:///data/a.png'') 1 ''/out/p.qdpx''
               (optionsWith None (Some (\<lambda>p t g. False))))
     = Some (''/out/p.qdpx'', \<lparr>manifest = ''<Project/>'', entries = []\<rparr>)
   \<and> pk_warnings (processSourcesForExport (exampleHost [])
          ((projectNamed ''P1'')\<lparr>Sources := Some (emptySources\<lparr>PictureSource := Some [pictureAt' ''g1'' ''absolute:///data/a.png'']\<rparr>)\<rparr>)
          (optionsWith None (Some (\<lambda>p t g. False))) [] [])
     = [''Invalid source path: absolute:///data/a.png'']"
  by code_simp


section \<open>The export leaves the caller's project alone\<close>


lemma storeList_frame:
  assumes "storeList h xs w = (h', r)"
  shows "take (length h) h' = h" and "length h \<le> length h'" and "\<forall>a \<in> set (optRefs r). length h \<le> a"
  using assms by (auto simp: storeList_def optRefs_def split: option.splits)

lemma storeSources_frame:
  assumes "storeSources h s = (h', refs)"
  shows "take (length h) h' = h \<and> length h \<le> length h' \<and> (\<forall>a \<in> set (allRefs refs). length h \<le> a)"
proof -
  obtain h1 ts where 1: "storeList h (TextSource s) TextObject = (h1, ts)" by fastforce
  obtain h2 ps where 2: "storeList h1 (PictureSource s) PictureObject = (h2, ps)" by fastforce
  obtain h3 ds where 3: "storeList h2 (PDFSource s) PDFObject = (h3, ds)" by fastforce
  obtain h4 as where 4: "storeList h3 (AudioSource s) AudioObject = (h4, as)" by fastforce
  obtain h5 vs where 5: "storeList h4 (VideoSource s) VideoObject = (h5, vs)" by fastforce
  from assms 1 2 3 4 5 have h': "h' = h5"
    and refs: "refs = \<lparr>TextSource = ts, PictureSource = ps, PDFSource = ds, AudioSource = as, VideoSource = vs\<rparr>"
    by (simp_all add: storeSources_def)
  note f1 = storeList_frame[OF 1] and f2 = storeList_frame[OF 2] and f3 = storeList_frame[OF 3]
    and f4 = storeList_frame[OF 4] and f5 = storeList_frame[OF 5]
  have len: "length h \<le> length h1" "length h1 \<le> length h2" "length h2 \<le> length h3"
    "length h3 \<le> length h4" "length h4 \<le> length h5"
    using f1 f2 f3 f4 f5 by auto
  have t2: "take (length h) h2 = h"
    by (metis f1(1) f2(1) len(1) take_take min.absorb1)
  have t3: "take (length h) h3 = h"
    by (metis t2 f3(1) len(1,2) le_trans take_take min.absorb1)
  have t4: "take (length h) h4 = h"
    by (metis t3 f4(1) len(1,2,3) le_trans take_take min.absorb1)
  have t5: "take (length h) h5 = h"
    by (metis t4 f5(1) len(1,2,3,4) le_trans take_take min.absorb1)
  have r: "\<forall>a \<in> set (allRefs refs). length h \<le> a"
    using f1(3) f2(3) f3(3) f4(3) f5(3) len by (auto simp: allRefs_def refs)
  show ?thesis using t5 len r h' by auto
qed

lemma storeProject_frame:
  assumes "storeProject h p = (h1, c)"
  shows "take (length h) h1 = h \<and> length h \<le> c \<and> c < length h1
         \<and> (\<exists>q. h1 ! c = ProjectCell q \<and> (\<forall>refs. Sources q = Some refs \<longrightarrow> (\<forall>a \<in> set (allRefs refs). length h \<le> a)))"
proof (cases "Sources p")
  case None
  then show ?thesis using assms by (auto simp: storeProject_def withSources_def)
next
  case (Some s)
  obtain h' refs where st: "storeSources h s = (h', refs)" by fastforce
  from storeSources_frame[OF st] assms Some st show ?thesis
    by (auto simp: storeProject_def withSources_def nth_append)
qed

lemma take_update_ge: "n \<le> a \<Longrightarrow> take n (xs[a := v]) = take n xs"
  by simp

lemma defaultBasePath_frame:
  assumes "n \<le> c"
  shows "take n (defaultBasePath h1 c opts) = take n h1"
    and "length (defaultBasePath h1 c opts) = length h1"
    and "h1 ! c = ProjectCell q \<Longrightarrow> c < length h1 \<Longrightarrow>
         \<exists>q'. defaultBasePath h1 c opts ! c = ProjectCell q' \<and> Sources q' = Sources q"
  using assms by (auto simp: defaultBasePath_def split: Object.splits)

lemma updateAt_frame:
  "n \<le> a \<Longrightarrow> take n (updateAt host b infos a h) = take n h"
  by (auto simp: updateAt_def split: option.splits)

lemma updateEach_frame:
  assumes "\<forall>a \<in> set (optRefs refs). n \<le> a"
  shows "take n (updateEach host b infos refs h) = take n h"
proof (cases refs)
  case None then show ?thesis by (simp add: updateEach_def)
next
  case (Some l)
  have "\<forall>a \<in> set l. n \<le> a \<Longrightarrow> take n (fold (updateAt host b infos) l h) = take n h" for h
    by (induction l arbitrary: h) (auto simp: updateAt_frame)
  then show ?thesis using Some assms by (simp add: updateEach_def optRefs_def)
qed

lemma updateProjectSourcePaths_frame:
  assumes "h ! c = ProjectCell q" and "\<forall>refs. Sources q = Some refs \<longrightarrow> (\<forall>a \<in> set (allRefs refs). n \<le> a)"
  shows "take n (updateProjectSourcePaths host h c infos) = take n h"
proof (cases "c < length h")
  case False then show ?thesis by (simp add: updateProjectSourcePaths_def)
next
  case True
  show ?thesis
  proof (cases "Sources q")
    case None then show ?thesis using True assms by (simp add: updateProjectSourcePaths_def)
  next
    case (Some refs)
    with assms have r: "\<forall>a \<in> set (allRefs refs). n \<le> a" by simp
    then show ?thesis using True assms(1) Some
      by (simp add: updateProjectSourcePaths_def updateEach_frame allRefs_def)
  qed
qed

lemma packageAndWrite_heap:
  "heap (packageAndWrite host h2 c copy2 out opts)
     = updateProjectSourcePaths host h2 c (sourceInfoList (processSourcesForExport host copy2 opts [] []))"
  by (auto simp: packageAndWrite_def failed_def Let_def split: option.splits sum.splits)


lemma those_map_agree:
  assumes "those (map f l) = Some xs" and "\<And>a v. a \<in> set l \<Longrightarrow> f a = Some v \<Longrightarrow> g a = Some v"
  shows "those (map g l) = Some xs"
  using assms
proof (induction l arbitrary: xs)
  case Nil then show ?case by simp
next
  case (Cons a l)
  from Cons.prems(1) obtain v vs where v: "f a = Some v" "those (map f l) = Some vs" "xs = v # vs"
    by (auto split: option.splits)
  have "g a = Some v" using Cons.prems(2)[of a v] v by simp
  moreover have "those (map g l) = Some vs"
    using Cons.IH[OF v(2)] Cons.prems(2) by simp
  ultimately show ?case using v by simp
qed

lemma readList_agree:
  assumes "readList f refs = Some r" and "\<And>a v. f a = Some v \<Longrightarrow> g a = Some v"
  shows "readList g refs = Some r"
proof (cases refs)
  case None then show ?thesis using assms by (simp add: readList_def)
next
  case (Some l)
  with assms(1) obtain xs where xs: "those (map f l) = Some xs" "r = Some xs"
    by (auto simp: readList_def)
  from those_map_agree[OF xs(1), of g] assms(2) have "those (map g l) = Some xs" by blast
  then show ?thesis using Some xs by (simp add: readList_def)
qed

lemma sourceAt_extend:
  assumes "take (length h) h' = h" and "sourceAt h a = Some v"
  shows "sourceAt h' a = Some v"
proof -
  from assms(2) have a: "a < length h" by (auto simp: sourceAt_def split: if_splits)
  have len: "length h \<le> length h'" using assms(1) by (metis length_take min.cobounded2 min.commute)
  have "h' ! a = h ! a" using assms(1) a by (metis nth_take)
  then show ?thesis using assms(2) a len by (auto simp: sourceAt_def)
qed

lemma snapshotSources_extend:
  assumes "take (length h) h' = h" and "snapshotSources h refs = Some s"
  shows "snapshotSources h' refs = Some s"
proof -
  note ext = sourceAt_extend[OF assms(1)]
  have t: "\<And>a v. textAt h a = Some v \<Longrightarrow> textAt h' a = Some v"
    by (auto simp: textAt_def dest: ext split: option.splits SourceObject.splits)
  have p: "\<And>a v. pictureAt h a = Some v \<Longrightarrow> pictureAt h' a = Some v"
    by (auto simp: pictureAt_def dest: ext split: option.splits SourceObject.splits)
  have d: "\<And>a v. pdfAt h a = Some v \<Longrightarrow> pdfAt h' a = Some v"
    by (auto simp: pdfAt_def dest: ext split: option.splits SourceObject.splits)
  have a: "\<And>a v. audioAt h a = Some v \<Longrightarrow> audioAt h' a = Some v"
    by (auto simp: audioAt_def dest: ext split: option.splits SourceObject.splits)
  have v: "\<And>a v. videoAt h a = Some v \<Longrightarrow> videoAt h' a = Some v"
    by (auto simp: videoAt_def dest: ext split: option.splits SourceObject.splits)
  from assms(2) obtain ts ps ds as vs where r:
    "readList (textAt h) (TextSource refs) = Some ts"
    "readList (pictureAt h) (PictureSource refs) = Some ps"
    "readList (pdfAt h) (PDFSource refs) = Some ds"
    "readList (audioAt h) (AudioSource refs) = Some as"
    "readList (videoAt h) (VideoSource refs) = Some vs"
    "s = \<lparr>TextSource = ts, PictureSource = ps, PDFSource = ds, AudioSource = as, VideoSource = vs\<rparr>"
    by (auto simp: snapshotSources_def split: Option.bind_splits)
  show ?thesis
    using readList_agree[OF r(1), of "textAt h'"] readList_agree[OF r(2), of "pictureAt h'"]
      readList_agree[OF r(3), of "pdfAt h'"] readList_agree[OF r(4), of "audioAt h'"]
      readList_agree[OF r(5), of "videoAt h'"] t p d a v r(6)
    by (simp add: snapshotSources_def)
qed

lemma snapshot_extend:
  assumes "take (length h) h' = h" and "snapshot h a = Some p"
  shows "snapshot h' a = Some p"
proof -
  from assms(2) have a: "a < length h" by (auto simp: snapshot_def split: if_splits)
  have len: "length h \<le> length h'" using assms(1) by (metis length_take min.cobounded2 min.commute)
  have same: "h' ! a = h ! a" using assms(1) a by (metis nth_take)
  from assms(2) a obtain q where q: "h ! a = ProjectCell q"
    by (auto simp: snapshot_def split: Object.splits)
  show ?thesis
  proof (cases "Sources q")
    case None
    then show ?thesis using assms(2) a len same q by (simp add: snapshot_def)
  next
    case (Some refs)
    with assms(2) a q obtain s where s: "snapshotSources h refs = Some s" "p = withSources q (Some s)"
      by (auto simp: snapshot_def)
    from snapshotSources_extend[OF assms(1) s(1)] show ?thesis
      using Some a len same q s by (simp add: snapshot_def)
  qed
qed

lemma exportQDPX_heap_frame:
  "take (length h) (heap (exportQDPX host h project outputPath options)) = h"
proof (cases "deepCopy h project")
  case None
  then show ?thesis by (simp add: exportQDPX_def failed_def)
next
  case (Some r)
  obtain h1 c where r: "r = (h1, c)" by (cases r)
  from Some r obtain p where sp: "storeProject h p = (h1, c)"
    by (auto simp: deepCopy_def)
  from storeProject_frame[OF sp] obtain q where
    t1: "take (length h) h1 = h" and c: "length h \<le> c" "c < length h1"
    and q: "h1 ! c = ProjectCell q"
    and refs: "\<forall>refs. Sources q = Some refs \<longrightarrow> (\<forall>a \<in> set (allRefs refs). length h \<le> a)"
    by blast
  define opts where "opts = exportDefaults host outputPath options"
  define h2 where "h2 = defaultBasePath h1 c opts"
  have t2: "take (length h) h2 = h"
    using defaultBasePath_frame(1)[OF c(1)] t1 by (simp add: h2_def)
  from defaultBasePath_frame(3)[OF c(1) q c(2)] obtain q' where
    q': "h2 ! c = ProjectCell q'" "Sources q' = Sources q" by (auto simp: h2_def)
  have t3: "take (length h) (updateProjectSourcePaths host h2 c infos) = h" for infos
    using updateProjectSourcePaths_frame[OF q'(1), of "length h"] refs q'(2) t2 by simp
  show ?thesis
    using Some r t1 t2 t3
    by (auto simp: exportQDPX_def Let_def failed_def packageAndWrite_heap opts_def[symmetric] h2_def[symmetric]
             split: option.splits)
qed


text \<open>
  C3.  Whatever an export does and however it ends, every object that existed before it
  is afterwards what it was: the heap the export leaves behind begins with the heap it
  was given, and the caller's project reads as the same value.  All writes go to the
  objects of the copy, which are allocated after them.
\<close>

theorem exportQDPX_leaves_original_unmodified:
  "take (length h) (heap (exportQDPX host h project outputPath options)) = h
   \<and> snapshot (heap (exportQDPX host h project outputPath options)) project = snapshot h project"
proof (cases "snapshot h project")
  case None
  then have "heap (exportQDPX host h project outputPath options) = h"
    by (simp add: exportQDPX_def deepCopy_def failed_def)
  then show ?thesis by simp
next
  case (Some p)
  from snapshot_extend[OF exportQDPX_heap_frame Some] exportQDPX_heap_frame Some
  show ?thesis by simp
qed

text \<open>
  An export that rewrites a source address: the picture of the copy (address 2) becomes
  an embedded source, the caller's picture (address 0) keeps its address.
\<close>

theorem exportQDPX_leaves_original_unmodified_witness:
  "take 2 (heap (exportQDPX (exampleHost [(''/data/a.png'', ''x'')]) (pictureHeap ''absolute:///data/a.png'') 1
                   ''/out/p.qdpx'' (optionsWith None None)))
     = pictureHeap ''absolute:///data/a.png''
   \<and> heap (exportQDPX (exampleHost [(''/data/a.png'', ''x'')]) (pictureHeap ''absolute:///data/a.png'') 1
              ''/out/p.qdpx'' (optionsWith None None)) ! 2
     = SourceCell (PictureObject (pictureAt' ''g1'' ''internal://id0.png''))"
proof -
  have len: "length (pictureHeap ''absolute:///data/a.png'') = 2"
    by (simp add: pictureHeap_def)
  have "heap (exportQDPX (exampleHost [(''/data/a.png'', ''x'')]) (pictureHeap ''absolute:///data/a.png'') 1
              ''/out/p.qdpx'' (optionsWith None None)) ! 2
     = SourceCell (PictureObject (pictureAt' ''g1'' ''internal://id0.png''))"
    by code_simp
  then show ?thesis
    using exportQDPX_leaves_original_unmodified
      [of "pictureHeap ''absolute:///data/a.png''" "exampleHost [(''/data/a.png'', ''x'')]" 1
          "''/out/p.qdpx''" "optionsWith None None"]
    by (simp add: len)
qed

section \<open>Loops as folds over what they visit\<close>

lemma fold_pairs_entries:
  assumes "\<And>x i s. f x i s = fold step (e x i) s"
  shows "fold (\<lambda>(i, x). f x i) ps s = fold step (concat (map (\<lambda>(i, x). e x i) ps)) s"
proof (induction ps arbitrary: s)
  case Nil then show ?case by simp
next
  case (Cons p ps)
  obtain i x where p: "p = (i, x)" by (cases p)
  show ?case using Cons.IH assms by (simp add: p)
qed

lemma forEachI_entries:
  assumes "\<And>x i s. f x i s = fold step (e x i) s"
  shows "forEachI f xs s = fold step (eachEntry e xs) s"
  unfolding forEachI_def eachEntry_def by (rule fold_pairs_entries) (rule assms)

lemma whenSome_entries:
  assumes "\<And>v s. f v s = fold step (e v) s"
  shows "whenSome x f s = fold step (optEntries x e) s"
  using assms by (cases x) (simp_all add: whenSome_def optEntries_def)


section \<open>Dangling references\<close>

subsection \<open>The traversal of the reference check\<close>

lemma checkRefs_entries:
  "checkNoteRefs guids refs context errs = fold (refStep guids) (refEntries refs context) errs"
  "checkCodeRefs guids refs context errs = fold (refStep guids) (refEntries refs context) errs"
  "checkSourceRefs guids refs context errs = fold (refStep guids) (refEntries refs context) errs"
  "checkSelectionRefs guids refs context errs = fold (refStep guids) (refEntries refs context) errs"
  unfolding checkNoteRefs_def checkCodeRefs_def checkSourceRefs_def checkSelectionRefs_def refEntries_def
  by (rule whenSome_entries, rule forEachI_entries, simp)+

lemma checkOptionalReference_entries:
  "checkOptionalReference guids gid context errs = fold (refStep guids) (optionalEntry gid context) errs"
  by (simp add: checkOptionalReference_def optionalEntry_def split: option.splits)

lemma checkCodeNoteRefs_entries:
  "checkCodeNoteRefs guids codes p i errs = fold (refStep guids) (codeReferences codes p i) errs"
  by (induction guids codes p i errs rule: checkCodeNoteRefs.induct)
     (auto simp: checkRefs_entries split: option.splits)

lemma checkCodingReferences_entries:
  "checkCodingReferences guids codings p errs = fold (refStep guids) (codingReferences codings p) errs"
  unfolding checkCodingReferences_def codingReferences_def
  by (rule whenSome_entries, rule forEachI_entries) (simp only: checkRefs_entries fold_append comp_apply)

lemma checkVariableValueReferences_entries:
  "checkVariableValueReferences guids vals p errs
     = fold (refStep guids) (variableValueReferences vals p) errs"
  unfolding checkVariableValueReferences_def variableValueReferences_def checkVariableRefs_def
  by (rule whenSome_entries, rule forEachI_entries) simp

lemma checkSourceReferences_entries:
  "checkSourceReferences guids noteRef coding variableValue sourcePath errs
     = fold (refStep guids) (sourceReferences noteRef coding variableValue sourcePath) errs"
  unfolding checkSourceReferences_def sourceReferences_def
  by (simp only: checkRefs_entries checkCodingReferences_entries checkVariableValueReferences_entries
      fold_append comp_apply)

lemma checkSelectionReferences_entries:
  "checkSelectionReferences guids sels selNoteRef selCoding sourcePath selType errs
     = fold (refStep guids) (selectionReferences sels selNoteRef selCoding sourcePath selType) errs"
  unfolding checkSelectionReferences_def selectionReferences_def
  by (rule whenSome_entries, rule forEachI_entries)
     (simp only: checkRefs_entries checkCodingReferences_entries fold_append comp_apply)

lemma checkTranscriptReferences_entries:
  "checkTranscriptReferences guids ts sourcePath errs
     = fold (refStep guids) (transcriptReferences ts sourcePath) errs"
proof -
  have sel: "whenSome sels (forEachI (\<lambda>selection selIndex errors'.
            checkCodingReferences guids (TranscriptSelectionType.Coding selection) (idx p selIndex)
              (checkNoteRefs guids (TranscriptSelectionType.NoteRef selection) (idx p selIndex @ ''.NoteRef'')
                 (checkOptionalReference guids (toSyncPoint selection) (idx p selIndex @ ''.toSyncPoint'')
                    (checkOptionalReference guids (fromSyncPoint selection) (idx p selIndex @ ''.fromSyncPoint'')
                       errors'))))) s
      = fold (refStep guids) (optEntries sels (eachEntry (\<lambda>selection selIndex.
            optionalEntry (fromSyncPoint selection) (idx p selIndex @ ''.fromSyncPoint'')
            @ optionalEntry (toSyncPoint selection) (idx p selIndex @ ''.toSyncPoint'')
            @ refEntries (TranscriptSelectionType.NoteRef selection) (idx p selIndex @ ''.NoteRef'')
            @ codingReferences (TranscriptSelectionType.Coding selection) (idx p selIndex)))) s" for sels p s
    by (rule whenSome_entries, rule forEachI_entries)
       (simp only: checkRefs_entries checkCodingReferences_entries checkOptionalReference_entries
          fold_append comp_apply)
  show ?thesis
    unfolding checkTranscriptReferences_def transcriptReferences_def
    by (rule whenSome_entries, rule forEachI_entries)
       (subst sel, simp only: checkRefs_entries fold_append comp_apply)
qed

lemma checkSourcesReferences_entries:
  "checkSourcesReferences guids sources errs = fold (refStep guids) (sourcesReferences sources) errs"
proof -
  have t: "whenSome (TextSource sources) (forEachI (\<lambda>source index errs.
               checkSelectionReferences guids (PlainTextSelection source) PlainTextSelectionType.NoteRef
                   PlainTextSelectionType.Coding (idx ''project.Sources.TextSource'' index) ''PlainTextSelection''
                 (checkSourceReferences guids (TextSourceType.NoteRef source) (TextSourceType.Coding source)
                    (TextSourceType.VariableValue source) (idx ''project.Sources.TextSource'' index) errs))) s
      = fold (refStep guids) (optEntries (TextSource sources) (eachEntry (\<lambda>source index.
        sourceReferences (TextSourceType.NoteRef source) (TextSourceType.Coding source)
          (TextSourceType.VariableValue source) (idx ''project.Sources.TextSource'' index)
        @ selectionReferences (PlainTextSelection source) PlainTextSelectionType.NoteRef
            PlainTextSelectionType.Coding (idx ''project.Sources.TextSource'' index) ''PlainTextSelection''))) s" for s
    by (rule whenSome_entries, rule forEachI_entries)
       (simp only: checkSourceReferences_entries checkSelectionReferences_entries fold_append comp_apply)
  have p: "whenSome (PictureSource sources) (forEachI (\<lambda>source index errs.
               checkSelectionReferences guids (PictureSelection source) PictureSelectionType.NoteRef
                   PictureSelectionType.Coding (idx ''project.Sources.PictureSource'' index) ''PictureSelection''
                 (checkSourceReferences guids (PictureSourceType.NoteRef source) (PictureSourceType.Coding source)
                    (PictureSourceType.VariableValue source) (idx ''project.Sources.PictureSource'' index) errs))) s
      = fold (refStep guids) (optEntries (PictureSource sources) (eachEntry (\<lambda>source index.
        sourceReferences (PictureSourceType.NoteRef source) (PictureSourceType.Coding source)
          (PictureSourceType.VariableValue source) (idx ''project.Sources.PictureSource'' index)
        @ selectionReferences (PictureSelection source) PictureSelectionType.NoteRef
            PictureSelectionType.Coding (idx ''project.Sources.PictureSource'' index) ''PictureSelection''))) s" for s
    by (rule whenSome_entries, rule forEachI_entries)
       (simp only: checkSourceReferences_entries checkSelectionReferences_entries fold_append comp_apply)
  have d: "whenSome (PDFSource sources) (forEachI (\<lambda>source index errs.
               checkSelectionReferences guids (PDFSelection source) PDFSelectionType.NoteRef
                   PDFSelectionType.Coding (idx ''project.Sources.PDFSource'' index) ''PDFSelection''
                 (checkSourceReferences guids (PDFSourceType.NoteRef source) (PDFSourceType.Coding source)
                    (PDFSourceType.VariableValue source) (idx ''project.Sources.PDFSource'' index) errs))) s
      = fold (refStep guids) (optEntries (PDFSource sources) (eachEntry (\<lambda>source index.
        sourceReferences (PDFSourceType.NoteRef source) (PDFSourceType.Coding source)
          (PDFSourceType.VariableValue source) (idx ''project.Sources.PDFSource'' index)
        @ selectionReferences (PDFSelection source) PDFSelectionType.NoteRef
            PDFSelectionType.Coding (idx ''project.Sources.PDFSource'' index) ''PDFSelection''))) s" for s
    by (rule whenSome_entries, rule forEachI_entries)
       (simp only: checkSourceReferences_entries checkSelectionReferences_entries fold_append comp_apply)
  have a: "whenSome (AudioSource sources) (forEachI (\<lambda>source index errs.
               checkTranscriptReferences guids (AudioSourceType.Transcript source) (idx ''project.Sources.AudioSource'' index)
                 (checkSelectionReferences guids (AudioSelection source) AudioSelectionType.NoteRef
                     AudioSelectionType.Coding (idx ''project.Sources.AudioSource'' index) ''AudioSelection''
                   (checkSourceReferences guids (AudioSourceType.NoteRef source) (AudioSourceType.Coding source)
                      (AudioSourceType.VariableValue source) (idx ''project.Sources.AudioSource'' index) errs)))) s
      = fold (refStep guids) (optEntries (AudioSource sources) (eachEntry (\<lambda>source index.
        sourceReferences (AudioSourceType.NoteRef source) (AudioSourceType.Coding source)
          (AudioSourceType.VariableValue source) (idx ''project.Sources.AudioSource'' index)
        @ selectionReferences (AudioSelection source) AudioSelectionType.NoteRef
            AudioSelectionType.Coding (idx ''project.Sources.AudioSource'' index) ''AudioSelection''
        @ transcriptReferences (AudioSourceType.Transcript source) (idx ''project.Sources.AudioSource'' index)))) s" for s
    by (rule whenSome_entries, rule forEachI_entries)
       (simp only: checkSourceReferences_entries checkSelectionReferences_entries
          checkTranscriptReferences_entries fold_append comp_apply)
  have v: "whenSome (VideoSource sources) (forEachI (\<lambda>source index errs.
               checkTranscriptReferences guids (VideoSourceType.Transcript source) (idx ''project.Sources.VideoSource'' index)
                 (checkSelectionReferences guids (VideoSelection source) VideoSelectionType.NoteRef
                     VideoSelectionType.Coding (idx ''project.Sources.VideoSource'' index) ''VideoSelection''
                   (checkSourceReferences guids (VideoSourceType.NoteRef source) (VideoSourceType.Coding source)
                      (VideoSourceType.VariableValue source) (idx ''project.Sources.VideoSource'' index) errs)))) s
      = fold (refStep guids) (optEntries (VideoSource sources) (eachEntry (\<lambda>source index.
        sourceReferences (VideoSourceType.NoteRef source) (VideoSourceType.Coding source)
          (VideoSourceType.VariableValue source) (idx ''project.Sources.VideoSource'' index)
        @ selectionReferences (VideoSelection source) VideoSelectionType.NoteRef
            VideoSelectionType.Coding (idx ''project.Sources.VideoSource'' index) ''VideoSelection''
        @ transcriptReferences (VideoSourceType.Transcript source) (idx ''project.Sources.VideoSource'' index)))) s" for s
    by (rule whenSome_entries, rule forEachI_entries)
       (simp only: checkSourceReferences_entries checkSelectionReferences_entries
          checkTranscriptReferences_entries fold_append comp_apply)
  show ?thesis
    unfolding checkSourcesReferences_def sourcesReferences_def Let_def
    by (simp only: t p d a v fold_append comp_apply)
qed

lemma checkCasesReferences_entries:
  "checkCasesReferences guids cases errs = fold (refStep guids) (casesReferences cases) errs"
  unfolding checkCasesReferences_def casesReferences_def
  by (rule forEachI_entries)
     (simp only: checkRefs_entries checkVariableValueReferences_entries fold_append comp_apply)

lemma checkSetsReferences_entries:
  "checkSetsReferences guids sets errs = fold (refStep guids) (setsReferences sets) errs"
  unfolding checkSetsReferences_def setsReferences_def
  by (rule forEachI_entries) (simp only: checkRefs_entries fold_append comp_apply)

lemma checkLinksReferences_entries:
  "checkLinksReferences guids links errs = fold (refStep guids) (linksReferences links) errs"
  unfolding checkLinksReferences_def linksReferences_def
  by (rule forEachI_entries)
     (simp only: checkRefs_entries checkOptionalReference_entries fold_append comp_apply)

lemma checkGraphsReferences_entries:
  "checkGraphsReferences guids graphs errs = fold (refStep guids) (graphsReferences graphs) errs"
proof -
  have vx: "whenSome vs (forEachI (\<lambda>vertex vertexIndex.
              checkOptionalReference guids (VertexType.representedGUID vertex)
                (idx p vertexIndex @ ''.representedGUID''))) s
        = fold (refStep guids) (optEntries vs (eachEntry (\<lambda>vertex vertexIndex.
            optionalEntry (VertexType.representedGUID vertex)
              (idx p vertexIndex @ ''.representedGUID'')))) s" for vs p s
    by (rule whenSome_entries, rule forEachI_entries) (simp only: checkOptionalReference_entries)
  have ed: "whenSome es (forEachI (\<lambda>edge edgeIndex errors'.
            checkOptionalReference guids (Some (targetVertex edge)) (idx p edgeIndex @ ''.targetVertex'')
              (checkOptionalReference guids (Some (sourceVertex edge)) (idx p edgeIndex @ ''.sourceVertex'')
                 (checkOptionalReference guids (EdgeType.representedGUID edge)
                    (idx p edgeIndex @ ''.representedGUID'') errors')))) s
        = fold (refStep guids) (optEntries es (eachEntry (\<lambda>edge edgeIndex.
            optionalEntry (EdgeType.representedGUID edge) (idx p edgeIndex @ ''.representedGUID'')
            @ optionalEntry (Some (sourceVertex edge)) (idx p edgeIndex @ ''.sourceVertex'')
            @ optionalEntry (Some (targetVertex edge)) (idx p edgeIndex @ ''.targetVertex'')))) s" for es p s
    by (rule whenSome_entries, rule forEachI_entries)
       (simp only: checkOptionalReference_entries fold_append comp_apply)
  show ?thesis
    unfolding checkGraphsReferences_def graphsReferences_def
    by (rule forEachI_entries) (simp only: vx ed fold_append comp_apply)
qed

lemma validateProjectReferences_entries:
  "validateProjectReferences project
     = fold (refStep (addGuids project)) (visitedReferences project) []"
proof -
  let ?guids = "addGuids project"
  have c: "whenSome (CodeBook project) (\<lambda>cb.
               checkCodeNoteRefs ?guids (CodesType.Code (Codes cb)) ''project.CodeBook.Codes.Code'' 0) s
      = fold (refStep ?guids) (optEntries (CodeBook project) (\<lambda>cb.
         codeReferences (CodesType.Code (Codes cb)) ''project.CodeBook.Codes.Code'' 0)) s" for s
    by (rule whenSome_entries) (simp only: checkCodeNoteRefs_entries)
  have k: "whenSome (Cases project) (\<lambda>cs. checkCasesReferences ?guids (Case cs)) s
      = fold (refStep ?guids) (optEntries (Cases project) (\<lambda>cs. casesReferences (Case cs))) s" for s
    by (rule whenSome_entries) (simp only: checkCasesReferences_entries)
  have so: "whenSome (Sources project) (checkSourcesReferences ?guids) s
      = fold (refStep ?guids) (optEntries (Sources project) sourcesReferences) s" for s
    by (rule whenSome_entries) (simp only: checkSourcesReferences_entries)
  have se: "whenSome (Sets project) (\<lambda>ss. checkSetsReferences ?guids (SetsType.Set ss)) s
      = fold (refStep ?guids) (optEntries (Sets project) (\<lambda>ss. setsReferences (SetsType.Set ss))) s" for s
    by (rule whenSome_entries) (simp only: checkSetsReferences_entries)
  have l: "whenSome (Links project) (\<lambda>ls. checkLinksReferences ?guids (Link ls)) s
      = fold (refStep ?guids) (optEntries (Links project) (\<lambda>ls. linksReferences (Link ls))) s" for s
    by (rule whenSome_entries) (simp only: checkLinksReferences_entries)
  have g: "whenSome (Graphs project) (\<lambda>gs. checkGraphsReferences ?guids (Graph gs)) s
      = fold (refStep ?guids) (optEntries (Graphs project) (\<lambda>gs. graphsReferences (Graph gs))) s" for s
    by (rule whenSome_entries) (simp only: checkGraphsReferences_entries)
  show ?thesis
    unfolding validateProjectReferences_def visitedReferences_def Let_def
    by (simp only: checkRefs_entries c k so se l g fold_append comp_apply)
qed

subsection \<open>One check after another\<close>

lemma fold_checkReference:
  "fold (refStep guids) es errs = errs @ concat (map (referenceIssue guids) es)"
proof (induction es arbitrary: errs)
  case Nil
  then show ?case by simp
next
  case (Cons e es)
  obtain g c where e: "e = (g, c)" by (cases e)
  have "checkReference guids g c errs = errs @ referenceIssue guids (g, c)"
    by (simp add: checkReference_def referenceIssue_def)
  then show ?case by (simp add: e Cons.IH)
qed

lemma addGuids_nonempty: "[] \<notin> addGuids project"
  by (simp add: addGuids_def)

lemma visitedReferences_projectWithEdge:
  "visitedReferences (projectWithEdge ''11111111-1111-1111-1111-111111111111''
       ''11111111-1111-1111-1111-111111111111'' ''55555555-5555-5555-5555-555555555555'')
   = [(''11111111-1111-1111-1111-111111111111'', ''project.Graphs.Graph[0].Edge[0].sourceVertex''),
      (''55555555-5555-5555-5555-555555555555'', ''project.Graphs.Graph[0].Edge[0].targetVertex'')]"
  by code_simp

lemma referenceIssue_projectWithEdge:
  "referenceIssue (addGuids (projectWithEdge ''11111111-1111-1111-1111-111111111111''
       ''11111111-1111-1111-1111-111111111111'' ''55555555-5555-5555-5555-555555555555''))
     (''11111111-1111-1111-1111-111111111111'', ''project.Graphs.Graph[0].Edge[0].sourceVertex'') = []"
  "referenceIssue (addGuids (projectWithEdge ''11111111-1111-1111-1111-111111111111''
       ''11111111-1111-1111-1111-111111111111'' ''55555555-5555-5555-5555-555555555555''))
     (''55555555-5555-5555-5555-555555555555'', ''project.Graphs.Graph[0].Edge[0].targetVertex'')
   = [''Invalid reference in project.Graphs.Graph[0].Edge[0].targetVertex: GUID 55555555-5555-5555-5555-555555555555 not found in project'']"
  by code_simp+

text \<open>
  Notes are not among the parts the check goes through: a note reference inside a note is
  not looked at, whatever its target.
\<close>

lemma validateProjectReferences_skips_notes:
  "validateProjectReferences (projectWithNoteRef ''11111111-1111-1111-1111-111111111111''
      ''55555555-5555-5555-5555-555555555555'') = []"
  by code_simp

subsection \<open>The claim\<close>

text \<open>
  An edge whose \<^verbatim>\<open>sourceVertex\<close> is the empty string and whose \<^verbatim>\<open>targetVertex\<close> is an
  identifier that no entity has: the target vertex is reported, the source vertex is not.
  The identifier properties \<^verbatim>\<open>sourceVertex\<close>, \<^verbatim>\<open>targetVertex\<close>, \<^verbatim>\<open>representedGUID\<close>,
  \<^verbatim>\<open>originGUID\<close>, \<^verbatim>\<open>targetGUID\<close> of a link, \<^verbatim>\<open>fromSyncPoint\<close> and \<^verbatim>\<open>toSyncPoint\<close> are
  handed to \<^verbatim>\<open>checkReference\<close> only when they are truthy.
\<close>

theorem validateProjectReferences_skips_empty_vertex:
  "validateProjectReferences (projectWithEdge ''11111111-1111-1111-1111-111111111111''
      [] ''55555555-5555-5555-5555-555555555555'')
   = [''Invalid reference in project.Graphs.Graph[0].Edge[0].targetVertex: GUID 55555555-5555-5555-5555-555555555555 not found in project'']"
  by code_simp

text \<open>
  C4. Take the reference fields that \<^verbatim>\<open>validateProjectReferences\<close> checks, in the order of
  its traversal: the note references of the project, of codes, codings, sources, selections,
  transcripts, transcript selections and links; the code reference of each coding; the
  code, source and selection references of cases; the variable reference of each variable
  value of a case or a source; the members of sets; and the identifier properties
  \<^verbatim>\<open>fromSyncPoint\<close>, \<^verbatim>\<open>toSyncPoint\<close>, \<^verbatim>\<open>originGUID\<close>, \<^verbatim>\<open>targetGUID\<close>, \<^verbatim>\<open>representedGUID\<close>,
  \<^verbatim>\<open>sourceVertex\<close> and \<^verbatim>\<open>targetVertex\<close> where they are present and not empty.  The
  result is the list of what each of these fields contributes, in this order; a field
  contributes no issue when its target is the identifier of an entity anywhere in the
  project, and exactly one issue otherwise.
\<close>

theorem validateProjectReferences_issues:
  "validateProjectReferences project
     = concat (map (referenceIssue (addGuids project)) (visitedReferences project))
   \<and> (\<forall>e. length (referenceIssue (addGuids project) e)
            = (if fst e \<in> addGuids project then 0 else 1))"
proof
  show "validateProjectReferences project
     = concat (map (referenceIssue (addGuids project)) (visitedReferences project))"
    by (simp add: validateProjectReferences_entries fold_checkReference)
  show "\<forall>e. length (referenceIssue (addGuids project) e)
            = (if fst e \<in> addGuids project then 0 else 1)"
    using addGuids_nonempty[of project] by (auto simp: referenceIssue_def)
qed

theorem validateProjectReferences_issues_witness:
  "validateProjectReferences (projectWithEdge ''11111111-1111-1111-1111-111111111111''
      ''11111111-1111-1111-1111-111111111111'' ''55555555-5555-5555-5555-555555555555'')
   = [''Invalid reference in project.Graphs.Graph[0].Edge[0].targetVertex: GUID 55555555-5555-5555-5555-555555555555 not found in project'']"
  using validateProjectReferences_issues[of "projectWithEdge ''11111111-1111-1111-1111-111111111111''
      ''11111111-1111-1111-1111-111111111111'' ''55555555-5555-5555-5555-555555555555''"]
  by (simp only: visitedReferences_projectWithEdge referenceIssue_projectWithEdge
      list.map concat.simps append_Nil append_Nil2)

section \<open>Duplicate identifiers\<close>

subsection \<open>The traversal of the identifier check\<close>

lemma checkCodes_entries:
  "checkCodes codes p i st = fold guidStep (codeIdentifiers codes p i) st"
  by (induction codes p i st rule: checkCodes.induct) (auto split: option.splits)

lemma checkCodings_entries:
  "checkCodings codings p st = fold guidStep (codingIdentifiers codings p) st"
  unfolding checkCodings_def codingIdentifiers_def
  by (rule whenSome_entries, rule forEachI_entries) simp

lemma checkSourceSelections_entries:
  "checkSourceSelections sels sg sc c type i selType st
     = fold guidStep (selectionIdentifiers sels sg sc c type i selType) st"
proof -
  have inner: "whenSome sels (forEachI (\<lambda>selection selIndex st'.
            checkCodings (sc selection) (idx (idx (''Sources.'' @ type) i @ ''.'' @ selType) selIndex)
              (checkGuid (sg selection) (idx (idx (''Sources.'' @ type) i @ ''.'' @ selType) selIndex) st'))) s
      = fold guidStep (optEntries sels (eachEntry (\<lambda>selection selIndex.
        (sg selection, idx (idx (''Sources.'' @ type) i @ ''.'' @ selType) selIndex)
        # codingIdentifiers (sc selection)
            (idx (idx (''Sources.'' @ type) i @ ''.'' @ selType) selIndex)))) s" for s
    by (rule whenSome_entries, rule forEachI_entries) (simp add: checkCodings_entries)
  show ?thesis
    unfolding checkSourceSelections_def selectionIdentifiers_def
    by (subst inner) (simp only: checkCodings_entries fold_append comp_apply)
qed

lemma checkTranscripts_entries:
  "checkTranscripts ts type i st = fold guidStep (transcriptIdentifiers ts type i) st"
proof -
  have sp: "whenSome sps (forEachI (\<lambda>syncPoint syncIndex.
              checkGuid (SyncPointType.guid syncPoint) (idx p syncIndex))) s
        = fold guidStep (optEntries sps (eachEntry (\<lambda>syncPoint syncIndex.
            [(SyncPointType.guid syncPoint, idx p syncIndex)]))) s" for sps p s
    by (rule whenSome_entries, rule forEachI_entries) simp
  have sel: "whenSome sels (forEachI (\<lambda>selection selIndex.
            checkGuid (TranscriptSelectionType.guid selection) (idx p selIndex))) s
        = fold guidStep (optEntries sels (eachEntry (\<lambda>selection selIndex.
            [(TranscriptSelectionType.guid selection, idx p selIndex)]))) s" for sels p s
    by (rule whenSome_entries, rule forEachI_entries) simp
  show ?thesis
    unfolding checkTranscripts_def transcriptIdentifiers_def
    by (rule whenSome_entries, rule forEachI_entries) (simp add: sp sel)
qed

lemma checkSourcesGuids_entries:
  "checkSourcesGuids sources st = fold guidStep (sourceIdentifiers sources) st"
proof -
  have t: "whenSome (TextSource sources) (forEachI (\<lambda>source index st'.
               checkSourceSelections (PlainTextSelection source) PlainTextSelectionType.guid
                   PlainTextSelectionType.Coding (TextSourceType.Coding source)
                   ''TextSource'' index ''PlainTextSelection''
                 (checkGuid (TextSourceType.guid source) (idx ''Sources.TextSource'' index) st'))) s
      = fold guidStep (optEntries (TextSource sources) (eachEntry (\<lambda>source index.
        (TextSourceType.guid source, idx ''Sources.TextSource'' index)
        # selectionIdentifiers (PlainTextSelection source) PlainTextSelectionType.guid
            PlainTextSelectionType.Coding (TextSourceType.Coding source)
            ''TextSource'' index ''PlainTextSelection''))) s" for s
    by (rule whenSome_entries, rule forEachI_entries) (simp add: checkSourceSelections_entries)
  have p: "whenSome (PictureSource sources) (forEachI (\<lambda>source index st'.
               checkSourceSelections (PictureSelection source) PictureSelectionType.guid
                   PictureSelectionType.Coding (PictureSourceType.Coding source)
                   ''PictureSource'' index ''PictureSelection''
                 (checkGuid (PictureSourceType.guid source) (idx ''Sources.PictureSource'' index) st'))) s
      = fold guidStep (optEntries (PictureSource sources) (eachEntry (\<lambda>source index.
        (PictureSourceType.guid source, idx ''Sources.PictureSource'' index)
        # selectionIdentifiers (PictureSelection source) PictureSelectionType.guid
            PictureSelectionType.Coding (PictureSourceType.Coding source)
            ''PictureSource'' index ''PictureSelection''))) s" for s
    by (rule whenSome_entries, rule forEachI_entries) (simp add: checkSourceSelections_entries)
  have d: "whenSome (PDFSource sources) (forEachI (\<lambda>source index st'.
               checkSourceSelections (PDFSelection source) PDFSelectionType.guid
                   PDFSelectionType.Coding (PDFSourceType.Coding source)
                   ''PDFSource'' index ''PDFSelection''
                 (checkGuid (PDFSourceType.guid source) (idx ''Sources.PDFSource'' index) st'))) s
      = fold guidStep (optEntries (PDFSource sources) (eachEntry (\<lambda>source index.
        (PDFSourceType.guid source, idx ''Sources.PDFSource'' index)
        # selectionIdentifiers (PDFSelection source) PDFSelectionType.guid
            PDFSelectionType.Coding (PDFSourceType.Coding source)
            ''PDFSource'' index ''PDFSelection''))) s" for s
    by (rule whenSome_entries, rule forEachI_entries) (simp add: checkSourceSelections_entries)
  have a: "whenSome (AudioSource sources) (forEachI (\<lambda>source index st'.
               checkTranscripts (AudioSourceType.Transcript source) ''AudioSource'' index
                 (checkSourceSelections (AudioSelection source) AudioSelectionType.guid
                     AudioSelectionType.Coding (AudioSourceType.Coding source)
                     ''AudioSource'' index ''AudioSelection''
                   (checkGuid (AudioSourceType.guid source) (idx ''Sources.AudioSource'' index) st')))) s
      = fold guidStep (optEntries (AudioSource sources) (eachEntry (\<lambda>source index.
        (AudioSourceType.guid source, idx ''Sources.AudioSource'' index)
        # selectionIdentifiers (AudioSelection source) AudioSelectionType.guid
            AudioSelectionType.Coding (AudioSourceType.Coding source)
            ''AudioSource'' index ''AudioSelection''
        @ transcriptIdentifiers (AudioSourceType.Transcript source) ''AudioSource'' index))) s" for s
    by (rule whenSome_entries, rule forEachI_entries)
       (simp add: checkSourceSelections_entries checkTranscripts_entries)
  have v: "whenSome (VideoSource sources) (forEachI (\<lambda>source index st'.
               checkTranscripts (VideoSourceType.Transcript source) ''VideoSource'' index
                 (checkSourceSelections (VideoSelection source) VideoSelectionType.guid
                     VideoSelectionType.Coding (VideoSourceType.Coding source)
                     ''VideoSource'' index ''VideoSelection''
                   (checkGuid (VideoSourceType.guid source) (idx ''Sources.VideoSource'' index) st')))) s
      = fold guidStep (optEntries (VideoSource sources) (eachEntry (\<lambda>source index.
        (VideoSourceType.guid source, idx ''Sources.VideoSource'' index)
        # selectionIdentifiers (VideoSelection source) VideoSelectionType.guid
            VideoSelectionType.Coding (VideoSourceType.Coding source)
            ''VideoSource'' index ''VideoSelection''
        @ transcriptIdentifiers (VideoSourceType.Transcript source) ''VideoSource'' index))) s" for s
    by (rule whenSome_entries, rule forEachI_entries)
       (simp add: checkSourceSelections_entries checkTranscripts_entries)
  show ?thesis
    unfolding checkSourcesGuids_def sourceIdentifiers_def Let_def
    by (simp only: t p d a v fold_append comp_apply)
qed

lemma checkGraphsGuids_entries:
  "checkGraphsGuids graphs st = fold guidStep (graphIdentifiers graphs) st"
proof -
  have vx: "whenSome vs (forEachI (\<lambda>vertex vertexIndex.
              checkGuid (VertexType.guid vertex) (idx p vertexIndex))) s
        = fold guidStep (optEntries vs (eachEntry (\<lambda>vertex vertexIndex.
            [(VertexType.guid vertex, idx p vertexIndex)]))) s" for vs p s
    by (rule whenSome_entries, rule forEachI_entries) simp
  have ed: "whenSome es (forEachI (\<lambda>edge edgeIndex.
            checkGuid (EdgeType.guid edge) (idx p edgeIndex))) s
        = fold guidStep (optEntries es (eachEntry (\<lambda>edge edgeIndex.
            [(EdgeType.guid edge, idx p edgeIndex)]))) s" for es p s
    by (rule whenSome_entries, rule forEachI_entries) simp
  show ?thesis
    unfolding checkGraphsGuids_def graphIdentifiers_def
    by (rule forEachI_entries) (simp add: vx ed)
qed

lemma validateProjectGUIDs_entries:
  "validateProjectGUIDs project = fst (fold guidStep (visitedIdentifiers project) ([], Map.empty))"
proof -
  have u: "whenSome (Users project) (\<lambda>us. forEachI (\<lambda>user index.
               checkGuid (UserType.guid user) (idx ''Users.User'' index)) (User us)) s
      = fold guidStep (optEntries (Users project) (\<lambda>us. eachEntry (\<lambda>user index.
        [(UserType.guid user, idx ''Users.User'' index)]) (User us))) s" for s
    by (rule whenSome_entries, rule forEachI_entries) simp
  have c: "whenSome (CodeBook project) (\<lambda>cb.
               checkCodes (CodesType.Code (Codes cb)) ''CodeBook.Codes.Code'' 0) s
      = fold guidStep (optEntries (CodeBook project)
          (\<lambda>cb. codeIdentifiers (CodesType.Code (Codes cb)) ''CodeBook.Codes.Code'' 0)) s" for s
    by (rule whenSome_entries) (simp add: checkCodes_entries)
  have v: "whenSome (Variables project) (\<lambda>vs. forEachI (\<lambda>variable index.
               checkGuid (VariableType.guid variable) (idx ''Variables.Variable'' index)) (Variable vs)) s
      = fold guidStep (optEntries (Variables project) (\<lambda>vs. eachEntry (\<lambda>variable index.
        [(VariableType.guid variable, idx ''Variables.Variable'' index)]) (Variable vs))) s" for s
    by (rule whenSome_entries, rule forEachI_entries) simp
  have k: "whenSome (Cases project) (\<lambda>cs. forEachI (\<lambda>caseItem index.
               checkGuid (CaseType.guid caseItem) (idx ''Cases.Case'' index)) (Case cs)) s
      = fold guidStep (optEntries (Cases project) (\<lambda>cs. eachEntry (\<lambda>caseItem index.
        [(CaseType.guid caseItem, idx ''Cases.Case'' index)]) (Case cs))) s" for s
    by (rule whenSome_entries, rule forEachI_entries) simp
  have so: "whenSome (Sources project) checkSourcesGuids s
      = fold guidStep (optEntries (Sources project) sourceIdentifiers) s" for s
    by (rule whenSome_entries) (simp add: checkSourcesGuids_entries)
  have se: "whenSome (Sets project) (\<lambda>ss. forEachI (\<lambda>set index.
               checkGuid (SetType.guid set) (idx ''Sets.Set'' index)) (SetsType.Set ss)) s
      = fold guidStep (optEntries (Sets project) (\<lambda>ss. eachEntry (\<lambda>s index.
        [(SetType.guid s, idx ''Sets.Set'' index)]) (SetsType.Set ss))) s" for s
    by (rule whenSome_entries, rule forEachI_entries) simp
  have g: "whenSome (Graphs project) (\<lambda>gs. checkGraphsGuids (Graph gs)) s
      = fold guidStep (optEntries (Graphs project) (\<lambda>gs. graphIdentifiers (Graph gs))) s" for s
    by (rule whenSome_entries) (simp add: checkGraphsGuids_entries)
  have l: "whenSome (Links project) (\<lambda>ls. forEachI (\<lambda>link index.
               checkGuid (LinkType.guid link) (idx ''Links.Link'' index)) (Link ls)) s
      = fold guidStep (optEntries (Links project) (\<lambda>ls. eachEntry (\<lambda>link index.
        [(LinkType.guid link, idx ''Links.Link'' index)]) (Link ls))) s" for s
    by (rule whenSome_entries, rule forEachI_entries) simp
  show ?thesis
    unfolding validateProjectGUIDs_def visitedIdentifiers_def Let_def
    by (simp only: u c v k so se g l fold_append comp_apply)
qed

subsection \<open>One check after another\<close>

lemma guidPattern_test_nonempty: "guidPattern_test g \<Longrightarrow> g \<noteq> []"
  by (auto simp: guidPattern_test_def eval_nat_numeral)

lemma checkGuid_fresh:
  "guidPattern_test g \<Longrightarrow> m g = None \<Longrightarrow> checkGuid g c (errs, m) = (errs, m(g \<mapsto> c))"
  using guidPattern_test_nonempty[of g] by (simp add: checkGuid_def)

lemma checkGuid_seen:
  "guidPattern_test g \<Longrightarrow> m g = Some c0 \<Longrightarrow>
   checkGuid g c (errs, m) = (errs @ [''Duplicate GUID '' @ g @ '' in '' @ c @ '' and '' @ c0], m)"
  using guidPattern_test_nonempty[of g] by (simp add: checkGuid_def)

lemma entered_other: "g \<notin> fst ` set es \<Longrightarrow> entered es m g = m g"
  unfolding entered_def by (induction es arbitrary: m) auto

lemma fold_checkGuid_fresh:
  assumes "list_all (\<lambda>e. guidPattern_test (fst e)) es"
      and "distinct (map fst es)"
      and "\<And>g. g \<in> fst ` set es \<Longrightarrow> m g = None"
  shows "fold (\<lambda>(g, c). checkGuid g c) es (errs, m) = (errs, entered es m)"
  using assms
proof (induction es arbitrary: m)
  case Nil
  then show ?case by (simp add: entered_def)
next
  case (Cons e es)
  obtain g c where e: "e = (g, c)" by (cases e)
  have valid: "guidPattern_test g" and fresh: "m g = None"
    using Cons.prems by (auto simp: e)
  have rest: "fold (\<lambda>(g, c). checkGuid g c) es (errs, m(g \<mapsto> c)) = (errs, entered es (m(g \<mapsto> c)))"
  proof (rule Cons.IH)
    show "list_all (\<lambda>e. guidPattern_test (fst e)) es" using Cons.prems(1) by simp
    show "distinct (map fst es)" using Cons.prems(2) by simp
    fix g' assume g': "g' \<in> fst ` set es"
    then have "g' \<noteq> g" using Cons.prems(2) by (auto simp: e)
    moreover have "m g' = None" using Cons.prems(3)[of g'] g' by simp
    ultimately show "(m(g \<mapsto> c)) g' = None" by simp
  qed
  show ?case
    using checkGuid_fresh[of g m c errs] valid fresh by (simp add: e rest entered_def)
qed

lemma fold_checkGuid_one_duplicate:
  assumes valid: "list_all (\<lambda>e. guidPattern_test (fst e)) (xs @ (g, c1) # ys @ (g, c2) # zs)"
      and others: "distinct (map fst (xs @ (g, c1) # ys @ zs))"
  shows "fst (fold (\<lambda>(g, c). checkGuid g c) (xs @ (g, c1) # ys @ (g, c2) # zs) ([], Map.empty))
         = [''Duplicate GUID '' @ g @ '' in '' @ c2 @ '' and '' @ c1]"
proof -
  let ?step = "\<lambda>(g, c). checkGuid g c"
  let ?m1 = "entered xs Map.empty"
  let ?m2 = "?m1(g \<mapsto> c1)"
  let ?m3 = "entered ys ?m2"
  let ?dup = "''Duplicate GUID '' @ g @ '' in '' @ c2 @ '' and '' @ c1"
  have g_valid: "guidPattern_test g" using valid by simp
  have g_xs: "g \<notin> fst ` set xs" and g_ys: "g \<notin> fst ` set ys" and g_zs: "g \<notin> fst ` set zs"
    using others by auto
  have s1: "fold ?step xs ([], Map.empty) = ([], ?m1)"
    by (rule fold_checkGuid_fresh) (use valid others in auto)
  have m1_g: "?m1 g = None" using entered_other[OF g_xs, of Map.empty] by simp
  have s2: "checkGuid g c1 ([], ?m1) = ([], ?m2)"
    using checkGuid_fresh[of g ?m1 c1 "[]"] g_valid m1_g by simp
  have s3: "fold ?step ys ([], ?m2) = ([], ?m3)"
  proof (rule fold_checkGuid_fresh)
    show "list_all (\<lambda>e. guidPattern_test (fst e)) ys" using valid by simp
    show "distinct (map fst ys)" using others by simp
    fix g' assume g': "g' \<in> fst ` set ys"
    then have "g' \<noteq> g" and "g' \<notin> fst ` set xs" using others by auto
    then show "?m2 g' = None" using entered_other[of g' xs Map.empty] by simp
  qed
  have m3_g: "?m3 g = Some c1" using entered_other[OF g_ys, of ?m2] by simp
  have s4: "checkGuid g c2 ([], ?m3) = ([?dup], ?m3)"
    using checkGuid_seen[of g ?m3 c1 c2 "[]"] g_valid m3_g by simp
  have s5: "fold ?step zs ([?dup], ?m3) = ([?dup], entered zs ?m3)"
  proof (rule fold_checkGuid_fresh)
    show "list_all (\<lambda>e. guidPattern_test (fst e)) zs" using valid by simp
    show "distinct (map fst zs)" using others by simp
    fix g' assume g': "g' \<in> fst ` set zs"
    then have ne: "g' \<noteq> g" and nx: "g' \<notin> fst ` set xs" and ny: "g' \<notin> fst ` set ys"
      using others by auto
    have "?m3 g' = ?m2 g'" by (rule entered_other[OF ny])
    also have "\<dots> = ?m1 g'" using ne by simp
    also have "\<dots> = None" using entered_other[OF nx, of Map.empty] by simp
    finally show "?m3 g' = None" .
  qed
  have "fold ?step (xs @ (g, c1) # ys @ (g, c2) # zs) ([], Map.empty)
        = fold ?step zs (checkGuid g c2 (fold ?step ys (checkGuid g c1 (fold ?step xs ([], Map.empty)))))"
    by simp
  then show ?thesis by (simp only: s1 s2 s3 s4 s5 fst_conv)
qed

lemma visitedIdentifiers_projectWithUsers:
  "visitedIdentifiers (projectWithUsers [a, b, c])
     = [(a, ''Users.User[0]''), (b, ''Users.User[1]''), (c, ''Users.User[2]'')]"
  by (simp add: visitedIdentifiers_def projectWithUsers_def projectNamed_def optEntries_def
      eachEntry_def userWith_def idx_def decimal.simps digit_def)

lemma guidPattern_test_examples:
  "guidPattern_test ''11111111-1111-1111-1111-111111111111''"
  "guidPattern_test ''22222222-2222-2222-2222-222222222222''"
  "\<not> guidPattern_test ''{11111111-1111-1111-1111-111111111111}''"
  by code_simp+

text \<open>
  Notes are not among the entity kinds the check goes through: two notes that share an
  identifier are not reported.
\<close>

lemma validateProjectGUIDs_skips_notes:
  "validateProjectGUIDs (projectWithNotes
      [''11111111-1111-1111-1111-111111111111'', ''11111111-1111-1111-1111-111111111111'']) = []"
  by code_simp

subsection \<open>The claim\<close>

text \<open>
  Two users that share the brace-wrapped identifier
  \<^verbatim>\<open>{11111111-1111-1111-1111-111111111111}\<close>: the pattern of the check does not admit the
  braces, \<^verbatim>\<open>checkGuid\<close> returns before it looks the identifier up, and the result is two
  format issues and no duplicate issue.
\<close>

theorem validateProjectGUIDs_no_duplicate_for_braced:
  "validateProjectGUIDs (projectWithUsers
      [''{11111111-1111-1111-1111-111111111111}'', ''{11111111-1111-1111-1111-111111111111}''])
   = [''Invalid GUID format in Users.User[0]: {11111111-1111-1111-1111-111111111111}'',
      ''Invalid GUID format in Users.User[1]: {11111111-1111-1111-1111-111111111111}'']"
  by code_simp

text \<open>
  C5. Take the identifiers that \<^verbatim>\<open>validateProjectGUIDs\<close> checks, in the order of its
  traversal (users, codes with their nested codes, variables, cases, the five source lists
  with their selections, codings, transcripts and sync points, sets, graphs with their
  vertices and edges, links).  If all of them match the pattern of five hexadecimal groups,
  and one identifier \<open>g\<close> occurs at two places, \<open>first\<close> before \<open>second\<close>, while the
  identifiers at all other places are distinct from each other and from \<open>g\<close>, then the
  result is exactly one issue: the duplicate issue for \<open>g\<close> that names \<open>second\<close> and then
  \<open>first\<close>.  Whichever of the two entities the traversal reaches first, the issue is
  reported at the other.
\<close>

theorem validateProjectGUIDs_one_duplicate:
  assumes "visitedIdentifiers project = xs @ (g, first) # ys @ (g, second) # zs"
      and "list_all (\<lambda>e. guidPattern_test (fst e)) (visitedIdentifiers project)"
      and "distinct (map fst (xs @ (g, first) # ys @ zs))"
  shows "validateProjectGUIDs project
         = [''Duplicate GUID '' @ g @ '' in '' @ second @ '' and '' @ first]"
  using fold_checkGuid_one_duplicate[of xs g first ys second zs] assms
  by (simp add: validateProjectGUIDs_entries)

theorem validateProjectGUIDs_one_duplicate_witness:
  "validateProjectGUIDs (projectWithUsers
      [''11111111-1111-1111-1111-111111111111'', ''22222222-2222-2222-2222-222222222222'',
       ''11111111-1111-1111-1111-111111111111''])
   = [''Duplicate GUID 11111111-1111-1111-1111-111111111111 in Users.User[2] and Users.User[0]'']"
  using validateProjectGUIDs_one_duplicate[of
      "projectWithUsers
        [''11111111-1111-1111-1111-111111111111'', ''22222222-2222-2222-2222-222222222222'',
         ''11111111-1111-1111-1111-111111111111'']"
      "[]" "''11111111-1111-1111-1111-111111111111''" "''Users.User[0]''"
      "[(''22222222-2222-2222-2222-222222222222'', ''Users.User[1]'')]" "''Users.User[2]''" "[]"]
  by (simp add: visitedIdentifiers_projectWithUsers guidPattern_test_examples)

section \<open>Address classification\<close>

text \<open>
  C7.  Address classification is total and exclusive: every string gets exactly one of
  the three kinds; the kind is internal exactly for the addresses that start with
  \<^verbatim>\<open>internal://\<close>, absolute exactly for those that start with \<^verbatim>\<open>absolute://\<close>, and
  relative for every other string: for those that start with \<^verbatim>\<open>relative://\<close> and for
  those with no recognised prefix.
\<close>

theorem getSourceType_total_exclusive:
  "(\<exists>!k. getSourceType s = k)
   \<and> (getSourceType s = internal \<longleftrightarrow> startsWith s ''internal://'')
   \<and> (getSourceType s = absolute \<longleftrightarrow> startsWith s ''absolute://'')
   \<and> (getSourceType s = relative \<longleftrightarrow>
        \<not> startsWith s ''internal://'' \<and> \<not> startsWith s ''absolute://'')
   \<and> (startsWith s ''relative://'' \<longrightarrow> getSourceType s = relative)"
  by (auto simp: getSourceType_def startsWith_def)

theorem getSourceType_total_exclusive_witness:
  "getSourceType ''relative://docs/a.txt'' = relative
   \<and> getSourceType ''internal://a.txt'' = internal
   \<and> getSourceType ''absolute:///C:/a.txt'' = absolute
   \<and> getSourceType ''docs/a.txt'' = relative"
  using getSourceType_total_exclusive [of "''relative://docs/a.txt''"]
        getSourceType_total_exclusive [of "''internal://a.txt''"]
        getSourceType_total_exclusive [of "''absolute:///C:/a.txt''"]
        getSourceType_total_exclusive [of "''docs/a.txt''"]
  by (simp add: startsWith_def)

section \<open>What makes parsing fail\<close>















section \<open>Numbers in the document\<close>


















section \<open>The size limit of the export\<close>




text \<open>
  C6.  A limit of zero, a file of one byte (the limit plus one), embedding switched on:
  the claim keeps the file external; the export embeds it under a new name and rewrites
  the address of the copy's source to the internal scheme.
\<close>

theorem exportQDPX_limit_zero_embeds_larger_file:
  "written (exportQDPX (exampleHost [(''/data/a.png'', ''x'')]) (pictureHeap ''absolute:///data/a.png'') 1
              ''/out/p.qdpx'' (optionsWith (Some (Num 0)) None))
     = Some (''/out/p.qdpx'', \<lparr>manifest = ''<Project/>'', entries = [(''id0.png'', ''x'')]\<rparr>)
   \<and> heap (exportQDPX (exampleHost [(''/data/a.png'', ''x'')]) (pictureHeap ''absolute:///data/a.png'') 1
              ''/out/p.qdpx'' (optionsWith (Some (Num 0)) None)) ! 2
     = SourceCell (PictureObject (pictureAt' ''g1'' ''internal://id0.png''))"
  by code_simp


end
